theory Spec2Isabelle
  imports
    Main
    "HOL-Library.Char_ord"
    "HOL-Library.List_Lexorder"
    "HOL-Library.Product_Lexorder"
    "HOL-Library.Sublist"
begin

section \<open>Shared data: bug and patch dictionaries\<close>

text \<open>
  The tools exchange Python dictionaries. A dictionary with a known key set is a record
  whose fields are options: \<open>None\<close> is a missing key, and every \<open>d.get(k, default)\<close> of
  the source is a \<open>case\<close> on the field with that default.
\<close>

record bug_dict =
  b_file :: "string option"
  b_line :: "int option"
  b_bug_type :: "string option"
  b_message :: "string option"
  b_severity :: "string option"
  b_fix_hint :: "string option"
  b_escalate_to_llm :: "bool option"

definition empty_bug :: bug_dict where
  "empty_bug = \<lparr>b_file = None, b_line = None, b_bug_type = None, b_message = None,
     b_severity = None, b_fix_hint = None, b_escalate_to_llm = None\<rparr>"

definition get_or :: "'a option \<Rightarrow> 'a \<Rightarrow> 'a" where
  "get_or v d = (case v of None \<Rightarrow> d | Some x \<Rightarrow> x)"

text \<open>A result of \<open>PatchApplierTool._apply_one\<close> (keys bug, status, reason, method,
  description, file, patch).\<close>

record patch_dict =
  p_bug :: "bug_dict option"
  p_status :: string
  p_reason :: "string option"
  p_method :: "string option"
  p_description :: "string option"
  p_file :: "string option"
  p_patch :: "string list option"

section \<open>Run memory (agents/run\_memory.py)\<close>

record FailureRecord =
  fr_file :: string
  fr_line :: int
  fr_bug_type :: string
  fr_standardized_message :: string
  fr_iteration :: int

record FixRecord =
  fx_file :: string
  fx_line :: int
  fx_change_summary :: string
  fx_commit_hash :: string
  fx_iteration :: int

record CIRunRecord =
  cr_iteration :: int
  cr_status :: string
  cr_start_time :: string
  cr_end_time :: string

record RunMemory =
  mem_failures :: "FailureRecord list"
  mem_fixes :: "FixRecord list"
  mem_ci_runs :: "CIRunRecord list"

definition RunMemory_init :: RunMemory where
  "RunMemory_init = \<lparr>mem_failures = [], mem_fixes = [], mem_ci_runs = []\<rparr>"

text \<open>The read-only properties \<open>failures\<close> and \<open>fixes\<close> (here \<open>sorted_failures\<close> and
  \<open>sorted_fixes\<close>) are sorted by (file, line); Python's \<open>sorted\<close> is stable, as
  \<open>sort_key\<close> is. The property \<open>ci_runs\<close> is a copy.\<close>

definition sorted_failures :: "RunMemory \<Rightarrow> FailureRecord list" where
  "sorted_failures m = sort_key (\<lambda>f. (fr_file f, fr_line f)) (mem_failures m)"

definition sorted_fixes :: "RunMemory \<Rightarrow> FixRecord list" where
  "sorted_fixes m = sort_key (\<lambda>f. (fx_file f, fx_line f)) (mem_fixes m)"

definition ci_runs :: "RunMemory \<Rightarrow> CIRunRecord list" where
  "ci_runs m = mem_ci_runs m"

definition failure_of_bug :: "int \<Rightarrow> bug_dict \<Rightarrow> FailureRecord" where
  "failure_of_bug iteration bug =
     \<lparr>fr_file = get_or (b_file bug) ''unknown'',
      fr_line = get_or (b_line bug) 0,
      fr_bug_type = get_or (b_bug_type bug) ''unknown'',
      fr_standardized_message = get_or (b_message bug) '''',
      fr_iteration = iteration\<rparr>"

definition append_failures :: "int \<Rightarrow> bug_dict list \<Rightarrow> RunMemory \<Rightarrow> RunMemory" where
  "append_failures iteration classified_bugs m =
     m\<lparr>mem_failures :=
         filter (\<lambda>f. fr_iteration f \<noteq> iteration) (mem_failures m)
         @ map (failure_of_bug iteration) classified_bugs\<rparr>"

definition fix_of_patch :: "int \<Rightarrow> string \<Rightarrow> patch_dict \<Rightarrow> FixRecord" where
  "fix_of_patch iteration commit_hash patch =
     (let bug = get_or (p_bug patch) empty_bug in
      \<lparr>fx_file = get_or (p_file patch) (get_or (b_file bug) ''unknown''),
       fx_line = get_or (b_line bug) 0,
       fx_change_summary = get_or (p_description patch) '''',
       fx_commit_hash = commit_hash,
       fx_iteration = iteration\<rparr>)"

definition append_fixes :: "int \<Rightarrow> patch_dict list \<Rightarrow> string \<Rightarrow> RunMemory \<Rightarrow> RunMemory" where
  "append_fixes iteration applied_patches commit_hash m =
     m\<lparr>mem_fixes :=
         filter (\<lambda>f. fx_iteration f \<noteq> iteration) (mem_fixes m)
         @ map (fix_of_patch iteration commit_hash) applied_patches\<rparr>"

text \<open>
  \<open>append_ci_run\<close> reads the clock when \<open>start_time\<close> or \<open>end_time\<close> is empty. The two
  readings \<open>datetime.now(timezone.utc).isoformat()\<close> are the inputs \<open>now1\<close> and \<open>now2\<close>.
\<close>

definition append_ci_run ::
  "int \<Rightarrow> string \<Rightarrow> string \<Rightarrow> string \<Rightarrow> string \<Rightarrow> string \<Rightarrow> RunMemory \<Rightarrow> RunMemory" where
  "append_ci_run iteration status start_time end_time now1 now2 m =
     m\<lparr>mem_ci_runs :=
         filter (\<lambda>r. cr_iteration r \<noteq> iteration) (mem_ci_runs m)
         @ [\<lparr>cr_iteration = iteration, cr_status = status,
             cr_start_time = (if start_time = [] then now1 else start_time),
             cr_end_time = (if end_time = [] then now2 else end_time)\<rparr>]\<rparr>"

definition latest_ci_run :: "RunMemory \<Rightarrow> CIRunRecord option" where
  "latest_ci_run m = (if mem_ci_runs m = [] then None else Some (last (mem_ci_runs m)))"

definition failures_for_iteration :: "RunMemory \<Rightarrow> int \<Rightarrow> FailureRecord list" where
  "failures_for_iteration m iteration = filter (\<lambda>f. fr_iteration f = iteration) (mem_failures m)"

definition fixes_for_iteration :: "RunMemory \<Rightarrow> int \<Rightarrow> FixRecord list" where
  "fixes_for_iteration m iteration = filter (\<lambda>f. fx_iteration f = iteration) (mem_fixes m)"

section \<open>Final CI status (shared/results\_exporter.py)\<close>

definition resolve_final_ci_status :: "RunMemory \<Rightarrow> string" where
  "resolve_final_ci_status m =
     (case latest_ci_run m of
        None \<Rightarrow> (if sorted_failures m = [] then ''PASSED'' else ''FAILED'')
      | Some latest \<Rightarrow> (if cr_status latest = ''success'' then ''PASSED'' else ''FAILED''))"

section \<open>Strings and patterns\<close>

text \<open>
  A Python \<open>str\<close> is a \<open>string\<close> holding its UTF-8 bytes. White space is what
  \<open>str.isspace\<close> accepts: the ASCII characters TAB to CR, FS to US and SPACE, and U+0085,
  U+00A0, U+1680, U+2000 to U+200A, U+2028, U+2029, U+202F, U+205F and U+3000, each in its
  UTF-8 form.
\<close>

definition WHITESPACE :: "string list" where
  "WHITESPACE =
     map (\<lambda>c. [c]) [CHR 0x09, CHR 0x0A, CHR 0x0B, CHR 0x0C, CHR 0x0D,
                     CHR 0x1C, CHR 0x1D, CHR 0x1E, CHR 0x1F, CHR 0x20]
     @ [[CHR 0xC2, CHR 0x85], [CHR 0xC2, CHR 0xA0], [CHR 0xE1, CHR 0x9A, CHR 0x80]]
     @ map (\<lambda>c. [CHR 0xE2, CHR 0x80, c])
         [CHR 0x80, CHR 0x81, CHR 0x82, CHR 0x83, CHR 0x84, CHR 0x85, CHR 0x86, CHR 0x87,
          CHR 0x88, CHR 0x89, CHR 0x8A, CHR 0xA8, CHR 0xA9, CHR 0xAF]
     @ [[CHR 0xE2, CHR 0x81, CHR 0x9F], [CHR 0xE3, CHR 0x80, CHR 0x80]]"

text \<open>
  \<open>strip_front ws s\<close> removes from the front of \<open>s\<close> every leading occurrence of one of
  the byte sequences \<open>ws\<close>; \<open>count_front ws s\<close> is the number of occurrences removed, the
  number of code points that \<open>len(s) - len(s.lstrip())\<close> counts.
\<close>

fun strip_front :: "string list \<Rightarrow> string \<Rightarrow> string" where
  "strip_front ws [] = []"
| "strip_front ws (c # cs) =
     (case List.find (\<lambda>w. prefix w (c # cs)) ws of
        Some w \<Rightarrow> strip_front ws (drop (length w - 1) cs)
      | None \<Rightarrow> c # cs)"

fun count_front :: "string list \<Rightarrow> string \<Rightarrow> nat" where
  "count_front ws [] = 0"
| "count_front ws (c # cs) =
     (case List.find (\<lambda>w. prefix w (c # cs)) ws of
        Some w \<Rightarrow> Suc (count_front ws (drop (length w - 1) cs))
      | None \<Rightarrow> 0)"

definition starts_with_space :: "string \<Rightarrow> bool" where
  "starts_with_space s = list_ex (\<lambda>w. prefix w s) WHITESPACE"

definition lstrip :: "string \<Rightarrow> string" where
  "lstrip s = strip_front WHITESPACE s"

definition rstrip :: "string \<Rightarrow> string" where
  "rstrip s = rev (strip_front (map rev WHITESPACE) (rev s))"

definition strip :: "string \<Rightarrow> string" where
  "strip s = rstrip (lstrip s)"

definition lower_char :: "char \<Rightarrow> char" where
  "lower_char c = (if CHR ''A'' \<le> c \<and> c \<le> CHR ''Z'' then char_of (of_char c + (32::nat)) else c)"

text \<open>
  \<open>str.lower()\<close>: the ASCII letters, and the two code points beyond ASCII whose lower
  case holds an ASCII letter, U+212A (to \<open>k\<close>) and U+0130 (to \<open>i\<close> and U+0307). Every other
  code point beyond ASCII is left as it is; its lower case has no ASCII character, so a
  search for an ASCII pattern in the result gives what it gives in Python.
\<close>

function lower :: "string \<Rightarrow> string" where
  "lower [] = []"
| "lower (c # cs) =
     (if prefix [CHR 0xE2, CHR 0x84, CHR 0xAA] (c # cs) then CHR ''k'' # lower (drop 2 cs)
      else if prefix [CHR 0xC4, CHR 0xB0] (c # cs) then [CHR ''i'', CHR 0xCC, CHR 0x87] @ lower (drop 1 cs)
      else lower_char c # lower cs)"
  by pat_completeness auto
termination
  by (relation "measure length") simp_all

declare lower.simps(2) [simp del]

text \<open>
  \<open>Path.read_text(encoding="utf-8", errors="replace")\<close> gives the bytes of a file as
  text: every ill-formed part of the byte sequence becomes U+FFFD, and then CR LF and CR
  become LF (universal newlines). \<open>utf8_more c cs\<close> is the decoder's step at the byte
  \<open>c\<close> followed by \<open>cs\<close>: how many of the following bytes it takes with \<open>c\<close>, and
  whether the bytes taken are a code point; bytes taken that are none (an invalid start
  byte, a sequence broken off by a byte that cannot continue it or by the end of the data)
  are replaced as one.
\<close>

definition is_cont :: "char \<Rightarrow> bool" where
  "is_cont c = (CHR 0x80 \<le> c \<and> c \<le> CHR 0xBF)"

definition utf8_more :: "char \<Rightarrow> string \<Rightarrow> nat \<times> bool" where
  "utf8_more c cs =
     (if c < CHR 0x80 then (0, True)
      else if c < CHR 0xC2 then (0, False)
      else if c < CHR 0xE0 then
        (case cs of
           [] \<Rightarrow> (0, False)
         | c2 # r \<Rightarrow> if is_cont c2 then (1, True) else (0, False))
      else if c < CHR 0xF0 then
        (case cs of
           [] \<Rightarrow> (0, False)
         | c2 # r \<Rightarrow>
             if \<not> is_cont c2 \<or> (c = CHR 0xE0 \<and> c2 < CHR 0xA0) \<or> (c = CHR 0xED \<and> CHR 0xA0 \<le> c2)
             then (0, False)
             else (case r of
                     [] \<Rightarrow> (1, False)
                   | c3 # r2 \<Rightarrow> if is_cont c3 then (2, True) else (1, False)))
      else if c < CHR 0xF5 then
        (case cs of
           [] \<Rightarrow> (0, False)
         | c2 # r \<Rightarrow>
             if \<not> is_cont c2 \<or> (c = CHR 0xF0 \<and> c2 < CHR 0x90) \<or> (c = CHR 0xF4 \<and> CHR 0x90 \<le> c2)
             then (0, False)
             else (case r of
                     [] \<Rightarrow> (1, False)
                   | c3 # r2 \<Rightarrow>
                       if \<not> is_cont c3 then (1, False)
                       else (case r2 of
                               [] \<Rightarrow> (2, False)
                             | c4 # r3 \<Rightarrow> if is_cont c4 then (3, True) else (2, False))))
      else (0, False))"

fun decode_replace :: "string \<Rightarrow> string" where
  "decode_replace [] = []"
| "decode_replace (c # cs) =
     (if snd (utf8_more c cs) then c # take (fst (utf8_more c cs)) cs
      else [CHR 0xEF, CHR 0xBF, CHR 0xBD])
     @ decode_replace (drop (fst (utf8_more c cs)) cs)"

fun universal_newlines :: "string \<Rightarrow> string" where
  "universal_newlines [] = []"
| "universal_newlines [c] = [if c = CHR 0x0D then CHR 0x0A else c]"
| "universal_newlines (c # d # cs) =
     (if c = CHR 0x0D \<and> d = CHR 0x0A then CHR 0x0A # universal_newlines cs
      else if c = CHR 0x0D then CHR 0x0A # universal_newlines (d # cs)
      else c # universal_newlines (d # cs))"

definition read_text_of :: "string \<Rightarrow> string" where
  "read_text_of bytes = universal_newlines (decode_replace bytes)"

text \<open>\<open>w in s\<close>, \<open>s.startswith(w)\<close> and \<open>s.endswith(w)\<close>.\<close>

definition py_in :: "string \<Rightarrow> string \<Rightarrow> bool" where
  "py_in w s = sublist w s"

definition startswith :: "string \<Rightarrow> string \<Rightarrow> bool" where
  "startswith s w = prefix w s"

definition endswith :: "string \<Rightarrow> string \<Rightarrow> bool" where
  "endswith s w = suffix w s"

text \<open>
  The file-name patterns of the source are regular expressions of a small fragment:
  literals, \<open>[^c]+\<close>, sequence, alternative and the anchors \<open>^\<close> and \<open>$\<close> (without
  \<open>re.MULTILINE\<close>: \<open>^\<close> matches at the start only, \<open>$\<close> at the end and before a
  newline that ends the string). \<open>ends r s i\<close> lists the positions where a match of
  \<open>r\<close> that starts at position \<open>i\<close> of \<open>s\<close> can end; \<open>re_search\<close> is
  \<open>pattern.search(s) is not None\<close>.
\<close>

datatype rx = Lit string | PlusNot char | Seq rx rx | Alt rx rx | Bol | Eol

fun ends :: "rx \<Rightarrow> string \<Rightarrow> nat \<Rightarrow> nat list" where
  "ends (Lit w) s i = (if take (length w) (drop i s) = w then [i + length w] else [])"
| "ends (PlusNot c) s i =
     map (\<lambda>k. i + k) [1 ..< Suc (length (takeWhile (\<lambda>x. x \<noteq> c) (drop i s)))]"
| "ends (Seq a b) s i = concat (map (ends b s) (ends a s i))"
| "ends (Alt a b) s i = ends a s i @ ends b s i"
| "ends Bol s i = (if i = 0 then [i] else [])"
| "ends Eol s i =
     (if i = length s \<or> (Suc i = length s \<and> s ! i = CHR 0x0A) then [i] else [])"

definition re_search :: "rx \<Rightarrow> string \<Rightarrow> bool" where
  "re_search r s = list_ex (\<lambda>i. ends r s i \<noteq> []) [0 ..< Suc (length s)]"

fun seqs :: "rx list \<Rightarrow> rx" where
  "seqs [] = Lit []"
| "seqs [r] = r"
| "seqs (r # rs) = Seq r (seqs rs)"

fun alts :: "string list \<Rightarrow> rx" where
  "alts [] = Lit []"
| "alts [w] = Lit w"
| "alts (w # ws) = Alt (Lit w) (alts ws)"

text \<open>\<open>(^|/)\<close>, the start of a path component.\<close>

definition comp_start :: rx where
  "comp_start = Alt Bol (Lit ''/'')"

text \<open>Decimal rendering of an integer, as \<open>str(n)\<close> and \<open>f"{n}"\<close> give it.\<close>

definition digit_char :: "nat \<Rightarrow> char" where
  "digit_char d = ''0123456789'' ! d"

function str_nat :: "nat \<Rightarrow> string" where
  "str_nat n = (if n < 10 then [digit_char n] else str_nat (n div 10) @ [digit_char (n mod 10)])"
  by pat_completeness auto
termination
  by (relation "measure id") simp_all

declare str_nat.simps [simp del]

definition str_int :: "int \<Rightarrow> string" where
  "str_int i = (if i < 0 then CHR ''-'' # str_nat (nat (- i)) else str_nat (nat i))"

text \<open>Patterns without \<open>^\<close>: their matches do not depend on what precedes them.\<close>

fun bol_free :: "rx \<Rightarrow> bool" where
  "bol_free (Lit w) = True"
| "bol_free (PlusNot c) = True"
| "bol_free (Seq a b) = (bol_free a \<and> bol_free b)"
| "bol_free (Alt a b) = (bol_free a \<and> bol_free b)"
| "bol_free Bol = False"
| "bol_free Eol = True"

section \<open>Failure classification (agents/bug\_classifier/error\_classifier.py)\<close>

datatype BugType = LINTING | SYNTAX | LOGIC | TYPE_ERROR | IMPORT | INDENTATION

fun BugType_value :: "BugType \<Rightarrow> string" where
  "BugType_value LINTING = ''LINTING''"
| "BugType_value SYNTAX = ''SYNTAX''"
| "BugType_value LOGIC = ''LOGIC''"
| "BugType_value TYPE_ERROR = ''TYPE_ERROR''"
| "BugType_value IMPORT = ''IMPORT''"
| "BugType_value INDENTATION = ''INDENTATION''"

record BugReport =
  br_file :: string
  br_line :: int
  br_bug_type :: string
  br_message :: string

definition bug_key :: "BugReport \<Rightarrow> string \<times> int \<times> string" where
  "bug_key b = (br_file b, br_line b, br_bug_type b)"

text \<open>
  The regular-expression engine is Python's. One match of a rule's pattern is given by
  what the source reads from it: the groups \<open>file\<close>, \<open>line\<close> (as \<open>int(...)\<close> reads it) and
  \<open>detail\<close>, and the span. A rule of \<open>_REGEX_RULES\<close> comes with the matches that
  \<open>pattern.finditer(log)\<close> yields for it, in that order. A message template is the text
  before and after its \<open>{detail}\<close> field.
\<close>

record re_match =
  m_file :: string
  m_line :: int
  m_detail :: string
  m_start :: nat
  m_end :: nat

type_synonym rule_matches = "BugType \<times> (string \<times> string) \<times> re_match list"

definition format_message :: "string \<times> string \<Rightarrow> string \<Rightarrow> string" where
  "format_message tpl detail =
     (if detail \<noteq> [] then fst tpl @ strip detail @ snd tpl
      else fst tpl @ ''{detail}'' @ snd tpl)"

definition report_of_match :: "BugType \<Rightarrow> string \<times> string \<Rightarrow> re_match \<Rightarrow> BugReport" where
  "report_of_match bug_type tpl m =
     \<lparr>br_file = m_file m, br_line = m_line m, br_bug_type = BugType_value bug_type,
      br_message = format_message tpl (m_detail m)\<rparr>"

text \<open>The body of the inner loop of \<open>_regex_classify\<close>: a match whose key is already
  recorded is skipped, any other is appended together with its span.\<close>

definition match_step ::
  "BugType \<Rightarrow> string \<times> string \<Rightarrow> BugReport list \<times> (nat \<times> nat) list \<Rightarrow> re_match
   \<Rightarrow> BugReport list \<times> (nat \<times> nat) list" where
  "match_step bug_type tpl acc m =
     (let key = (m_file m, m_line m, BugType_value bug_type) in
      if list_ex (\<lambda>b. bug_key b = key) (fst acc) then acc
      else (fst acc @ [report_of_match bug_type tpl m], snd acc @ [(m_start m, m_end m)]))"

definition rule_step ::
  "BugReport list \<times> (nat \<times> nat) list \<Rightarrow> rule_matches \<Rightarrow> BugReport list \<times> (nat \<times> nat) list" where
  "rule_step acc rule = (case rule of (bug_type, tpl, ms) \<Rightarrow> foldl (match_step bug_type tpl) acc ms)"

text \<open>What \<open>match_step\<close> does to the list of bugs, as a function of the report.\<close>

definition add_bug :: "BugReport list \<Rightarrow> BugReport \<Rightarrow> BugReport list" where
  "add_bug bugs b = (if list_ex (\<lambda>x. bug_key x = bug_key b) bugs then bugs else bugs @ [b])"

text \<open>The bugs and matched spans that \<open>_regex_classify\<close> collects.\<close>

definition regex_classify :: "rule_matches list \<Rightarrow> BugReport list \<times> (nat \<times> nat) list" where
  "regex_classify rules = foldl rule_step ([], []) rules"

text \<open>Every match of every rule as the report it would give, in the order of the loops.\<close>

definition candidates :: "rule_matches list \<Rightarrow> BugReport list" where
  "candidates rules =
     concat (map (\<lambda>rule. case rule of (bug_type, tpl, ms) \<Rightarrow> map (report_of_match bug_type tpl) ms) rules)"

text \<open>The loop \<open>for b in xs: if key not in seen: seen.add(key); unique.append(b)\<close>.\<close>

fun unique_by :: "('a \<Rightarrow> 'k) \<Rightarrow> 'k set \<Rightarrow> 'a list \<Rightarrow> 'a list" where
  "unique_by key seen [] = []"
| "unique_by key seen (b # bs) =
     (if key b \<in> seen then unique_by key seen bs
      else b # unique_by key (insert (key b) seen) bs)"

subsection \<open>Re-attribution from test files to source files\<close>

definition TEST_FILE_RE :: "rx list" where
  "TEST_FILE_RE =
     [seqs [comp_start, Lit ''test_'', PlusNot CHR ''/'', Lit ''.py'', Eol],
      seqs [comp_start, PlusNot CHR ''/'', Lit ''_test.py'', Eol],
      seqs [comp_start, Lit ''test'', Alt (Lit ''s'') (Lit []), Lit ''/''],
      seqs [comp_start, Lit ''conftest.py'', Eol],
      seqs [comp_start, Lit ''__tests__/'']]"

definition is_test_path :: "string \<Rightarrow> bool" where
  "is_test_path filepath = list_ex (\<lambda>p. re_search p filepath) TEST_FILE_RE"

definition source_ref_ok :: "string \<times> int \<Rightarrow> bool" where
  "source_ref_ok ref =
     (\<not> is_test_path (fst ref)
      \<and> \<not> py_in ''/site-packages/'' (fst ref)
      \<and> \<not> startswith (fst ref) ''/usr/''
      \<and> \<not> startswith (fst ref) ''<'')"

definition strip_workspace :: "string \<Rightarrow> string" where
  "strip_workspace src_file =
     (if startswith src_file ''/workspace/'' then drop (length ''/workspace/'') src_file
      else src_file)"

definition infer_bug_type :: "string \<Rightarrow> string" where
  "infer_bug_type error_msg =
     (let el = lower error_msg in
      if py_in ''indexerror'' el then BugType_value LOGIC
      else if py_in ''zerodivisionerror'' el then BugType_value LOGIC
      else if py_in ''recursionerror'' el then BugType_value LOGIC
      else if py_in ''typeerror'' el then BugType_value TYPE_ERROR
      else if py_in ''importerror'' el \<or> py_in ''modulenotfound'' el then BugType_value IMPORT
      else if py_in ''syntaxerror'' el then BugType_value SYNTAX
      else if py_in ''indentationerror'' el then BugType_value INDENTATION
      else BugType_value LOGIC)"

text \<open>
  The log enters \<open>_trace_test_bugs_to_source\<close> through three patterns. Their matches are
  the inputs: \<open>failed\<close>, the groups (test path, test name, message) of each
  \<open>FAILED path::name - message\<close> line in order, and \<open>sections\<close>, for each traceback
  section in order, its test name, the (file, line) groups of the \<open>File "...", line N\<close>
  references in it and those of the \<open>path:N:\<close> references in it.
\<close>

type_synonym failed_line = "string \<times> string \<times> string"
type_synonym section_refs = "string \<times> (string \<times> int) list \<times> (string \<times> int) list"

definition failed_tests :: "failed_line list \<Rightarrow> string \<Rightarrow> (string \<times> string) option" where
  "failed_tests failed =
     foldl (\<lambda>d fl. case fl of (test_path, test_name, error_msg) \<Rightarrow>
              d(test_name \<mapsto> (test_path, strip error_msg))) Map.empty failed"

definition source_refs :: "section_refs \<Rightarrow> (string \<times> int) list" where
  "source_refs sec = (case sec of (test_name, verbose, short) \<Rightarrow> filter source_ref_ok (verbose @ short))"

definition traced_bug :: "string \<times> int \<Rightarrow> string \<Rightarrow> BugReport" where
  "traced_bug ref error_msg =
     \<lparr>br_file = strip_workspace (fst ref), br_line = snd ref,
      br_bug_type = infer_bug_type error_msg, br_message = error_msg\<rparr>"

definition section_bugs :: "(string \<Rightarrow> (string \<times> string) option) \<Rightarrow> section_refs \<Rightarrow> BugReport list" where
  "section_bugs ft sec =
     (case ft (fst sec) of
        None \<Rightarrow> []
      | Some info \<Rightarrow>
          (if source_refs sec = [] then []
           else [traced_bug (last (source_refs sec)) (snd info)]))"

definition trace_test_bugs_to_source ::
  "BugReport list \<Rightarrow> failed_line list \<Rightarrow> section_refs list \<Rightarrow> BugReport list" where
  "trace_test_bugs_to_source bugs failed sections =
     (if failed = [] then bugs
      else
        let source_bugs_from_tracebacks = concat (map (section_bugs (failed_tests failed)) sections) in
        if source_bugs_from_tracebacks = [] then bugs
        else unique_by bug_key {}
               (filter (\<lambda>b. \<not> is_test_path (br_file b)) bugs @ source_bugs_from_tracebacks))"

subsection \<open>The public entry point and the classifier tool\<close>

text \<open>
  \<open>llm_bugs\<close> is what \<open>_llm_classify\<close> returns for the unmatched lines (the empty list
  when it is not called or fails).
\<close>

definition merge_llm :: "BugReport list \<Rightarrow> BugReport list \<Rightarrow> BugReport list" where
  "merge_llm bugs llm_bugs = bugs @ unique_by bug_key (set (map bug_key bugs)) llm_bugs"

definition classify_errors_async ::
  "rule_matches list \<Rightarrow> BugReport list \<Rightarrow> failed_line list \<Rightarrow> section_refs list \<Rightarrow> BugReport list" where
  "classify_errors_async rules llm_bugs failed sections =
     sort_key (\<lambda>b. (br_file b, br_line b))
       (trace_test_bugs_to_source (merge_llm (fst (regex_classify rules)) llm_bugs) failed sections)"

definition SEVERITY :: "(string \<times> string) list" where
  "SEVERITY =
     [(''SYNTAX'', ''high''), (''INDENTATION'', ''high''), (''IMPORT'', ''high''),
      (''TYPE_ERROR'', ''medium''), (''LOGIC'', ''medium''), (''LINTING'', ''low'')]"

definition FIX_HINTS :: "(string \<times> string) list" where
  "FIX_HINTS =
     [(''SYNTAX'', ''Check for missing colons, brackets, or parentheses.''),
      (''INDENTATION'', ''Align indentation to surrounding block.''),
      (''IMPORT'', ''Verify module name and ensure package is installed.''),
      (''TYPE_ERROR'', ''Check argument types match the function signature.''),
      (''LOGIC'', ''Review assertion: expected vs actual values differ.''),
      (''LINTING'', ''Remove unused import or fix style violation.'')]"

definition severity_order :: "string \<Rightarrow> nat" where
  "severity_order s = get_or (map_of [(''high'', 0), (''medium'', 1), (''low'', 2)] s) 3"

text \<open>\<open>_normalize_path\<close> goes through \<open>pathlib\<close> and the file system
  (\<open>Path.resolve\<close>); its result for a path is the parameter \<open>normalize_path\<close>.\<close>

definition enrich :: "(string \<Rightarrow> string) \<Rightarrow> BugReport \<Rightarrow> bug_dict" where
  "enrich normalize_path bug =
     \<lparr>b_file = Some (normalize_path (br_file bug)),
      b_line = Some (br_line bug),
      b_bug_type = Some (br_bug_type bug),
      b_message = Some (br_message bug),
      b_severity = Some (get_or (map_of SEVERITY (br_bug_type bug)) ''low''),
      b_fix_hint = Some (get_or (map_of FIX_HINTS (br_bug_type bug)) ''Manual investigation required.''),
      b_escalate_to_llm = None\<rparr>"

definition dict_key :: "bug_dict \<Rightarrow> string option \<times> int option \<times> string option" where
  "dict_key b = (b_file b, b_line b, b_bug_type b)"

definition classifier_sort_key :: "bug_dict \<Rightarrow> nat \<times> string \<times> int" where
  "classifier_sort_key b =
     (severity_order (get_or (b_severity b) []), get_or (b_file b) [], get_or (b_line b) 0)"

text \<open>The \<open>classified_bugs\<close> output of \<open>FailureClassifierTool.execute\<close>, where \<open>bugs\<close> is
  the result of \<open>classify_errors_async(test_output)\<close>.\<close>

definition classified_bugs_of :: "(string \<Rightarrow> string) \<Rightarrow> string \<Rightarrow> BugReport list \<Rightarrow> bug_dict list" where
  "classified_bugs_of normalize_path test_output bugs =
     (if test_output = [] then []
      else if bugs = [] then []
      else unique_by dict_key {} (sort_key classifier_sort_key (map (enrich normalize_path) bugs)))"

definition FailureClassifierTool_execute ::
  "(string \<Rightarrow> string) \<Rightarrow> string \<Rightarrow> rule_matches list \<Rightarrow> BugReport list \<Rightarrow> failed_line list
   \<Rightarrow> section_refs list \<Rightarrow> bug_dict list" where
  "FailureClassifierTool_execute normalize_path test_output rules llm_bugs failed sections =
     classified_bugs_of normalize_path test_output
       (classify_errors_async rules llm_bugs failed sections)"

section \<open>Canonical result document (shared/results\_exporter.py)\<close>

text \<open>\<open>s.find(w)\<close>: the least index where \<open>w\<close> occurs, \<open>None\<close> for \<open>-1\<close>.\<close>

fun find_sub :: "string \<Rightarrow> string \<Rightarrow> nat option" where
  "find_sub w [] = (if w = [] then Some 0 else None)"
| "find_sub w (c # cs) = (if prefix w (c # cs) then Some 0 else map_option Suc (find_sub w cs))"

text \<open>
  \<open>re.search(r'/heal_[^/]+/(.*)', filepath)\<close>, group 1: at the leftmost \<open>/heal_\<close>
  that is followed by a non-empty run without \<open>/\<close> and then a \<open>/\<close>, the rest of that
  line (\<open>.\<close> does not match a newline).
\<close>

fun heal_group :: "string \<Rightarrow> string option" where
  "heal_group [] = None"
| "heal_group (c # cs) =
     (let rest = drop (length ''/heal_'') (c # cs);
          name = takeWhile (\<lambda>x. x \<noteq> CHR ''/'') rest;
          after = drop (length name) rest in
      if prefix ''/heal_'' (c # cs) \<and> name \<noteq> [] \<and> after \<noteq> []
      then Some (takeWhile (\<lambda>x. x \<noteq> CHR 0x0A) (tl after))
      else heal_group cs)"

fun first_marker :: "string list \<Rightarrow> string \<Rightarrow> string option" where
  "first_marker [] filepath = None"
| "first_marker (marker # ms) filepath =
     (case find_sub marker filepath of
        Some idx \<Rightarrow> Some (drop idx filepath)
      | None \<Rightarrow> first_marker ms filepath)"

definition strip_temp_prefix :: "string \<Rightarrow> string" where
  "strip_temp_prefix filepath =
     (case heal_group filepath of
        Some g \<Rightarrow> g
      | None \<Rightarrow>
          (if startswith filepath ''/''
           then get_or (first_marker [''src/'', ''lib/'', ''app/'', ''tests/'', ''test/''] filepath) filepath
           else filepath))"

definition normalize_for_match :: "string \<Rightarrow> string" where
  "normalize_for_match filepath = strip_temp_prefix filepath"

text \<open>\<open>str.split('/')\<close> and \<open>Path(p).name\<close>: the last component of the path that is
  neither empty nor a single dot, the empty string when there is none.\<close>

fun split_on :: "char \<Rightarrow> string \<Rightarrow> string list" where
  "split_on sep [] = [[]]"
| "split_on sep (c # cs) =
     (if c = sep then [] # split_on sep cs
      else (case split_on sep cs of [] \<Rightarrow> [[c]] | w # ws \<Rightarrow> (c # w) # ws))"

definition path_name :: "string \<Rightarrow> string" where
  "path_name p =
     (let parts = filter (\<lambda>w. w \<noteq> [] \<and> w \<noteq> ''.'') (split_on CHR ''/'' p) in
      if parts = [] then [] else last parts)"

definition find_failure :: "(FailureRecord \<Rightarrow> bool) \<Rightarrow> RunMemory \<Rightarrow> FailureRecord option" where
  "find_failure P m = List.find P (sorted_failures m)"

text \<open>The four loops of \<open>_infer_bug_type\<close> and \<open>_infer_failure_message\<close>, which differ
  in the field they return.\<close>

definition match_failure :: "FixRecord \<Rightarrow> RunMemory \<Rightarrow> FailureRecord option" where
  "match_failure fix m =
     (let fix_file = normalize_for_match (fx_file fix);
          fix_basename = path_name fix_file in
      case find_failure (\<lambda>f. normalize_for_match (fr_file f) = fix_file \<and> fr_line f = fx_line fix) m of
        Some f \<Rightarrow> Some f
      | None \<Rightarrow>
      (case find_failure (\<lambda>f. normalize_for_match (fr_file f) = fix_file) m of
        Some f \<Rightarrow> Some f
      | None \<Rightarrow>
      (case find_failure (\<lambda>f. path_name (fr_file f) = fix_basename \<and> fr_line f = fx_line fix) m of
        Some f \<Rightarrow> Some f
      | None \<Rightarrow> find_failure (\<lambda>f. path_name (fr_file f) = fix_basename) m)))"

definition infer_fix_bug_type :: "FixRecord \<Rightarrow> RunMemory \<Rightarrow> string" where
  "infer_fix_bug_type fix m =
     (case match_failure fix m of Some f \<Rightarrow> fr_bug_type f | None \<Rightarrow> ''unknown'')"

definition infer_failure_message :: "FixRecord \<Rightarrow> RunMemory \<Rightarrow> string" where
  "infer_failure_message fix m =
     (case match_failure fix m of Some f \<Rightarrow> fr_standardized_message f | None \<Rightarrow> [])"

record fix_entry =
  fe_file :: string
  fe_bug_type :: string
  fe_line :: int
  fe_commit_message :: string
  fe_status :: string
  fe_description :: string
  fe_failure_message :: string

text \<open>The arrow U+2192 in UTF-8.\<close>

definition arrow :: string where
  "arrow = [CHR 0xE2, CHR 0x86, CHR 0x92]"

definition fix_description :: "string \<Rightarrow> string \<Rightarrow> int \<Rightarrow> string \<Rightarrow> string" where
  "fix_description bug_type rel_file line commit_msg =
     bug_type @ '' error in '' @ rel_file @ '' line '' @ str_int line @ '' '' @ arrow
     @ '' Fix: '' @ commit_msg"

definition build_fix :: "RunMemory \<Rightarrow> FixRecord \<Rightarrow> fix_entry" where
  "build_fix m fix =
     (let status =
            (if list_ex (\<lambda>ci. cr_iteration ci \<ge> fx_iteration fix \<and> cr_status ci = ''success'') (ci_runs m)
             then ''verified'' else ''applied'');
          rel_file = strip_temp_prefix (fx_file fix);
          bug_type = infer_fix_bug_type fix m;
          failure_msg = infer_failure_message fix m;
          commit_msg = fx_change_summary fix in
      \<lparr>fe_file = rel_file, fe_bug_type = bug_type, fe_line = fx_line fix,
       fe_commit_message = commit_msg, fe_status = status,
       fe_description = fix_description bug_type rel_file (fx_line fix) commit_msg,
       fe_failure_message = failure_msg\<rparr>)"

definition build_fixes :: "RunMemory \<Rightarrow> fix_entry list" where
  "build_fixes m = sort_key (\<lambda>f. (fe_file f, fe_line f)) (map (build_fix m) (sorted_fixes m))"

section \<open>Commit message (agents/tools/commit\_push\_tool.py)\<close>

fun join :: "string \<Rightarrow> string list \<Rightarrow> string" where
  "join sep [] = []"
| "join sep [w] = w"
| "join sep (w # ws) = w @ sep @ join sep ws"

definition patch_summary :: "patch_dict \<Rightarrow> string" where
  "patch_summary p =
     ''  - '' @ path_name (get_or (p_file p) ''unknown'') @ '': '' @ get_or (p_description p) ''fix''"

definition commit_msg_of :: "int \<Rightarrow> patch_dict list \<Rightarrow> string" where
  "commit_msg_of iteration applied_patches =
     (let n_patches = length applied_patches;
          header = ''[AI-AGENT] Iteration '' @ str_int iteration @ '': ''
                   @ str_nat n_patches @ '' fix(es) applied'';
          body_lines = take 8 (map patch_summary applied_patches)
                       @ (if n_patches > 8 then [''  ... and '' @ str_nat (n_patches - 8) @ '' more''] else []) in
      header @ (if body_lines \<noteq> [] then [CHR 0x0A, CHR 0x0A] @ join [CHR 0x0A] body_lines else []))"

section \<open>Reasoning loop (agents/reasoning\_loop.py)\<close>

definition MAX_TOTAL_COMMITS :: int where
  "MAX_TOTAL_COMMITS = 10"

datatype Phase =
  RUN_TESTS | CLASSIFY | PLAN_FIX | APPLY_PATCH | COMMIT_PUSH | WAIT_FOR_CI
  | FETCH_CI_RESULTS | VERIFY | DONE

text \<open>\<open>TRANSITIONS[phase]\<close>: the phase on continue; the phase on stop is always \<open>DONE\<close>.\<close>

fun next_continue :: "Phase \<Rightarrow> Phase" where
  "next_continue RUN_TESTS = CLASSIFY"
| "next_continue CLASSIFY = PLAN_FIX"
| "next_continue PLAN_FIX = APPLY_PATCH"
| "next_continue APPLY_PATCH = COMMIT_PUSH"
| "next_continue COMMIT_PUSH = WAIT_FOR_CI"
| "next_continue WAIT_FOR_CI = FETCH_CI_RESULTS"
| "next_continue FETCH_CI_RESULTS = VERIFY"
| "next_continue VERIFY = CLASSIFY"
| "next_continue DONE = DONE"

definition next_stop :: "Phase \<Rightarrow> Phase" where
  "next_stop phase = DONE"

text \<open>An entry of \<open>fix_plan\<close>.\<close>

record plan_entry =
  pe_bug :: "bug_dict option"
  pe_strategy :: "string option"
  pe_reason :: "string option"
  pe_description :: "string option"
  pe_target_file :: "string option"
  pe_source_context :: "string option"

text \<open>
  The shared state dictionary, with the keys that the loop reads or writes. The first
  group are outputs of tools; the keys of the second group (\<open>_prev_failure_keys\<close>,
  \<open>_ci_unavailable\<close>, \<open>_tool_skipped\<close>) are written by the loop only.
\<close>

record tool_keys =
  k_test_output :: "string option"
  k_local_all_passed :: "bool option"
  k_classified_bugs :: "bug_dict list option"
  k_fix_plan :: "plan_entry list option"
  k_applied_patches :: "patch_dict list option"
  k_applied_count :: "int option"
  k_commit_sha :: "string option"
  k_push_status :: "string option"
  k_ci_status :: "string option"
  k_ci_conclusion :: "string option"
  k_ci_logs :: "string option"
  k_all_passed :: "bool option"
  k_should_continue :: "bool option"
  k_verdict :: "string option"
  k_verification_output :: "string option"

record shared_state = tool_keys +
  k_prev_failure_keys :: "(string \<times> string) set option"
  k_ci_unavailable :: "bool option"
  k_tool_skipped :: bool

definition no_outputs :: tool_keys where
  "no_outputs = \<lparr>k_test_output = None, k_local_all_passed = None, k_classified_bugs = None,
     k_fix_plan = None, k_applied_patches = None, k_applied_count = None, k_commit_sha = None,
     k_push_status = None, k_ci_status = None, k_ci_conclusion = None, k_ci_logs = None,
     k_all_passed = None, k_should_continue = None, k_verdict = None, k_verification_output = None\<rparr>"

definition upd :: "'a option \<Rightarrow> 'a option \<Rightarrow> 'a option" where
  "upd new old = (case new of None \<Rightarrow> old | Some v \<Rightarrow> Some v)"

text \<open>\<open>shared.update(result.outputs)\<close>.\<close>

definition update_shared :: "tool_keys \<Rightarrow> shared_state \<Rightarrow> shared_state" where
  "update_shared out s =
     s\<lparr>k_test_output := upd (k_test_output out) (k_test_output s),
       k_local_all_passed := upd (k_local_all_passed out) (k_local_all_passed s),
       k_classified_bugs := upd (k_classified_bugs out) (k_classified_bugs s),
       k_fix_plan := upd (k_fix_plan out) (k_fix_plan s),
       k_applied_patches := upd (k_applied_patches out) (k_applied_patches s),
       k_applied_count := upd (k_applied_count out) (k_applied_count s),
       k_commit_sha := upd (k_commit_sha out) (k_commit_sha s),
       k_push_status := upd (k_push_status out) (k_push_status s),
       k_ci_status := upd (k_ci_status out) (k_ci_status s),
       k_ci_conclusion := upd (k_ci_conclusion out) (k_ci_conclusion s),
       k_ci_logs := upd (k_ci_logs out) (k_ci_logs s),
       k_all_passed := upd (k_all_passed out) (k_all_passed s),
       k_should_continue := upd (k_should_continue out) (k_should_continue s),
       k_verdict := upd (k_verdict out) (k_verdict s),
       k_verification_output := upd (k_verification_output out) (k_verification_output s)\<rparr>"

text \<open>\<open>IterationReport\<close>; \<open>tool_invocations\<close> keeps the phase of each tool that ran,
  and the timestamp is left out.\<close>

record IterationReport =
  ir_iteration :: int
  ir_tool_invocations :: "Phase list"
  ir_bugs_found :: int
  ir_patches_applied :: int
  ir_commit_sha :: string
  ir_ci_conclusion :: string
  ir_all_passed :: bool
  ir_verdict :: string

definition new_report :: "int \<Rightarrow> IterationReport" where
  "new_report iteration =
     \<lparr>ir_iteration = iteration, ir_tool_invocations = [], ir_bugs_found = 0,
      ir_patches_applied = 0, ir_commit_sha = [], ir_ci_conclusion = [],
      ir_all_passed = False, ir_verdict = []\<rparr>"

text \<open>What the transition logic reads and mutates: the shared state, the report of the
  current iteration and the run memory.\<close>

record ctx =
  cx_state :: shared_state
  cx_report :: IterationReport
  cx_memory :: RunMemory

definition failure_keys :: "bug_dict list \<Rightarrow> (string \<times> string) set" where
  "failure_keys bugs = set (map (\<lambda>b. (get_or (b_file b) [], get_or (b_bug_type b) [])) bugs)"

definition actionable :: "plan_entry \<Rightarrow> bool" where
  "actionable e = (pe_strategy e \<noteq> Some ''skip_test_file'' \<and> pe_strategy e \<noteq> Some ''unresolvable'')"

text \<open>
  \<open>_reason_transition\<close>, one definition per phase. \<open>now\<close> stands for the clock readings
  of \<open>append_ci_run\<close>.
\<close>

definition after_run_tests :: "ctx \<Rightarrow> Phase \<times> ctx" where
  "after_run_tests c =
     (let local_passed = get_or (k_local_all_passed (cx_state c)) False in
      if ci_runs (cx_memory c) \<noteq> [] \<and> cr_status (last (ci_runs (cx_memory c))) = ''success''
      then (DONE, c\<lparr>cx_report := (cx_report c)\<lparr>ir_all_passed := True, ir_verdict := ''pass''\<rparr>\<rparr>)
      else if local_passed \<and> get_or (k_ci_logs (cx_state c)) [] \<noteq> []
      then (next_continue RUN_TESTS, c\<lparr>cx_state := (cx_state c)\<lparr>k_test_output := k_ci_logs (cx_state c)\<rparr>\<rparr>)
      else (next_continue RUN_TESTS, c))"

definition after_classify :: "int \<Rightarrow> ctx \<Rightarrow> Phase \<times> ctx" where
  "after_classify current_iteration c =
     (let bugs = get_or (k_classified_bugs (cx_state c)) [];
          c1 = c\<lparr>cx_report := (cx_report c)\<lparr>ir_bugs_found := int (length bugs)\<rparr>\<rparr>;
          c2 = (if bugs \<noteq> [] then c1\<lparr>cx_memory := append_failures current_iteration bugs (cx_memory c1)\<rparr>
                else c1) in
      if bugs = [] then
        (if get_or (k_local_all_passed (cx_state c2)) False
         then (DONE, c2\<lparr>cx_report := (cx_report c2)\<lparr>ir_all_passed := True, ir_verdict := ''pass''\<rparr>\<rparr>)
         else (next_stop CLASSIFY, c2\<lparr>cx_report := (cx_report c2)\<lparr>ir_verdict := ''no_bugs_classified''\<rparr>\<rparr>))
      else
        (let current_keys = failure_keys bugs;
             prev_keys = get_or (k_prev_failure_keys (cx_state c2)) {} in
         if prev_keys \<noteq> {} \<and> current_keys = prev_keys
         then (next_stop CLASSIFY, c2\<lparr>cx_report := (cx_report c2)\<lparr>ir_verdict := ''no_new_failures''\<rparr>\<rparr>)
         else (next_continue CLASSIFY,
               c2\<lparr>cx_state := (cx_state c2)\<lparr>k_prev_failure_keys := Some current_keys\<rparr>\<rparr>)))"

definition after_plan_fix :: "ctx \<Rightarrow> Phase \<times> ctx" where
  "after_plan_fix c =
     (if filter actionable (get_or (k_fix_plan (cx_state c)) []) = []
      then (next_stop PLAN_FIX, c\<lparr>cx_report := (cx_report c)\<lparr>ir_verdict := ''no_actionable_fixes''\<rparr>\<rparr>)
      else (next_continue PLAN_FIX, c))"

definition after_apply_patch :: "ctx \<Rightarrow> Phase \<times> ctx" where
  "after_apply_patch c =
     (let applied = get_or (k_applied_count (cx_state c)) 0;
          c1 = c\<lparr>cx_report := (cx_report c)\<lparr>ir_patches_applied := applied\<rparr>\<rparr> in
      if applied = 0
      then (next_stop APPLY_PATCH, c1\<lparr>cx_report := (cx_report c1)\<lparr>ir_verdict := ''no_patches_applied''\<rparr>\<rparr>)
      else (next_continue APPLY_PATCH, c1))"

definition after_commit_push :: "int \<Rightarrow> ctx \<Rightarrow> Phase \<times> ctx" where
  "after_commit_push current_iteration c =
     (let sha = get_or (k_commit_sha (cx_state c)) [];
          c1 = c\<lparr>cx_report := (cx_report c)\<lparr>ir_commit_sha := sha\<rparr>\<rparr>;
          c2 = (if sha \<noteq> []
                then c1\<lparr>cx_memory := append_fixes current_iteration
                                     (get_or (k_applied_patches (cx_state c1)) []) sha (cx_memory c1)\<rparr>
                else c1) in
      if sha = []
      then (next_stop COMMIT_PUSH, c2\<lparr>cx_report := (cx_report c2)\<lparr>ir_verdict := ''commit_failed''\<rparr>\<rparr>)
      else if get_or (k_push_status (cx_state c2)) [] = ''push_failed''
      then (DONE, c2\<lparr>cx_report := (cx_report c2)\<lparr>ir_verdict := ''push_failed_fixes_applied'',
                                            ir_all_passed := False\<rparr>\<rparr>)
      else (next_continue COMMIT_PUSH, c2))"

definition after_wait_for_ci :: "ctx \<Rightarrow> Phase \<times> ctx" where
  "after_wait_for_ci c =
     (if get_or (k_ci_status (cx_state c)) [] \<noteq> ''completed''
      then (VERIFY, c\<lparr>cx_state := (cx_state c)\<lparr>k_ci_unavailable := Some True,
                                          k_ci_conclusion := Some [],
                                          k_ci_logs := Some (get_or (k_test_output (cx_state c)) [])\<rparr>\<rparr>)
      else (next_continue WAIT_FOR_CI, c\<lparr>cx_state := (cx_state c)\<lparr>k_ci_unavailable := Some False\<rparr>\<rparr>))"

definition after_fetch_ci_results :: "int \<Rightarrow> string \<Rightarrow> ctx \<Rightarrow> Phase \<times> ctx" where
  "after_fetch_ci_results current_iteration now c =
     (let logs = get_or (k_ci_logs (cx_state c)) [];
          conclusion = get_or (k_ci_conclusion (cx_state c)) [];
          c1 = c\<lparr>cx_memory := append_ci_run current_iteration
                              (if conclusion \<noteq> [] then conclusion else ''unknown'') [] [] now now
                              (cx_memory c)\<rparr> in
      if logs = []
      then (next_stop FETCH_CI_RESULTS, c1\<lparr>cx_report := (cx_report c1)\<lparr>ir_verdict := ''no_ci_logs''\<rparr>\<rparr>)
      else (next_continue FETCH_CI_RESULTS, c1))"

definition after_verify :: "int \<Rightarrow> int \<Rightarrow> string \<Rightarrow> ctx \<Rightarrow> Phase \<times> ctx" where
  "after_verify current_iteration max_iterations now c =
     (let c1 = c\<lparr>cx_report := (cx_report c)\<lparr>ir_all_passed := get_or (k_all_passed (cx_state c)) False,
                                        ir_ci_conclusion := get_or (k_ci_conclusion (cx_state c)) [],
                                        ir_verdict := get_or (k_verdict (cx_state c)) ''fail''\<rparr>\<rparr>;
          at_limit = (current_iteration \<ge> max_iterations) in
      if get_or (k_ci_unavailable (cx_state c1)) False then
        (if get_or (k_local_all_passed (cx_state c1)) False
         then (DONE, c1\<lparr>cx_report := (cx_report c1)\<lparr>ir_all_passed := True, ir_verdict := ''pass_local'',
                                                ir_ci_conclusion := ''local_pass''\<rparr>,
                         cx_memory := append_ci_run current_iteration ''success'' [] [] now now (cx_memory c1)\<rparr>)
         else if \<not> at_limit
         then (next_continue VERIFY,
               c1\<lparr>cx_state := (cx_state c1)\<lparr>
                      k_test_output := Some (get_or (k_verification_output (cx_state c1))
                                             (get_or (k_test_output (cx_state c1)) [])),
                      k_should_continue := Some True\<rparr>\<rparr>)
         else (next_stop VERIFY, c1\<lparr>cx_report := (cx_report c1)\<lparr>ir_verdict := ''fail_local_no_ci''\<rparr>\<rparr>))
      else if ir_all_passed (cx_report c1) then (DONE, c1)
      else if get_or (k_should_continue (cx_state c1)) False \<and> \<not> at_limit
      then (next_continue VERIFY,
            c1\<lparr>cx_state := (cx_state c1)\<lparr>
                   k_test_output := Some (get_or (k_ci_logs (cx_state c1))
                                          (get_or (k_verification_output (cx_state c1)) []))\<rparr>\<rparr>)
      else (next_stop VERIFY, c1))"

fun reason_transition :: "Phase \<Rightarrow> int \<Rightarrow> int \<Rightarrow> string \<Rightarrow> ctx \<Rightarrow> Phase \<times> ctx" where
  "reason_transition RUN_TESTS cur mx now c = after_run_tests c"
| "reason_transition CLASSIFY cur mx now c = after_classify cur c"
| "reason_transition PLAN_FIX cur mx now c = after_plan_fix c"
| "reason_transition APPLY_PATCH cur mx now c = after_apply_patch c"
| "reason_transition COMMIT_PUSH cur mx now c = after_commit_push cur c"
| "reason_transition WAIT_FOR_CI cur mx now c = after_wait_for_ci c"
| "reason_transition FETCH_CI_RESULTS cur mx now c = after_fetch_ci_results cur now c"
| "reason_transition VERIFY cur mx now c = after_verify cur mx now c"
| "reason_transition DONE cur mx now c = (DONE, c)"

text \<open>The conditional edge after a node: a skipped tool ends the graph.\<close>

definition edge :: "Phase \<Rightarrow> int \<Rightarrow> int \<Rightarrow> string \<Rightarrow> ctx \<Rightarrow> Phase \<times> ctx" where
  "edge phase cur mx now c =
     (if k_tool_skipped (cx_state c) then (DONE, c) else reason_transition phase cur mx now c)"

text \<open>
  A tool is outside the loop: what its node does is given by \<open>tool\<close>, a function of the
  phase, the world outside (working tree, git, CI; type \<open>'w\<close>), the shared state and the
  run memory. It is skipped for missing inputs, raises, or returns its outputs; it may
  change the world and append to the run memory.
\<close>

datatype tool_result = Skipped | Raised string | Ran tool_keys

type_synonym 'w tool = "Phase \<Rightarrow> 'w \<Rightarrow> shared_state \<Rightarrow> RunMemory \<Rightarrow> tool_result \<times> 'w \<times> RunMemory"

text \<open>
  One invocation of the compiled graph. \<open>fuel\<close> is the number of nodes that the
  recursion limit still allows; running out of it raises the graph library's exception,
  whose text is \<open>lim\<close>. Like an exception of a tool it is caught by
  \<open>run_reasoning_loop\<close> and becomes the verdict \<open>graph_error: \<close> followed by the text.
\<close>

fun run_graph ::
  "nat \<Rightarrow> 'w tool \<Rightarrow> string \<Rightarrow> int \<Rightarrow> int \<Rightarrow> string \<Rightarrow> Phase \<Rightarrow> 'w \<times> ctx \<Rightarrow> 'w \<times> ctx" where
  "run_graph 0 tool lim cur mx now phase (w, c) =
     (w, c\<lparr>cx_report := (cx_report c)\<lparr>ir_verdict := ''graph_error: '' @ lim\<rparr>\<rparr>)"
| "run_graph (Suc fuel) tool lim cur mx now phase (w, c) =
     (case tool phase w (cx_state c) (cx_memory c) of
        (Skipped, w1, m1) \<Rightarrow>
          (let c1 = c\<lparr>cx_state := (cx_state c)\<lparr>k_tool_skipped := True\<rparr>, cx_memory := m1\<rparr> in
           (w1, snd (edge phase cur mx now c1)))
      | (Raised msg, w1, m1) \<Rightarrow>
          (w1, c\<lparr>cx_state := (cx_state c)\<lparr>k_tool_skipped := False\<rparr>, cx_memory := m1,
                 cx_report := (cx_report c)\<lparr>ir_verdict := ''graph_error: '' @ msg\<rparr>\<rparr>)
      | (Ran out, w1, m1) \<Rightarrow>
          (let c1 = c\<lparr>cx_state := update_shared out ((cx_state c)\<lparr>k_tool_skipped := False\<rparr>),
                      cx_memory := m1,
                      cx_report := (cx_report c)\<lparr>ir_tool_invocations :=
                                                ir_tool_invocations (cx_report c) @ [phase]\<rparr>\<rparr>;
               nc = edge phase cur mx now c1 in
           if fst nc = DONE then (w1, snd nc)
           else run_graph fuel tool lim cur mx now (fst nc) (w1, snd nc)))"

definition recursion_limit :: nat where
  "recursion_limit = 25"

text \<open>The state of the outer loop of \<open>run_reasoning_loop\<close>.\<close>

record 'w loop_state =
  ls_world :: 'w
  ls_shared :: shared_state
  ls_memory :: RunMemory
  ls_iterations :: "IterationReport list"
  ls_total_bugs :: int
  ls_total_fixes :: int
  ls_total_commits :: int

text \<open>The body of the outer loop up to the record of the iteration.\<close>

definition run_iteration ::
  "'w tool \<Rightarrow> string \<Rightarrow> int \<Rightarrow> string \<Rightarrow> int \<Rightarrow> 'w loop_state \<Rightarrow> 'w loop_state" where
  "run_iteration tool lim max_iterations now current_iteration ls =
     (let r = run_graph recursion_limit tool lim current_iteration max_iterations now RUN_TESTS
                (ls_world ls, \<lparr>cx_state = ls_shared ls, cx_report = new_report current_iteration,
                            cx_memory = ls_memory ls\<rparr>);
          rep = cx_report (snd r) in
      ls\<lparr>ls_world := fst r, ls_shared := cx_state (snd r), ls_memory := cx_memory (snd r),
         ls_iterations := ls_iterations ls @ [rep],
         ls_total_bugs := ls_total_bugs ls + ir_bugs_found rep,
         ls_total_fixes := ls_total_fixes ls + ir_patches_applied rep,
         ls_total_commits := ls_total_commits ls + (if ir_commit_sha rep \<noteq> [] then 1 else 0)\<rparr>)"

function outer_loop ::
  "'w tool \<Rightarrow> string \<Rightarrow> int \<Rightarrow> string \<Rightarrow> int \<Rightarrow> 'w loop_state \<Rightarrow> int \<times> 'w loop_state" where
  "outer_loop tool lim max_iterations now current_iteration ls =
     (if current_iteration < max_iterations then
        (let ls1 = run_iteration tool lim max_iterations now (current_iteration + 1) ls in
         if ir_all_passed (last (ls_iterations ls1)) then (current_iteration + 1, ls1)
         else if ls_total_commits ls1 \<ge> MAX_TOTAL_COMMITS then (current_iteration + 1, ls1)
         else if \<not> get_or (k_should_continue (ls_shared ls1)) False then (current_iteration + 1, ls1)
         else outer_loop tool lim max_iterations now (current_iteration + 1) ls1)
      else (current_iteration, ls))"
  by pat_completeness auto
termination
  by (relation "measure (\<lambda>(tool, lim, max_iterations, now, current_iteration, ls).
        nat (max_iterations - current_iteration))") simp_all

declare outer_loop.simps [simp del]

record 'w ReasoningLoopResult =
  rl_status :: string
  rl_iterations_used :: nat
  rl_max_iterations :: int
  rl_total_bugs_found :: int
  rl_total_fixes_applied :: int
  rl_iterations :: "IterationReport list"
  rl_memory :: RunMemory
  rl_total_commits :: int
  rl_world :: 'w

definition initial_loop_state :: "'w \<Rightarrow> shared_state \<Rightarrow> 'w loop_state" where
  "initial_loop_state w sh =
     \<lparr>ls_world = w, ls_shared = sh, ls_memory = RunMemory_init, ls_iterations = [],
      ls_total_bugs = 0, ls_total_fixes = 0, ls_total_commits = 0\<rparr>"

text \<open>\<open>run_reasoning_loop\<close>; \<open>sh\<close> is the initial shared state (\<open>repo_path\<close> and the
  configuration). The result also carries the commit counter and the world.\<close>

definition run_reasoning_loop ::
  "'w tool \<Rightarrow> string \<Rightarrow> 'w \<Rightarrow> shared_state \<Rightarrow> int \<Rightarrow> string \<Rightarrow> 'w ReasoningLoopResult" where
  "run_reasoning_loop tool lim w sh max_iterations now =
     (let r = outer_loop tool lim max_iterations now 0 (initial_loop_state w sh);
          ls = snd r;
          final_passed = (if ls_iterations ls \<noteq> [] then ir_all_passed (last (ls_iterations ls)) else False);
          mem = (if final_passed \<and> ls_total_bugs ls = 0 \<and> ls_total_fixes ls = 0 \<and> ls_total_commits ls = 0
                 then append_ci_run (fst r) ''success'' [] [] now now (ls_memory ls)
                 else ls_memory ls) in
      \<lparr>rl_status = (if final_passed then ''healed''
                     else if ls_total_fixes ls > 0 then ''partial'' else ''failed''),
       rl_iterations_used = length (ls_iterations ls),
       rl_max_iterations = max_iterations,
       rl_total_bugs_found = ls_total_bugs ls,
       rl_total_fixes_applied = ls_total_fixes ls,
       rl_iterations = ls_iterations ls,
       rl_memory = mem,
       rl_total_commits = ls_total_commits ls,
       rl_world = ls_world ls\<rparr>)"

text \<open>The number of iterations of a history whose report carries a commit.\<close>

definition commits_of :: "IterationReport list \<Rightarrow> int" where
  "commits_of its = int (length (filter (\<lambda>rep. ir_commit_sha rep \<noteq> []) its))"

text \<open>
  A scripted set of tools, in the manner of the mock registry of the repository's loop
  tests. The world counts the classifier calls: the classifier reports a syntax bug in
  a.py first, a logic bug in a.py on its second and third call, and a logic bug in b.py
  from then on; the patch applier fails on the a.py logic bug after the second call and
  succeeds otherwise; CI always fails and the verifier always asks to continue.
\<close>

definition bug_at :: "string \<Rightarrow> int \<Rightarrow> string \<Rightarrow> bug_dict" where
  "bug_at f l t = \<lparr>b_file = Some f, b_line = Some l, b_bug_type = Some t,
     b_message = Some ''error'', b_severity = None, b_fix_hint = None, b_escalate_to_llm = None\<rparr>"

definition empty_shared :: shared_state where
  "empty_shared = \<lparr>k_test_output = None, k_local_all_passed = None, k_classified_bugs = None,
     k_fix_plan = None, k_applied_patches = None, k_applied_count = None, k_commit_sha = None,
     k_push_status = None, k_ci_status = None, k_ci_conclusion = None, k_ci_logs = None,
     k_all_passed = None, k_should_continue = None, k_verdict = None,
     k_verification_output = None, k_prev_failure_keys = None, k_ci_unavailable = None,
     k_tool_skipped = False\<rparr>"

fun scripted_tool :: "nat tool" where
  "scripted_tool RUN_TESTS w s m =
     (Ran (no_outputs\<lparr>k_test_output := Some ''log'', k_local_all_passed := Some False\<rparr>), w, m)"
| "scripted_tool CLASSIFY w s m =
     (Ran (no_outputs\<lparr>k_classified_bugs :=
             Some (if w = 0 then [bug_at ''a.py'' 3 ''SYNTAX'']
                   else if w < 3 then [bug_at ''a.py'' 3 ''LOGIC'']
                   else [bug_at ''b.py'' 7 ''LOGIC''])\<rparr>), Suc w, m)"
| "scripted_tool PLAN_FIX w s m =
     (Ran (no_outputs\<lparr>k_fix_plan :=
             Some [\<lparr>pe_bug = None, pe_strategy = Some ''llm'', pe_reason = None,
                    pe_description = None, pe_target_file = None, pe_source_context = None\<rparr>]\<rparr>), w, m)"
| "scripted_tool APPLY_PATCH w s m =
     (Ran (no_outputs\<lparr>k_applied_count := Some (if w = 2 then 0 else 1)\<rparr>), w, m)"
| "scripted_tool COMMIT_PUSH w s m =
     (Ran (no_outputs\<lparr>k_commit_sha := Some ''abc1234'', k_push_status := Some ''success''\<rparr>), w, m)"
| "scripted_tool WAIT_FOR_CI w s m = (Ran (no_outputs\<lparr>k_ci_status := Some ''completed''\<rparr>), w, m)"
| "scripted_tool FETCH_CI_RESULTS w s m =
     (Ran (no_outputs\<lparr>k_ci_logs := Some ''ci log'', k_ci_conclusion := Some ''failure''\<rparr>), w, m)"
| "scripted_tool VERIFY w s m =
     (Ran (no_outputs\<lparr>k_all_passed := Some False, k_should_continue := Some True,
                        k_verdict := Some ''fail''\<rparr>), w, m)"
| "scripted_tool DONE w s m = (Skipped, w, m)"

text \<open>
  A second scripted set of tools. The world counts the classifier calls and the runs of
  the commit tool: each patch moves the failure to the other of two files, every commit
  is pushed, CI fails every time and the verifier always asks to continue.
\<close>

fun pushing_tool :: "(nat \<times> nat) tool" where
  "pushing_tool RUN_TESTS w s m =
     (Ran (no_outputs\<lparr>k_test_output := Some ''log'', k_local_all_passed := Some False\<rparr>), w, m)"
| "pushing_tool CLASSIFY w s m =
     (Ran (no_outputs\<lparr>k_classified_bugs :=
             Some [bug_at (if even (fst w) then ''a.py'' else ''b.py'') 3 ''LOGIC'']\<rparr>),
      (Suc (fst w), snd w), m)"
| "pushing_tool PLAN_FIX w s m =
     (Ran (no_outputs\<lparr>k_fix_plan :=
             Some [\<lparr>pe_bug = None, pe_strategy = Some ''llm'', pe_reason = None,
                    pe_description = None, pe_target_file = None, pe_source_context = None\<rparr>]\<rparr>), w, m)"
| "pushing_tool APPLY_PATCH w s m = (Ran (no_outputs\<lparr>k_applied_count := Some 1\<rparr>), w, m)"
| "pushing_tool COMMIT_PUSH w s m =
     (Ran (no_outputs\<lparr>k_commit_sha := Some ''abc1234'', k_push_status := Some ''success''\<rparr>),
      (fst w, Suc (snd w)), m)"
| "pushing_tool WAIT_FOR_CI w s m = (Ran (no_outputs\<lparr>k_ci_status := Some ''completed''\<rparr>), w, m)"
| "pushing_tool FETCH_CI_RESULTS w s m =
     (Ran (no_outputs\<lparr>k_ci_logs := Some ''ci log'', k_ci_conclusion := Some ''failure''\<rparr>), w, m)"
| "pushing_tool VERIFY w s m =
     (Ran (no_outputs\<lparr>k_all_passed := Some False, k_should_continue := Some True,
                        k_verdict := Some ''fail''\<rparr>), w, m)"
| "pushing_tool DONE w s m = (Skipped, w, m)"

section \<open>Patch application (agents/tools/patch\_applier\_tool.py)\<close>

definition MAX_CHANGED_LINES :: nat where
  "MAX_CHANGED_LINES = 20"

definition TEST_FILE_PATTERNS :: "rx list" where
  "TEST_FILE_PATTERNS =
     [seqs [comp_start, Lit ''test_'', PlusNot CHR ''/'', Lit ''.py'', Eol],
      seqs [comp_start, PlusNot CHR ''/'', Lit ''_test.py'', Eol],
      seqs [comp_start, PlusNot CHR ''/'', Lit ''.'', alts [''test'', ''spec''], Lit ''.'',
            alts [''js'', ''ts'', ''jsx'', ''tsx'', ''mjs'', ''cjs''], Eol],
      seqs [comp_start, Lit ''__tests__/''],
      seqs [comp_start, Lit ''test'', Alt (Lit ''s'') (Lit []), Lit ''/test_''],
      seqs [comp_start, Lit ''conftest.py'', Eol]]"

definition is_test_file :: "string \<Rightarrow> bool" where
  "is_test_file filepath = list_ex (\<lambda>p. re_search p filepath) TEST_FILE_PATTERNS"

text \<open>
  \<open>str.splitlines(keepends=True)\<close>. The line boundaries are CR LF, LF, CR, VT, FF, FS,
  GS, RS and, in their UTF-8 form, U+0085, U+2028 and U+2029. \<open>boundary_len s\<close> is the
  number of bytes of the boundary that \<open>s\<close> starts with, 0 when it starts with none;
  \<open>cur\<close> is the line read so far.
\<close>

definition boundary_len :: "string \<Rightarrow> nat" where
  "boundary_len s =
     (if prefix [CHR 0x0D, CHR 0x0A] s then 2
      else if s \<noteq> [] \<and> hd s \<in> set [CHR 0x0A, CHR 0x0D, CHR 0x0B, CHR 0x0C, CHR 0x1C, CHR 0x1D, CHR 0x1E]
      then 1
      else if prefix [CHR 0xC2, CHR 0x85] s then 2
      else if prefix [CHR 0xE2, CHR 0x80, CHR 0xA8] s \<or> prefix [CHR 0xE2, CHR 0x80, CHR 0xA9] s then 3
      else 0)"

function splitlines_from :: "string \<Rightarrow> string \<Rightarrow> string list" where
  "splitlines_from cur [] = (if cur = [] then [] else [cur])"
| "splitlines_from cur (c # cs) =
     (if boundary_len (c # cs) > 0
      then (cur @ take (boundary_len (c # cs)) (c # cs))
           # splitlines_from [] (drop (boundary_len (c # cs)) (c # cs))
      else splitlines_from (cur @ [c]) cs)"
  by pat_completeness auto
termination
  by (relation "measure (\<lambda>(cur, s). length s)") simp_all

declare splitlines_from.simps(2) [simp del]

definition splitlines :: "string \<Rightarrow> string list" where
  "splitlines s = splitlines_from [] s"

text \<open>\<open>len(line) - len(line.lstrip())\<close>, counted in code points, and
  \<open>line[:indent_len]\<close> for that number: the white space that the line starts with.\<close>

definition indent_of :: "string \<Rightarrow> nat" where
  "indent_of line = count_front WHITESPACE line"

definition pad_of :: "string \<Rightarrow> string" where
  "pad_of line = take (length line - length (lstrip line)) line"

definition count_char :: "char \<Rightarrow> string \<Rightarrow> nat" where
  "count_char c s = length (filter (\<lambda>x. x = c) s)"

subsection \<open>Deterministic rules\<close>

text \<open>\<open>Counter(diffs).most_common(1)[0][0]\<close>: the value with the highest count, the
  first one met among equals.\<close>

fun most_common :: "nat list \<Rightarrow> nat list \<Rightarrow> nat \<Rightarrow> nat" where
  "most_common all [] best = best"
| "most_common all (d # ds) best =
     (if count_list all d > count_list all best then most_common all ds d
      else most_common all ds best)"

definition adjacent_diffs :: "nat list \<Rightarrow> nat list" where
  "adjacent_diffs indents = filter (\<lambda>d. d > 0) (map (\<lambda>(a, b). b - a) (zip indents (tl indents)))"

definition detect_indent_unit :: "string list \<Rightarrow> nat" where
  "detect_indent_unit lines =
     (let indented = filter (\<lambda>line. lstrip line \<noteq> [] \<and> \<not> startswith (lstrip line) ''#''
                                    \<and> indent_of line > 0) lines;
          indents = sort (remdups (map indent_of indented));
          diffs = adjacent_diffs indents in
      if indents = [] then 4
      else if diffs \<noteq> [] then most_common diffs diffs (hd diffs)
      else hd indents)"

definition detect_indent_string :: "string list \<Rightarrow> string" where
  "detect_indent_string lines =
     (if list_ex (\<lambda>line. startswith line [CHR 0x09]) lines then [CHR 0x09]
      else replicate (detect_indent_unit lines) CHR '' '')"

text \<open>The index of the nearest line above \<open>idx\<close> that is not blank.\<close>

fun prev_nonblank :: "string list \<Rightarrow> nat \<Rightarrow> nat option" where
  "prev_nonblank lines 0 = None"
| "prev_nonblank lines (Suc i) =
     (if strip (lines ! i) \<noteq> [] then Some i else prev_nonblank lines i)"

definition insert_at :: "nat \<Rightarrow> 'a \<Rightarrow> 'a list \<Rightarrow> 'a list" where
  "insert_at i x xs = take i xs @ [x] @ drop i xs"

definition fix_indentation :: "string list \<Rightarrow> nat \<Rightarrow> string list option" where
  "fix_indentation lines idx =
     (case prev_nonblank lines idx of
        None \<Rightarrow> None
      | Some prev_idx \<Rightarrow>
          (let prev_line = lines ! prev_idx;
               prev_indent = indent_of prev_line;
               prev_stripped = rstrip prev_line;
               indent_unit = detect_indent_unit lines;
               expected_indent = (if endswith prev_stripped '':'' then prev_indent + indent_unit
                                  else prev_indent);
               current_line = lines ! idx;
               current_indent = indent_of current_line in
           if endswith prev_stripped '':'' \<and> current_indent \<le> prev_indent
           then Some (insert_at idx (replicate expected_indent CHR '' '' @ ''pass'' @ [CHR 0x0A]) lines)
           else if current_indent = expected_indent then None
           else Some (lines[idx := replicate expected_indent CHR '' '' @ lstrip current_line])))"

text \<open>
  \<open>re.search(r'(\w+)\[(\d+)\]', s)\<close> on ASCII text: the groups of the leftmost match.
  A match starts at the start of a run of word characters that is followed by \<open>[\<close>,
  one or more digits and \<open>]\<close>.
\<close>

definition is_digit :: "char \<Rightarrow> bool" where
  "is_digit c = (CHR ''0'' \<le> c \<and> c \<le> CHR ''9'')"

definition is_word :: "char \<Rightarrow> bool" where
  "is_word c = ((CHR ''a'' \<le> c \<and> c \<le> CHR ''z'') \<or> (CHR ''A'' \<le> c \<and> c \<le> CHR ''Z'')
                \<or> is_digit c \<or> c = CHR ''_'')"

text \<open>\<open>int(s)\<close> for a string of ASCII digits.\<close>

definition nat_of_digits :: "string \<Rightarrow> nat" where
  "nat_of_digits ds = foldl (\<lambda>n c. 10 * n + (of_char c - 48)) 0 ds"

definition index_match_here :: "string \<Rightarrow> (string \<times> string) option" where
  "index_match_here s =
     (let w = takeWhile is_word s;
          r = drop (length w) s;
          d = takeWhile is_digit (drop 1 r);
          t = drop (Suc (length d)) r in
      if w \<noteq> [] \<and> prefix ''['' r \<and> d \<noteq> [] \<and> prefix '']'' t then Some (w, d) else None)"

fun search_index_access :: "string \<Rightarrow> (string \<times> string) option" where
  "search_index_access [] = None"
| "search_index_access (c # cs) =
     (case index_match_here (c # cs) of
        Some g \<Rightarrow> Some g
      | None \<Rightarrow> search_index_access cs)"

text \<open>The end of the block that starts at \<open>idx\<close>: the first later line that is blank or
  indented less than \<open>indent_len\<close>, or the end of the file.\<close>

fun block_end_from :: "string list \<Rightarrow> nat \<Rightarrow> nat \<Rightarrow> nat" where
  "block_end_from [] indent_len pos = pos"
| "block_end_from (l # ls) indent_len pos =
     (if strip l \<noteq> [] \<and> \<not> indent_of l < indent_len then block_end_from ls indent_len (Suc pos)
      else pos)"

definition fix_index_error :: "string list \<Rightarrow> nat \<Rightarrow> (string list \<times> string) option" where
  "fix_index_error lines idx =
     (let line_no = idx + 1;
          original = lines ! idx;
          indent_len = indent_of original;
          pad = pad_of original;
          stripped = strip original;
          indent_str = detect_indent_string lines in
      case search_index_access stripped of
        None \<Rightarrow>
          (let block_end = block_end_from (drop (idx + 1) lines) indent_len (idx + 1) in
           Some (take idx lines
                 @ [pad @ ''try:'' @ [CHR 0x0A]]
                 @ map (\<lambda>l. indent_str @ l) (take (block_end - idx) (drop idx lines))
                 @ [pad @ ''except (IndexError, KeyError):'' @ [CHR 0x0A] @ pad @ indent_str
                    @ ''continue'' @ [CHR 0x0A]]
                 @ drop block_end lines,
                 ''Wrapped line '' @ str_nat line_no @ '' in try/except for IndexError''))
      | Some (var_name, index_val) \<Rightarrow>
          Some (insert_at idx
                  (pad @ ''if len('' @ var_name @ '') <= '' @ str_nat (nat_of_digits index_val) @ '':''
                   @ [CHR 0x0A] @ pad @ indent_str @ ''continue'' @ [CHR 0x0A]) lines,
                ''Added bounds check for '' @ var_name @ ''['' @ str_nat (nat_of_digits index_val)
                @ ''] at line '' @ str_nat line_no))"

text \<open>
  \<open>re.match(r'def\s+(\w+)\s*\((\w+)', ls)\<close>, group 2, and
  \<open>re.search(r'(\w+)\s*\((\w+)\s*-', s)\<close>, group 2, for ASCII word characters. White
  space (\<open>\s\<close> is the white space of \<open>str.isspace\<close>) and word characters are disjoint,
  so each greedy run is the only one that can match.
\<close>

definition def_param :: "string \<Rightarrow> string option" where
  "def_param ls =
     (let r1 = drop (length ''def'') ls;
          r2 = lstrip r1;
          name = takeWhile is_word r2;
          r3 = lstrip (drop (length name) r2);
          param = takeWhile is_word (drop 1 r3) in
      if prefix ''def'' ls \<and> starts_with_space r1 \<and> name \<noteq> [] \<and> prefix ''('' r3
         \<and> param \<noteq> []
      then Some param else None)"

definition call_match_here :: "string \<Rightarrow> string option" where
  "call_match_here s =
     (let w = takeWhile is_word s;
          r = lstrip (drop (length w) s);
          param = takeWhile is_word (drop 1 r);
          t = lstrip (drop (Suc (length param)) r) in
      if w \<noteq> [] \<and> prefix ''('' r \<and> param \<noteq> [] \<and> prefix ''-'' t then Some param else None)"

fun search_call :: "string \<Rightarrow> string option" where
  "search_call [] = None"
| "search_call (c # cs) =
     (case call_match_here (c # cs) of
        Some g \<Rightarrow> Some g
      | None \<Rightarrow> search_call cs)"

text \<open>The first result of \<open>f\<close> along a list of indices: a \<open>for\<close> loop left by
  \<open>break\<close> at the first hit.\<close>

fun first_some :: "('a \<Rightarrow> 'b option) \<Rightarrow> 'a list \<Rightarrow> 'b option" where
  "first_some f [] = None"
| "first_some f (x # xs) = (case f x of Some y \<Rightarrow> Some y | None \<Rightarrow> first_some f xs)"

text \<open>
  \<open>_fix_recursion_error\<close>. \<open>range(idx - 1, max(idx - 20, -1), -1)\<close> runs down from
  \<open>idx - 1\<close> to \<open>idx - 19\<close>, or to 0. The guard is one element of the list, holding two
  lines of text.
\<close>

definition fix_recursion_error :: "string list \<Rightarrow> nat \<Rightarrow> (string list \<times> string) option" where
  "fix_recursion_error lines idx =
     (let line_no = idx + 1;
          original = lines ! idx;
          indent_len = indent_of original;
          pad = pad_of original;
          stripped = strip original;
          param_name =
            (case first_some (\<lambda>i. def_param (strip (lines ! i))) (rev [idx - 19 ..< idx]) of
               Some param \<Rightarrow> param
             | None \<Rightarrow> (case search_call stripped of Some param \<Rightarrow> param | None \<Rightarrow> ''n''));
          indent_str = detect_indent_string lines;
          guard = pad @ ''if '' @ param_name @ '' < 0:'' @ [CHR 0x0A] @ pad @ indent_str
                  @ ''return 1'' @ [CHR 0x0A];
          insert_pos =
            (case List.find (\<lambda>i. startswith (strip (lines ! i)) (''if '' @ param_name @ '' =='')
                                  \<or> startswith (strip (lines ! i)) (''if '' @ param_name @ ''==''))
                    (rev [idx - 4 ..< idx]) of
               None \<Rightarrow> idx
             | Some i \<Rightarrow>
                 (case List.find (\<lambda>j. startswith (strip (lines ! j)) ''return'')
                         [i + 1 ..< min (i + 3) (length lines)] of
                    None \<Rightarrow> idx
                  | Some j \<Rightarrow> j + 1)) in
      Some (insert_at insert_pos guard lines,
            ''Added negative-input guard for '' @ param_name @ '' at line '' @ str_nat line_no))"

text \<open>
  The rules that read the error message with further regular expressions
  (\<open>_remove_unused_import\<close>, \<open>_fix_type_error\<close>, \<open>_fix_logic_error\<close>,
  \<open>_fix_zero_division\<close>) are parameters: each takes the lines, the index and the bug
  and returns new lines with a description, or nothing.
\<close>

type_synonym rule = "string list \<Rightarrow> nat \<Rightarrow> bug_dict \<Rightarrow> (string list \<times> string) option"

record rule_set =
  remove_unused_import :: rule
  fix_type_error :: rule
  fix_logic_error :: rule
  fix_zero_division :: rule

definition deterministic_patch ::
  "rule_set \<Rightarrow> string \<Rightarrow> string list \<Rightarrow> bug_dict \<Rightarrow> (string list \<times> string) option" where
  "deterministic_patch rs strategy lines bug =
     (let line_no = get_or (b_line bug) 0 in
      if line_no < 1 \<or> line_no > int (length lines) then None
      else
        (let idx = nat (line_no - 1);
             original_line = lines ! idx;
             stripped = rstrip original_line in
         if strategy = ''deterministic_indent'' then
           (case fix_indentation lines idx of
              None \<Rightarrow> None
            | Some fixed \<Rightarrow> Some (fixed, ''Fixed indentation at line '' @ str_int line_no))
         else if strategy = ''deterministic_colon'' then
           (if \<not> endswith stripped '':''
            then Some (lines[idx := stripped @ '':'' @ [CHR 0x0A]],
                       ''Added missing colon at line '' @ str_int line_no)
            else None)
         else if strategy = ''deterministic_bracket'' then
           (let suffix =
                  replicate (count_char CHR ''('' stripped - count_char CHR '')'' stripped) CHR '')''
                  @ replicate (count_char CHR ''['' stripped - count_char CHR '']'' stripped) CHR '']''
                  @ replicate (count_char CHR ''{'' stripped - count_char CHR ''}'' stripped) CHR ''}'' in
            if suffix \<noteq> []
            then Some (lines[idx := stripped @ suffix @ [CHR 0x0A]],
                       ''Added missing bracket(s) '' @ [CHR 0x27] @ suffix @ [CHR 0x27]
                       @ '' at line '' @ str_int line_no)
            else None)
         else if strategy = ''deterministic_semicolon'' then
           (if \<not> endswith stripped '';''
            then Some (lines[idx := stripped @ '';'' @ [CHR 0x0A]],
                       ''Added missing semicolon at line '' @ str_int line_no)
            else None)
         else if strategy = ''deterministic_unused_import'' then remove_unused_import rs lines idx bug
         else if strategy = ''deterministic_type_error'' then fix_type_error rs lines idx bug
         else if strategy = ''deterministic_logic'' then fix_logic_error rs lines idx bug
         else if strategy = ''deterministic_zero_division'' then fix_zero_division rs lines idx bug
         else if strategy = ''deterministic_index_error'' then fix_index_error lines idx
         else if strategy = ''deterministic_recursion_error'' then fix_recursion_error lines idx
         else None))"

subsection \<open>Model-assisted patch\<close>

text \<open>
  The request to the model and the search/replace of its answer produce the new text of
  the whole file, or nothing (no API key, an error, an answer without the three markers).
  That part is the parameter \<open>new_text\<close>; the size check that follows it is the source's.
\<close>

definition llm_patch ::
  "(string list \<Rightarrow> bug_dict \<Rightarrow> string \<Rightarrow> string \<Rightarrow> string option)
   \<Rightarrow> string list \<Rightarrow> bug_dict \<Rightarrow> string \<Rightarrow> string \<Rightarrow> (string list \<times> string) option" where
  "llm_patch new_text lines bug abs_path source_context =
     (case new_text lines bug abs_path source_context of
        None \<Rightarrow> None
      | Some text \<Rightarrow>
          (let new_lines = splitlines text;
               changed_count = (if length new_lines \<ge> length lines
                                then length new_lines - length lines
                                else length lines - length new_lines) in
           if changed_count > MAX_CHANGED_LINES then None
           else Some (new_lines,
                      ''LLM fix around line '' @ str_int (get_or (b_line bug) 0)
                      @ '' via SEARCH/REPLACE'')))"

subsection \<open>Applying one entry\<close>

text \<open>
  The file system maps a path to the bytes of the file there; reading gives
  \<open>read_text_of\<close> of them, and writing stores the text as it is (UTF-8, where the line
  separator is LF). What \<open>pathlib\<close> and the operating system decide is in the
  environment: the path a target denotes (\<open>Path(target_file)\<close> when absolute, else
  \<open>repo_path / target_file\<close>), whether opening it for reading or for writing raises
  (with the message), and the display path.
\<close>

type_synonym fs = "string \<Rightarrow> string option"

record env =
  abs_path_of :: "string \<Rightarrow> string"
  read_error :: "string \<Rightarrow> string option"
  write_error :: "string \<Rightarrow> string option"
  display_path :: "string \<Rightarrow> string"
  det_patch :: "string \<Rightarrow> string list \<Rightarrow> bug_dict \<Rightarrow> (string list \<times> string) option"
  model_patch :: "string list \<Rightarrow> bug_dict \<Rightarrow> string \<Rightarrow> string \<Rightarrow> (string list \<times> string) option"

definition not_applied :: "bug_dict \<Rightarrow> string \<Rightarrow> string \<Rightarrow> patch_dict" where
  "not_applied bug status reason =
     \<lparr>p_bug = Some bug, p_status = status, p_reason = Some reason, p_method = None,
      p_description = None, p_file = None, p_patch = None\<rparr>"

definition diff_line :: "nat \<Rightarrow> string \<Rightarrow> string \<Rightarrow> string" where
  "diff_line i old new =
     ''L'' @ str_nat (i + 1) @ '': -'' @ rstrip old @ '' '' @ arrow @ '' +'' @ rstrip new"

definition diff_lines :: "string list \<Rightarrow> string list \<Rightarrow> string list" where
  "diff_lines old_lines new_lines =
     map (\<lambda>(i, old, new). diff_line i old new)
       (filter (\<lambda>(i, old, new). old \<noteq> new)
          (zip [0 ..< length old_lines] (zip old_lines new_lines)))"

definition write_patch ::
  "env \<Rightarrow> string \<Rightarrow> string list \<Rightarrow> string list \<Rightarrow> bug_dict \<Rightarrow> string \<Rightarrow> string \<Rightarrow> fs
   \<Rightarrow> patch_dict \<times> fs" where
  "write_patch e abs_path old_lines new_lines bug description method files =
     (case write_error e abs_path of
        Some msg \<Rightarrow> (not_applied bug ''write_error'' msg, files)
      | None \<Rightarrow>
          (\<lparr>p_bug = Some bug, p_status = ''applied'', p_reason = None, p_method = Some method,
            p_description = Some description, p_file = Some (display_path e abs_path),
            p_patch = Some (take MAX_CHANGED_LINES (diff_lines old_lines new_lines))\<rparr>,
           files(abs_path \<mapsto> concat new_lines)))"

definition apply_one :: "env \<Rightarrow> plan_entry \<Rightarrow> fs \<Rightarrow> patch_dict \<times> fs" where
  "apply_one e entry files =
     (let target_file = get_or (pe_target_file entry) [];
          strategy = get_or (pe_strategy entry) [];
          bug = get_or (pe_bug entry) empty_bug;
          abs_path = abs_path_of e target_file in
      if is_test_file target_file
      then (not_applied bug ''skipped_test_file'' ''Test file protection (double check).'', files)
      else
        (case files abs_path of
           None \<Rightarrow> (not_applied bug ''file_not_found'' (''Target file not found: '' @ target_file), files)
         | Some bytes \<Rightarrow>
             (case read_error e abs_path of
                Some msg \<Rightarrow> (not_applied bug ''read_error'' msg, files)
              | None \<Rightarrow>
                  (let original = read_text_of bytes;
                       lines = splitlines original;
                       det = (if startswith strategy ''deterministic''
                              then det_patch e strategy lines bug else None) in
                   case det of
                     Some (fixed_lines, desc) \<Rightarrow>
                       write_patch e abs_path lines fixed_lines bug desc ''deterministic'' files
                   | None \<Rightarrow>
                       (case (if strategy = ''llm'' \<or> startswith strategy ''deterministic''
                              then model_patch e lines bug abs_path
                                     (get_or (pe_source_context entry) [])
                              else None) of
                          Some (fixed_lines, desc) \<Rightarrow>
                            write_patch e abs_path lines fixed_lines bug desc ''llm'' files
                        | None \<Rightarrow>
                            (not_applied bug ''no_fix_generated''
                               (''Could not generate a fix via strategy '' @ [CHR 0x27] @ strategy
                                @ [CHR 0x27] @ ''.''), files))))))"

subsection \<open>The tool\<close>

definition non_actionable :: "plan_entry \<Rightarrow> bool" where
  "non_actionable entry =
     (get_or (pe_strategy entry) [] \<in> set [''skip_test_file'', ''unresolvable''])"

text \<open>The key of \<open>by_file\<close>: the target file, or the bug's file when the entry has none.\<close>

definition group_target :: "plan_entry \<Rightarrow> string" where
  "group_target entry =
     (case pe_target_file entry of
        Some t \<Rightarrow> t
      | None \<Rightarrow> get_or (b_file (get_or (pe_bug entry) empty_bug)) [])"

definition entry_line :: "plan_entry \<Rightarrow> int" where
  "entry_line entry = get_or (b_line (get_or (pe_bug entry) empty_bug)) 0"

text \<open>
  \<open>ordered_entries\<close>: the groups of \<open>by_file\<close> in the order of their sorted keys, each
  sorted by line, highest first. \<open>list.sort(reverse=True)\<close> is stable: entries with the
  same line keep their order, as with the stable \<open>sort_key\<close> on the negated line.
\<close>

definition ordered_entries :: "plan_entry list \<Rightarrow> plan_entry list" where
  "ordered_entries plan =
     (let acts = filter (\<lambda>entry. \<not> non_actionable entry) plan in
      concat (map (\<lambda>target_file.
                     sort_key (\<lambda>entry. - entry_line entry)
                       (filter (\<lambda>entry. group_target entry = target_file) acts))
                  (sort (remdups (map group_target acts)))))"

definition skipped_of :: "plan_entry \<Rightarrow> patch_dict" where
  "skipped_of entry =
     \<lparr>p_bug = pe_bug entry,
      p_status = ''skipped_'' @ get_or (pe_strategy entry) [],
      p_reason = Some (case pe_reason entry of Some r \<Rightarrow> r | None \<Rightarrow> get_or (pe_strategy entry) []),
      p_method = None, p_description = None, p_file = None, p_patch = None\<rparr>"

text \<open>The loop \<open>for entry in ordered_entries\<close>: the results in order and the file system
  at the end.\<close>

fun apply_entries :: "env \<Rightarrow> plan_entry list \<Rightarrow> fs \<Rightarrow> patch_dict list \<times> fs" where
  "apply_entries e [] files = ([], files)"
| "apply_entries e (entry # entries) files =
     (let r = apply_one e entry files;
          rs = apply_entries e entries (snd r) in
      (fst r # fst rs, snd rs))"

record applier_outputs =
  ao_status :: string
  ao_applied_patches :: "patch_dict list"
  ao_skipped_patches :: "patch_dict list"
  ao_applied_count :: nat

definition PatchApplierTool_execute :: "env \<Rightarrow> plan_entry list \<Rightarrow> fs \<Rightarrow> applier_outputs \<times> fs" where
  "PatchApplierTool_execute e plan files =
     (if plan = []
      then (\<lparr>ao_status = ''skipped'', ao_applied_patches = [], ao_skipped_patches = [],
             ao_applied_count = 0\<rparr>, files)
      else
        (let r = apply_entries e (ordered_entries plan) files;
             applied = filter (\<lambda>res. p_status res = ''applied'') (fst r);
             skipped = map skipped_of (filter non_actionable plan)
                       @ filter (\<lambda>res. p_status res \<noteq> ''applied'') (fst r) in
         (\<lparr>ao_status = (if length applied > 0 then ''success'' else ''failure''),
           ao_applied_patches = applied, ao_skipped_patches = skipped,
           ao_applied_count = length applied\<rparr>, snd r)))"

section \<open>Fix planning (agents/tools/fix\_planner\_tool.py)\<close>

text \<open>
  The planner has its own copy of the test-file patterns, equal to the applier's, so
  \<open>is_test_file\<close> serves both. The planner only reads the file system: \<open>locate\<close> gives
  the path it settles on for a reported file (\<open>repo_path / filepath\<close> when that is a
  file, else the first result of the search by name, else nothing) and \<open>read_text\<close> the
  text there or the message of the exception.
\<close>

record planner_env =
  locate :: "string \<Rightarrow> string option"
  read_text :: "string \<Rightarrow> string + string"

definition choose_strategy :: "string \<Rightarrow> int \<Rightarrow> string \<Rightarrow> string list \<Rightarrow> string \<times> string" where
  "choose_strategy bug_type line_no message lines =
     (if line_no < 1 \<or> line_no > int (length lines)
      then (''llm'', ''Line out of range; will use LLM to infer fix.'')
      else
        (let original_line = lines ! nat (line_no - 1);
             stripped = rstrip original_line;
             msg = lower message;
             n = str_int line_no;
             open_p = int (count_char CHR ''('' stripped) - int (count_char CHR '')'' stripped);
             open_b = int (count_char CHR ''['' stripped) - int (count_char CHR '']'' stripped);
             open_c = int (count_char CHR ''{'' stripped) - int (count_char CHR ''}'' stripped) in
         if bug_type = ''INDENTATION''
         then (''deterministic_indent'',
               ''Fix indentation at line '' @ n @ '' to match surrounding block.'')
         else if bug_type = ''SYNTAX'' \<and> py_in (''expected ':'' @ [CHR 0x27]) msg
                 \<and> \<not> endswith stripped '':''
         then (''deterministic_colon'', ''Add missing colon at end of line '' @ n @ ''.'')
         else if bug_type = ''SYNTAX'' \<and> py_in ''missing semicolon'' msg
         then (''deterministic_semicolon'', ''Add missing semicolon at end of line '' @ n @ ''.'')
         else if bug_type = ''SYNTAX'' \<and> (py_in ''unexpected EOF'' message \<or> py_in ''expected'' msg)
                 \<and> (open_p > 0 \<or> open_b > 0 \<or> open_c > 0)
         then (''deterministic_bracket'',
               ''Add missing bracket(s) '' @ [CHR 0x27]
               @ replicate (nat open_p) CHR '')'' @ replicate (nat open_b) CHR '']''
               @ replicate (nat open_c) CHR ''}'' @ [CHR 0x27] @ '' at line '' @ n @ ''.'')
         else if bug_type = ''LINTING''
                 \<and> (py_in ''imported but unused'' msg \<or> py_in ''f401'' msg \<or> py_in ''unused import'' msg)
         then (''deterministic_unused_import'', ''Remove unused import at line '' @ n @ '': '' @ message)
         else if bug_type = ''TYPE_ERROR'' \<and> py_in ''is not a function'' msg
         then (''deterministic_type_error'', ''Fix type error at line '' @ n @ '': '' @ message)
         else if bug_type = ''LOGIC''
                 \<and> (py_in ''should multiply'' msg \<or> py_in ''should divide'' msg
                      \<or> py_in ''should add'' msg \<or> py_in ''should subtract'' msg)
         then (''deterministic_logic'', ''Fix logic error at line '' @ n @ '': '' @ message)
         else if py_in ''zerodivisionerror'' msg \<or> (bug_type = ''LOGIC'' \<and> py_in ''/'' original_line)
         then (''deterministic_zero_division'', ''Add zero-division guard at line '' @ n @ '': '' @ message)
         else if py_in ''indexerror'' msg
                 \<or> (bug_type = ''LOGIC'' \<and> (py_in ''['' original_line \<or> py_in ''split'' original_line))
         then (''deterministic_index_error'', ''Add bounds check at line '' @ n @ '': '' @ message)
         else if py_in ''recursion'' msg
         then (''deterministic_recursion_error'',
               ''Add recursion base-case guard at line '' @ n @ '': '' @ message)
         else (''llm'', ''Use LLM (temperature=0) to generate minimal fix for '' @ bug_type
                       @ '' at line '' @ n @ '': '' @ message)))"

text \<open>\<open>f"{n:4d} | {ln}"\<close> for each line of the window of 15 lines around the error.\<close>

definition rjust4 :: "string \<Rightarrow> string" where
  "rjust4 s = replicate (4 - length s) CHR '' '' @ s"

text \<open>\<open>xs[start:end]\<close> for \<open>start\<close> at least 0: a negative \<open>end\<close> counts from the end of
  the list.\<close>

definition py_slice :: "'a list \<Rightarrow> nat \<Rightarrow> int \<Rightarrow> 'a list" where
  "py_slice xs start end =
     (let stop = (if end < 0 then nat (int (length xs) + end) else nat end) in
      take (stop - start) (drop start xs))"

definition snippet_of :: "string list \<Rightarrow> int \<Rightarrow> string" where
  "snippet_of lines line_no =
     (let start = nat (max 0 (line_no - 16));
          end = min (int (length lines)) (line_no + 15);
          window = py_slice lines start end in
      concat (map (\<lambda>(i, ln). rjust4 (str_nat (start + i + 1)) @ '' | '' @ ln)
                (zip [0 ..< length window] window)))"

definition plan_one :: "planner_env \<Rightarrow> bug_dict \<Rightarrow> plan_entry" where
  "plan_one pe bug =
     (let filepath = get_or (b_file bug) ''unknown'';
          bug_type = get_or (b_bug_type bug) [];
          line_no = get_or (b_line bug) 0;
          message = get_or (b_message bug) [] in
      if is_test_file filepath
      then \<lparr>pe_bug = Some bug, pe_strategy = Some ''skip_test_file'',
            pe_reason = Some ''Will not modify test files.'', pe_description = None,
            pe_target_file = Some filepath, pe_source_context = Some []\<rparr>
      else
        (case locate pe filepath of
           None \<Rightarrow>
             \<lparr>pe_bug = Some bug, pe_strategy = Some ''unresolvable'',
              pe_reason = Some (''File not found: '' @ filepath), pe_description = None,
              pe_target_file = Some filepath, pe_source_context = Some []\<rparr>
         | Some abs_path \<Rightarrow>
             (case read_text pe abs_path of
                Inl exc \<Rightarrow>
                  \<lparr>pe_bug = Some bug, pe_strategy = Some ''unresolvable'',
                   pe_reason = Some (''Cannot read file: '' @ exc), pe_description = None,
                   pe_target_file = Some abs_path, pe_source_context = Some []\<rparr>
              | Inr content \<Rightarrow>
                  (let lines = splitlines content;
                       sd = choose_strategy bug_type line_no message lines in
                   \<lparr>pe_bug = Some bug, pe_strategy = Some (fst sd), pe_reason = None,
                    pe_description = Some (snd sd), pe_target_file = Some abs_path,
                    pe_source_context = Some (snippet_of lines line_no)\<rparr>))))"

text \<open>
  \<open>prev_fix_keys\<close>: a pair (file, "") for every fix in the run memory and a pair
  (file, bug type) for every patch applied so far in this run.
\<close>

definition prev_fix_keys :: "RunMemory option \<Rightarrow> patch_dict list \<Rightarrow> (string \<times> string) set" where
  "prev_fix_keys mem patches =
     (case mem of None \<Rightarrow> {} | Some m \<Rightarrow> set (map (\<lambda>f. (fx_file f, [])) (sorted_fixes m)))
     \<union> set (map (\<lambda>p. (get_or (b_file (get_or (p_bug p) empty_bug)) [],
                       get_or (b_bug_type (get_or (p_bug p) empty_bug)) [])) patches)"

text \<open>The body of the loop over the bugs, for a bug at a new location. A bug whose file
  has a fix on record is marked with the key \<open>_escalate_to_llm\<close> before it is planned.\<close>

definition plan_bug :: "planner_env \<Rightarrow> (string \<times> string) set \<Rightarrow> bug_dict \<Rightarrow> plan_entry" where
  "plan_bug pe prev bug =
     (let filepath = get_or (b_file bug) ''unknown'';
          bug_type = get_or (b_bug_type bug) [];
          already_tried = ((filepath, bug_type) \<in> prev \<or> (filepath, []) \<in> prev);
          entry = plan_one pe (if already_tried then bug\<lparr>b_escalate_to_llm := Some True\<rparr> else bug) in
      if already_tried \<and> startswith (get_or (pe_strategy entry) []) ''deterministic''
      then entry\<lparr>pe_strategy := Some ''llm'',
                 pe_description := Some (''Escalated to LLM: deterministic fix already failed for ''
                                         @ bug_type @ '' in '' @ filepath)\<rparr>
      else entry)"

definition bug_location :: "bug_dict \<Rightarrow> string \<times> int" where
  "bug_location bug = (get_or (b_file bug) ''unknown'', get_or (b_line bug) 0)"

text \<open>The \<open>fix_plan\<close> output of \<open>FixPlannerTool.execute\<close>: one entry for the first bug
  at each location (file, line).\<close>

definition FixPlannerTool_execute ::
  "planner_env \<Rightarrow> RunMemory option \<Rightarrow> patch_dict list \<Rightarrow> bug_dict list \<Rightarrow> plan_entry list" where
  "FixPlannerTool_execute pe mem patches bugs =
     map (plan_bug pe (prev_fix_keys mem patches)) (unique_by bug_location {} bugs)"

definition bug_file :: "bug_dict \<Rightarrow> string" where
  "bug_file bug = get_or (b_file bug) ''unknown''"

definition entry_target :: "plan_entry \<Rightarrow> string" where
  "entry_target entry = get_or (pe_target_file entry) []"

definition entry_bug :: "plan_entry \<Rightarrow> bug_dict" where
  "entry_bug entry = get_or (pe_bug entry) empty_bug"

section \<open>A small repository for concrete runs\<close>

text \<open>
  A repository at /repo with a source file that lacks a colon and a test file, the
  environment of a run without model access (no rule beyond the modelled ones, no model
  patch, no I/O error), and the planner's view of it.
\<close>

definition no_rules :: rule_set where
  "no_rules = \<lparr>remove_unused_import = (\<lambda>lines idx bug. None),
     fix_type_error = (\<lambda>lines idx bug. None), fix_logic_error = (\<lambda>lines idx bug. None),
     fix_zero_division = (\<lambda>lines idx bug. None)\<rparr>"

definition demo_env :: env where
  "demo_env = \<lparr>abs_path_of = (\<lambda>t. if startswith t ''/'' then t else ''/repo/'' @ t),
     read_error = (\<lambda>p. None), write_error = (\<lambda>p. None),
     display_path = (\<lambda>p. if startswith p ''/repo/'' then drop (length ''/repo/'') p else p),
     det_patch = deterministic_patch no_rules,
     model_patch = (\<lambda>lines bug abs_path source_context. None)\<rparr>"

definition app_py :: string where
  "app_py = ''def greet(name)'' @ [CHR 0x0A] @ ''    return name'' @ [CHR 0x0A]"

definition test_app_py :: string where
  "test_app_py = ''from app import greet'' @ [CHR 0x0A]"

definition demo_fs :: fs where
  "demo_fs = [''/repo/app.py'' \<mapsto> app_py, ''/repo/tests/test_app.py'' \<mapsto> test_app_py]"

definition demo_planner_env :: planner_env where
  "demo_planner_env =
     \<lparr>locate = (\<lambda>f. if f = ''app.py'' then Some ''/repo/app.py''
                      else if f = ''tests/test_app.py'' then Some ''/repo/tests/test_app.py''
                      else None),
      read_text = (\<lambda>p. case demo_fs p of Some bytes \<Rightarrow> Inr (read_text_of bytes)
                                           | None \<Rightarrow> Inl ''No such file'')\<rparr>"

definition demo_bugs :: "bug_dict list" where
  "demo_bugs =
     [\<lparr>b_file = Some ''tests/test_app.py'', b_line = Some 1, b_bug_type = Some ''IMPORT'',
       b_message = Some ''ImportError: cannot import name greet'', b_severity = Some ''high'',
       b_fix_hint = None, b_escalate_to_llm = None\<rparr>,
      \<lparr>b_file = Some ''app.py'', b_line = Some 1, b_bug_type = Some ''SYNTAX'',
       b_message = Some (''SyntaxError: expected ':'' @ [CHR 0x27]), b_severity = Some ''high'',
       b_fix_hint = None, b_escalate_to_llm = None\<rparr>]"

text \<open>A plan entry as the planner writes it for a file it could read, without the snippet.\<close>

definition entry_at :: "string \<Rightarrow> string \<Rightarrow> bug_dict \<Rightarrow> plan_entry" where
  "entry_at strategy target bug =
     \<lparr>pe_bug = Some bug, pe_strategy = Some strategy, pe_reason = None,
      pe_description = Some [], pe_target_file = Some target, pe_source_context = Some []\<rparr>"

definition pick_py :: string where
  "pick_py = ''def pick(parts)'' @ [CHR 0x0A]
           @ ''    first = parts[0]'' @ [CHR 0x0A]
           @ ''    return parts[1]'' @ [CHR 0x0A]"

definition fact_py :: string where
  "fact_py = ''def fact(n):'' @ [CHR 0x0A]
           @ ''    if n == 0:'' @ [CHR 0x0A]
           @ ''        return 1'' @ [CHR 0x0A]
           @ ''    m = (n - 1'' @ [CHR 0x0A]
           @ ''    return n * fact(m)'' @ [CHR 0x0A]"

text \<open>A script of 22 statements, the first of which fails on an empty list.\<close>

definition drain_py :: string where
  "drain_py = concat (replicate 22 (''items.pop()'' @ [CHR 0x0A]))"

definition drain_bug :: bug_dict where
  "drain_bug = \<lparr>b_file = Some ''drain.py'', b_line = Some 1, b_bug_type = Some ''LOGIC'',
                 b_message = Some ''IndexError: pop from empty list'', b_severity = Some ''high'',
                 b_fix_hint = None, b_escalate_to_llm = None\<rparr>"

text \<open>Two failures reported for fact.py: the open bracket at line 4 and the unbounded
  recursion at line 5.\<close>

definition fact_bugs :: "bug_dict list" where
  "fact_bugs =
     [\<lparr>b_file = Some ''fact.py'', b_line = Some 4, b_bug_type = Some ''SYNTAX'',
       b_message = Some ''SyntaxError: unexpected EOF while parsing'', b_severity = Some ''high'',
       b_fix_hint = None, b_escalate_to_llm = None\<rparr>,
      \<lparr>b_file = Some ''fact.py'', b_line = Some 5, b_bug_type = Some ''LOGIC'',
       b_message = Some ''RecursionError: maximum recursion depth exceeded'',
       b_severity = Some ''high'', b_fix_hint = None, b_escalate_to_llm = None\<rparr>]"

definition src_fs :: fs where
  "src_fs = [''/repo/pick.py'' \<mapsto> pick_py, ''/repo/fact.py'' \<mapsto> fact_py,
             ''/repo/drain.py'' \<mapsto> drain_py]"

text \<open>The planner's view of a repository at /repo whose files are all found where the
  report says, and a model that answers with a fixed new text.\<close>

definition planner_of :: "fs \<Rightarrow> planner_env" where
  "planner_of files =
     \<lparr>locate = (\<lambda>f. case files (''/repo/'' @ f) of Some content \<Rightarrow> Some (''/repo/'' @ f)
                                                       | None \<Rightarrow> None),
      read_text = (\<lambda>p. case files p of Some bytes \<Rightarrow> Inr (read_text_of bytes)
                                         | None \<Rightarrow> Inl ''No such file'')\<rparr>"

definition scripted_answer ::
  "string \<Rightarrow> string list \<Rightarrow> bug_dict \<Rightarrow> string \<Rightarrow> string \<Rightarrow> string option" where
  "scripted_answer new_text lines bug abs_path source_context = Some new_text"

section \<open>Run memory: re-appending and other iterations\<close>

lemma filter_other_map_failure:
  "filter (\<lambda>f. fr_iteration f \<noteq> n) (map (failure_of_bug n) bs) = []"
  by (induction bs) (simp_all add: failure_of_bug_def)

lemma filter_other_map_fix:
  "filter (\<lambda>f. fx_iteration f \<noteq> n) (map (fix_of_patch n h) ps) = []"
  by (induction ps) (simp_all add: fix_of_patch_def Let_def)

text \<open>
  Claim C3. Appending failures, fixes or a CI run for iteration \<open>n\<close> a second time with
  the same arguments stores what a single call stores (for the CI run, whose timestamps
  default to the clock, a single call made at the time of the second one), and an append
  for iteration \<open>n\<close> keeps the stored records of every other iteration, in their order,
  and leaves the two other collections as they were.
\<close>

theorem append_idempotent_frame:
  "append_failures n bugs (append_failures n bugs m) = append_failures n bugs m
   \<and> append_fixes n ps h (append_fixes n ps h m) = append_fixes n ps h m
   \<and> append_ci_run n s st en t2 t2' (append_ci_run n s st en t1 t1' m)
       = append_ci_run n s st en t2 t2' m
   \<and> filter (\<lambda>f. fr_iteration f \<noteq> n) (mem_failures (append_failures n bugs m))
       = filter (\<lambda>f. fr_iteration f \<noteq> n) (mem_failures m)
   \<and> mem_fixes (append_failures n bugs m) = mem_fixes m
   \<and> mem_ci_runs (append_failures n bugs m) = mem_ci_runs m
   \<and> filter (\<lambda>f. fx_iteration f \<noteq> n) (mem_fixes (append_fixes n ps h m))
       = filter (\<lambda>f. fx_iteration f \<noteq> n) (mem_fixes m)
   \<and> mem_failures (append_fixes n ps h m) = mem_failures m
   \<and> mem_ci_runs (append_fixes n ps h m) = mem_ci_runs m
   \<and> filter (\<lambda>r. cr_iteration r \<noteq> n) (mem_ci_runs (append_ci_run n s st en t1 t1' m))
       = filter (\<lambda>r. cr_iteration r \<noteq> n) (mem_ci_runs m)
   \<and> mem_failures (append_ci_run n s st en t1 t1' m) = mem_failures m
   \<and> mem_fixes (append_ci_run n s st en t1 t1' m) = mem_fixes m"
  by (simp add: append_failures_def append_fixes_def append_ci_run_def
      filter_other_map_failure filter_other_map_fix)

lemma sort_key_Nil_iff: "sort_key f xs = [] \<longleftrightarrow> xs = []"
  using length_sort [of f xs] by (metis length_0_conv)

text \<open>
  Claim C10. With no CI run recorded the final status is PASSED exactly when no failure
  is recorded and FAILED otherwise; with at least one CI run it is PASSED exactly when
  the last stored run (the one appended most recently) has status success, and FAILED
  otherwise; right after \<open>append_ci_run\<close> that run is the one just appended.
\<close>

theorem final_ci_status_cases:
  "(mem_ci_runs m = [] \<longrightarrow>
      (resolve_final_ci_status m = ''PASSED'' \<longleftrightarrow> mem_failures m = [])
      \<and> (resolve_final_ci_status m = ''FAILED'' \<longleftrightarrow> mem_failures m \<noteq> []))
   \<and> (mem_ci_runs m \<noteq> [] \<longrightarrow>
      (resolve_final_ci_status m = ''PASSED'' \<longleftrightarrow> cr_status (last (mem_ci_runs m)) = ''success'')
      \<and> (resolve_final_ci_status m = ''FAILED'' \<longleftrightarrow> cr_status (last (mem_ci_runs m)) \<noteq> ''success''))
   \<and> latest_ci_run (append_ci_run n s st en t1 t2 m)
       = Some \<lparr>cr_iteration = n, cr_status = s,
               cr_start_time = (if st = [] then t1 else st),
               cr_end_time = (if en = [] then t2 else en)\<rparr>
   \<and> (resolve_final_ci_status (append_ci_run n s st en t1 t2 m) = ''PASSED'' \<longleftrightarrow> s = ''success'')"
  by (simp add: resolve_final_ci_status_def latest_ci_run_def sorted_failures_def
      append_ci_run_def sort_key_Nil_iff)

theorem final_ci_status_cases_witness:
  "resolve_final_ci_status RunMemory_init = ''PASSED''
   \<and> resolve_final_ci_status (append_failures 1 [empty_bug] RunMemory_init) = ''FAILED''
   \<and> resolve_final_ci_status
        (append_ci_run 2 ''success'' [] [] ''t3'' ''t4''
          (append_ci_run 1 ''failure'' [] [] ''t1'' ''t2''
            (append_failures 1 [empty_bug] RunMemory_init))) = ''PASSED''
   \<and> resolve_final_ci_status
        (append_ci_run 1 ''failure'' [] [] ''t3'' ''t4''
          (append_ci_run 2 ''success'' [] [] ''t1'' ''t2'' RunMemory_init)) = ''FAILED''"
proof -
  let ?m1 = "append_failures 1 [empty_bug] RunMemory_init"
  let ?m2 = "append_ci_run 1 ''failure'' [] [] ''t1'' ''t2'' ?m1"
  let ?m3 = "append_ci_run 2 ''success'' [] [] ''t1'' ''t2'' RunMemory_init"
  let ?m4 = "append_ci_run 1 ''failure'' [] [] ''t3'' ''t4'' ?m3"
  have e0: "mem_ci_runs RunMemory_init = []" "mem_failures RunMemory_init = []"
    by (simp_all add: RunMemory_init_def)
  have e1: "mem_ci_runs ?m1 = []" "mem_failures ?m1 \<noteq> []"
    by (simp_all add: RunMemory_init_def append_failures_def)
  have e4: "mem_ci_runs ?m4 \<noteq> []" "cr_status (last (mem_ci_runs ?m4)) \<noteq> ''success''"
    by (simp_all add: append_ci_run_def)
  have a: "resolve_final_ci_status RunMemory_init = ''PASSED''"
    using final_ci_status_cases [of RunMemory_init 0 "[]" "[]" "[]" "[]" "[]"] e0 by blast
  have b: "resolve_final_ci_status ?m1 = ''FAILED''"
    using final_ci_status_cases [of ?m1 0 "[]" "[]" "[]" "[]" "[]"] e1 by blast
  have c: "resolve_final_ci_status (append_ci_run 2 ''success'' [] [] ''t3'' ''t4'' ?m2) = ''PASSED''"
    using final_ci_status_cases [of ?m2 2 "''success''" "[]" "[]" "''t3''" "''t4''"] by blast
  have d: "resolve_final_ci_status ?m4 = ''FAILED''"
    using final_ci_status_cases [of ?m4 0 "[]" "[]" "[]" "[]" "[]"] e4 by blast
  show ?thesis using a b c d by blast
qed

section \<open>Classification: one record per key\<close>

lemma unique_by_set: "set (unique_by key seen xs) \<subseteq> set xs"
  apply (induction key seen xs rule: unique_by.induct)
   apply simp
  apply simp
  apply blast
  done

lemma unique_by_notin: "x \<in> set (unique_by key seen xs) \<Longrightarrow> key x \<notin> seen"
proof (induction xs arbitrary: seen)
  case Nil
  then show ?case by simp
next
  case (Cons b bs)
  show ?case
  proof (cases "key b \<in> seen")
    case True
    have "x \<in> set (unique_by key seen bs)" using Cons.prems True by simp
    then show ?thesis by (rule Cons.IH)
  next
    case False
    show ?thesis
    proof (cases "x = b")
      case True
      with False show ?thesis by simp
    next
      case neq: False
      have "x \<in> set (unique_by key (insert (key b) seen) bs)" using False Cons.prems neq by simp
      then have "key x \<notin> insert (key b) seen" by (rule Cons.IH)
      then show ?thesis by simp
    qed
  qed
qed

lemma unique_by_distinct: "distinct (map key (unique_by key seen xs))"
proof (induction xs arbitrary: seen)
  case Nil
  then show ?case by simp
next
  case (Cons b bs)
  show ?case
  proof (cases "key b \<in> seen")
    case True
    then have e: "unique_by key seen (b # bs) = unique_by key seen bs" by simp
    show ?thesis unfolding e by (rule Cons.IH)
  next
    case False
    have nin: "key b \<notin> key ` set (unique_by key (insert (key b) seen) bs)"
    proof
      assume "key b \<in> key ` set (unique_by key (insert (key b) seen) bs)"
      then obtain y where y: "y \<in> set (unique_by key (insert (key b) seen) bs)" "key y = key b"
        by force
      from unique_by_notin [OF y(1)] y(2) show False by simp
    qed
    have d: "distinct (map key (unique_by key (insert (key b) seen) bs))"
      by (rule Cons.IH)
    have e: "unique_by key seen (b # bs) = b # unique_by key (insert (key b) seen) bs"
      using False by simp
    show ?thesis unfolding e using nin d by simp
  qed
qed


lemma match_step_add_bug:
  "fst (match_step bt tpl acc m) = add_bug (fst acc) (report_of_match bt tpl m)"
  by (simp add: match_step_def add_bug_def Let_def report_of_match_def bug_key_def)

lemma fst_match_fold:
  "fst (foldl (match_step bt tpl) acc ms) = foldl add_bug (fst acc) (map (report_of_match bt tpl) ms)"
  by (induction ms arbitrary: acc) (simp_all add: match_step_add_bug)

lemma rule_step_triple: "rule_step acc (bt, tpl, ms) = foldl (match_step bt tpl) acc ms"
  by (simp add: rule_step_def)

lemma candidates_Cons:
  "candidates ((bt, tpl, ms) # rules) = map (report_of_match bt tpl) ms @ candidates rules"
  by (simp add: candidates_def)

lemma fst_rule_fold:
  "fst (foldl rule_step acc rules) = foldl add_bug (fst acc) (candidates rules)"
proof (induction rules arbitrary: acc)
  case Nil
  then show ?case by (simp add: candidates_def)
next
  case (Cons r rules)
  obtain bt tpl ms where r: "r = (bt, tpl, ms)" by (cases r) auto
  show ?case
    unfolding r by (simp only: foldl_Cons Cons.IH rule_step_triple fst_match_fold candidates_Cons foldl_append)
qed

lemma regex_classify_candidates: "fst (regex_classify rules) = foldl add_bug [] (candidates rules)"
  by (simp add: regex_classify_def fst_rule_fold)

lemma add_bug_keeps_distinct: "distinct (map bug_key bs) \<Longrightarrow> distinct (map bug_key (add_bug bs c))"
  by (auto simp: add_bug_def list_ex_iff)

lemma add_bug_distinct:
  "distinct (map bug_key bs) \<Longrightarrow> distinct (map bug_key (foldl add_bug bs cs))"
  by (induction cs arbitrary: bs) (simp_all add: add_bug_keeps_distinct)

lemma find_app:
  "List.find P (xs @ ys) = (case List.find P xs of Some x \<Rightarrow> Some x | None \<Rightarrow> List.find P ys)"
  by (induction xs) simp_all

lemma add_bug_find1:
  "List.find (\<lambda>b. bug_key b = k) (add_bug bs c)
   = (case List.find (\<lambda>b. bug_key b = k) bs of Some b \<Rightarrow> Some b
      | None \<Rightarrow> (if bug_key c = k then Some c else None))"
proof (cases "List.find (\<lambda>b. bug_key b = k) bs")
  case None
  then have "\<forall>x \<in> set bs. bug_key x \<noteq> k" by (simp add: find_None_iff)
  with None show ?thesis by (auto simp: add_bug_def list_ex_iff find_app)
next
  case (Some b)
  then show ?thesis by (simp add: add_bug_def find_app)
qed

lemma add_bug_find:
  "List.find (\<lambda>b. bug_key b = k) (foldl add_bug bs cs)
   = (case List.find (\<lambda>b. bug_key b = k) bs of Some b \<Rightarrow> Some b
      | None \<Rightarrow> List.find (\<lambda>b. bug_key b = k) cs)"
  by (induction cs arbitrary: bs) (simp_all add: add_bug_find1 split: option.splits)

lemma distinct_map_insort:
  "distinct (map k (insort_key f x xs)) \<longleftrightarrow> k x \<notin> k ` set xs \<and> distinct (map k xs)"
  by (induction xs) (auto simp: set_insort_key)

lemma distinct_map_sort: "distinct (map k (sort_key f xs)) \<longleftrightarrow> distinct (map k xs)"
  by (induction xs) (simp_all add: distinct_map_insort)

lemma regex_classify_distinct: "distinct (map bug_key (fst (regex_classify rules)))"
  using add_bug_distinct [of "[]" "candidates rules"] by (simp add: regex_classify_candidates)

lemma unique_by_disjoint: "key ` set (unique_by key seen xs) \<inter> seen = {}"
  by (auto dest: unique_by_notin)

lemma merge_llm_distinct:
  assumes "distinct (map bug_key bugs)"
  shows "distinct (map bug_key (merge_llm bugs llm_bugs))"
proof -
  have "bug_key ` set (unique_by bug_key (bug_key ` set bugs) llm_bugs) \<inter> bug_key ` set bugs = {}"
    by (rule unique_by_disjoint)
  then have "bug_key ` set bugs \<inter> bug_key ` set (unique_by bug_key (bug_key ` set bugs) llm_bugs) = {}"
    by (simp only: Int_commute)
  then show ?thesis
    using assms by (simp add: merge_llm_def unique_by_distinct)
qed

lemma trace_distinct:
  assumes "distinct (map bug_key bugs)"
  shows "distinct (map bug_key (trace_test_bugs_to_source bugs failed sections))"
  using assms by (simp add: trace_test_bugs_to_source_def Let_def unique_by_distinct)

lemma classify_errors_async_distinct:
  "distinct (map bug_key (classify_errors_async rules llm_bugs failed sections))"
  by (simp add: classify_errors_async_def distinct_map_sort trace_distinct merge_llm_distinct
      regex_classify_distinct)

lemma classified_bugs_of_distinct:
  "distinct (map dict_key (classified_bugs_of normalize_path test_output bugs))"
  by (simp add: classified_bugs_of_def unique_by_distinct)

text \<open>
  Claim C7. The regex pass keeps at most one bug per (file, line, category) key, and the
  bug kept for a key is the report of the first match with that key in the order of the
  loops (rule by rule, match by match), every later one being dropped; the result of
  \<open>classify_errors_async\<close> and the \<open>classified_bugs\<close> output of the classifier tool
  hold no two entries with the same (file, line, bug\_type).
\<close>

theorem classification_one_record_per_key:
  "distinct (map bug_key (fst (regex_classify rules)))
   \<and> List.find (\<lambda>b. bug_key b = k) (fst (regex_classify rules))
       = List.find (\<lambda>b. bug_key b = k) (candidates rules)
   \<and> distinct (map bug_key (classify_errors_async rules llm_bugs failed sections))
   \<and> distinct (map dict_key
         (FailureClassifierTool_execute normalize_path test_output rules llm_bugs failed sections))"
proof (intro conjI)
  show "distinct (map bug_key (fst (regex_classify rules)))"
    by (rule regex_classify_distinct)
  show "List.find (\<lambda>b. bug_key b = k) (fst (regex_classify rules))
       = List.find (\<lambda>b. bug_key b = k) (candidates rules)"
    by (simp add: regex_classify_candidates add_bug_find)
  show "distinct (map bug_key (classify_errors_async rules llm_bugs failed sections))"
    by (rule classify_errors_async_distinct)
  show "distinct (map dict_key
         (FailureClassifierTool_execute normalize_path test_output rules llm_bugs failed sections))"
    by (simp add: FailureClassifierTool_execute_def classified_bugs_of_distinct)
qed

section \<open>Re-attribution\<close>

lemma ends_shift:
  "bol_free r \<Longrightarrow> ends r (p @ s) (length p + i) = map (\<lambda>j. length p + j) (ends r s i)"
proof (induction r arbitrary: i)
  case (Lit w)
  then show ?case by simp
next
  case (PlusNot c)
  then show ?case by (simp add: comp_def)
next
  case (Seq a b)
  then have a: "ends a (p @ s) (length p + i) = map (\<lambda>j. length p + j) (ends a s i)"
    and b: "\<And>j. ends b (p @ s) (length p + j) = map (\<lambda>j. length p + j) (ends b s j)"
    by simp_all
  show ?case
    by (simp only: ends.simps a map_map comp_def b map_concat)
next
  case (Alt a b)
  then show ?case by simp
next
  case Bol
  then show ?case by simp
next
  case Eol
  then show ?case by (auto simp: nth_append)
qed

lemma re_search_iff: "re_search r s \<longleftrightarrow> (\<exists>i \<le> length s. ends r s i \<noteq> [])"
proof -
  have "set [0 ..< Suc (length s)] = {i. i \<le> length s}" by auto
  then show ?thesis by (simp only: re_search_def list_ex_iff) blast
qed

lemma ends_comp_start_Seq:
  "ends (Seq comp_start r) s i
   = (if i = 0 then ends r s 0 else []) @ ends (Seq (Lit ''/'') r) s i"
  by (simp add: comp_start_def)

lemma search_comp_start_suffix:
  assumes "bol_free r" "re_search (Seq comp_start r) s"
  shows "re_search (Seq comp_start r) (p @ ''/'' @ s)"
proof -
  let ?P = "p @ ''/''"
  from assms(2) obtain i where i: "i \<le> length s" "ends (Seq comp_start r) s i \<noteq> []"
    by (auto simp: re_search_iff)
  have bf: "bol_free (Seq (Lit ''/'') r)" using assms(1) by simp
  show ?thesis
  proof (cases "ends (Seq (Lit ''/'') r) s i \<noteq> []")
    case True
    have "ends (Seq (Lit ''/'') r) (?P @ s) (length ?P + i)
          = map (\<lambda>j. length ?P + j) (ends (Seq (Lit ''/'') r) s i)"
      using bf by (rule ends_shift)
    with True have "ends (Seq (Lit ''/'') r) (?P @ s) (length ?P + i) \<noteq> []" by simp
    then have "ends (Seq comp_start r) (?P @ s) (length ?P + i) \<noteq> []"
      by (simp only: ends_comp_start_Seq) simp
    moreover have "length ?P + i \<le> length (?P @ s)" using i(1) by simp
    ultimately have "re_search (Seq comp_start r) (?P @ s)"
      unfolding re_search_iff by blast
    then show ?thesis by simp
  next
    case False
    then have e: "ends (Seq (Lit ''/'') r) s i = []" by blast
    have "(if i = 0 then ends r s 0 else []) \<noteq> []"
      using i(2) unfolding ends_comp_start_Seq e by simp
    then have z: "i = 0" "ends r s 0 \<noteq> []"
      by (simp_all split: if_splits)
    have sh: "ends r (?P @ s) (length ?P + 0) = map (\<lambda>j. length ?P + j) (ends r s 0)"
      using assms(1) by (rule ends_shift)
    have "ends (Lit ''/'') (?P @ s) (length p) = [Suc (length p)]" by simp
    then have "ends (Seq (Lit ''/'') r) (?P @ s) (length p) = ends r (?P @ s) (Suc (length p))"
      by simp
    with sh z(2) have "ends (Seq (Lit ''/'') r) (?P @ s) (length p) \<noteq> []" by simp
    then have "ends (Seq comp_start r) (?P @ s) (length p) \<noteq> []"
      by (simp only: ends_comp_start_Seq) simp
    moreover have "length p \<le> length (?P @ s)" by simp
    ultimately have "re_search (Seq comp_start r) (?P @ s)"
      unfolding re_search_iff by blast
    then show ?thesis by simp
  qed
qed

lemma is_test_path_suffix:
  assumes "is_test_path s"
  shows "is_test_path (p @ ''/'' @ s)"
proof -
  have form: "\<forall>q \<in> set TEST_FILE_RE. \<exists>r. q = Seq comp_start r \<and> bol_free r"
    by (simp add: TEST_FILE_RE_def)
  from assms obtain q where q: "q \<in> set TEST_FILE_RE" "re_search q s"
    by (auto simp: is_test_path_def list_ex_iff)
  from form q(1) obtain r where r: "q = Seq comp_start r" "bol_free r" by blast
  have "re_search q (p @ ''/'' @ s)"
    using search_comp_start_suffix [OF r(2)] q(2) r(1) by simp
  with q(1) show ?thesis by (auto simp: is_test_path_def list_ex_iff)
qed

lemma strip_workspace_not_test:
  assumes "\<not> is_test_path f"
  shows "\<not> is_test_path (strip_workspace f)"
proof (cases "startswith f ''/workspace/''")
  case True
  then obtain g where g: "f = ''/workspace/'' @ g"
    by (auto simp: startswith_def prefix_def)
  have "f = ''/workspace'' @ ''/'' @ g" using g by simp
  with assms is_test_path_suffix [of g "''/workspace''"] have "\<not> is_test_path g" by auto
  then show ?thesis using True g by (simp add: strip_workspace_def)
next
  case False
  then show ?thesis using assms by (simp add: strip_workspace_def)
qed

lemma unique_by_keys: "key ` set (unique_by key seen xs) = key ` set xs - seen"
proof (induction xs arbitrary: seen)
  case Nil
  then show ?case by simp
next
  case (Cons b bs)
  show ?case
  proof (cases "key b \<in> seen")
    case True
    then show ?thesis using Cons.IH [of seen] by auto
  next
    case False
    then show ?thesis using Cons.IH [of "insert (key b) seen"] by auto
  qed
qed

lemma failed_tests_Nil: "failed_tests [] = Map.empty"
  by (simp add: failed_tests_def)

lemma section_bugs_file:
  assumes "b \<in> set (section_bugs ft sec)"
  shows "\<not> is_test_path (br_file b)"
proof -
  from assms obtain info where b: "source_refs sec \<noteq> []"
    "b = traced_bug (last (source_refs sec)) (snd info)"
    by (auto simp: section_bugs_def split: option.splits if_splits)
  have "last (source_refs sec) \<in> set (source_refs sec)" using b(1) by simp
  moreover have "set (source_refs sec) \<subseteq> {r. source_ref_ok r}"
    by (cases sec) (auto simp: source_refs_def)
  ultimately have "source_ref_ok (last (source_refs sec))"
    by blast
  then have "\<not> is_test_path (fst (last (source_refs sec)))"
    by (simp add: source_ref_ok_def)
  then show ?thesis
    using b(2) by (simp add: traced_bug_def strip_workspace_not_test)
qed

lemma trace_result:
  assumes "sec \<in> set sections" "failed_tests failed (fst sec) = Some info" "source_refs sec \<noteq> []"
  shows "trace_test_bugs_to_source bugs failed sections
         = unique_by bug_key {}
             (filter (\<lambda>b. \<not> is_test_path (br_file b)) bugs
              @ concat (map (section_bugs (failed_tests failed)) sections))"
    and "traced_bug (last (source_refs sec)) (snd info)
         \<in> set (concat (map (section_bugs (failed_tests failed)) sections))"
proof -
  have ne: "failed \<noteq> []" using assms(2) by (auto simp: failed_tests_Nil)
  have "section_bugs (failed_tests failed) sec = [traced_bug (last (source_refs sec)) (snd info)]"
    using assms(2,3) by (simp add: section_bugs_def)
  then show mem: "traced_bug (last (source_refs sec)) (snd info)
         \<in> set (concat (map (section_bugs (failed_tests failed)) sections))"
    using assms(1) by force
  then have ne2: "concat (map (section_bugs (failed_tests failed)) sections) \<noteq> []"
    by (metis empty_iff empty_set)
  show "trace_test_bugs_to_source bugs failed sections
         = unique_by bug_key {}
             (filter (\<lambda>b. \<not> is_test_path (br_file b)) bugs
              @ concat (map (section_bugs (failed_tests failed)) sections))"
    unfolding trace_test_bugs_to_source_def Let_def using ne ne2 by (simp only: if_False)
qed

lemma unique_by_append_distinct:
  "distinct (map key xs) \<Longrightarrow> key ` set xs \<inter> seen = {}
   \<Longrightarrow> unique_by key seen (xs @ ys) = xs @ unique_by key (seen \<union> key ` set xs) ys"
proof (induction xs arbitrary: seen)
  case Nil
  then show ?case by simp
next
  case (Cons x xs)
  have nx: "key x \<notin> seen" using Cons.prems(2) by auto
  have d: "distinct (map key xs)" using Cons.prems(1) by simp
  have "key x \<notin> key ` set xs" using Cons.prems(1) by simp
  then have i: "key ` set xs \<inter> insert (key x) seen = {}" using Cons.prems(2) by auto
  have "unique_by key (insert (key x) seen) (xs @ ys)
        = xs @ unique_by key (insert (key x) seen \<union> key ` set xs) ys"
    using d i by (rule Cons.IH)
  moreover have "insert (key x) seen \<union> key ` set xs = seen \<union> key ` set (x # xs)" by auto
  ultimately show ?case using nx by simp
qed

lemma trace_keeps_source_bugs:
  assumes "sec \<in> set sections" "failed_tests failed (fst sec) = Some info" "source_refs sec \<noteq> []"
    and "distinct (map bug_key bugs)"
  shows "\<exists>rest. trace_test_bugs_to_source bugs failed sections
                 = filter (\<lambda>b. \<not> is_test_path (br_file b)) bugs @ rest"
proof -
  let ?nt = "filter (\<lambda>b. \<not> is_test_path (br_file b)) bugs"
  have d: "distinct (map bug_key ?nt)" using assms(4) by (rule distinct_map_filter)
  have e: "bug_key ` set ?nt \<inter> {} = {}" by simp
  have "trace_test_bugs_to_source bugs failed sections
        = unique_by bug_key {} (?nt @ concat (map (section_bugs (failed_tests failed)) sections))"
    using assms(1,2,3) by (rule trace_result(1))
  also have "\<dots> = ?nt @ unique_by bug_key ({} \<union> bug_key ` set ?nt)
                         (concat (map (section_bugs (failed_tests failed)) sections))"
    using d e by (rule unique_by_append_distinct)
  finally show ?thesis by blast
qed

text \<open>
  Claim C8, as amended. For a traceback section of a test named in a FAILED summary line,
  with at least one reference that survives the filter (not a test path, not under
  site-packages or /usr/, not a pseudo-file), the returned list holds a bug at the last
  surviving reference in the order of collection (all \<open>File "...", line N\<close> references,
  then all \<open>path:N:\<close> references), a leading /workspace/ removed, with the category
  inferred from the summary message; and no bug of the returned list has a file that
  matches the test-path patterns. A previously classified bug whose file does not match
  the patterns is kept: the returned list holds a bug with its file, line and category,
  and when the previous bugs differ in file, line or category, as those of
  \<open>classify_errors_async\<close> do, it starts with these bugs themselves, in their order. The
  same holds of \<open>classify_errors_async\<close>, which sorts the list.
\<close>

theorem reattribution_last_source_ref:
  assumes "sec \<in> set sections"
    and "failed_tests failed (fst sec) = Some info"
    and "source_refs sec \<noteq> []"
  shows "(\<exists>b \<in> set (trace_test_bugs_to_source bugs failed sections).
            br_file b = strip_workspace (fst (last (source_refs sec)))
            \<and> br_line b = snd (last (source_refs sec))
            \<and> br_bug_type b = infer_bug_type (snd info))
         \<and> (\<forall>b \<in> set (trace_test_bugs_to_source bugs failed sections). \<not> is_test_path (br_file b))
         \<and> (\<exists>b \<in> set (classify_errors_async rules llm_bugs failed sections).
            br_file b = strip_workspace (fst (last (source_refs sec)))
            \<and> br_line b = snd (last (source_refs sec))
            \<and> br_bug_type b = infer_bug_type (snd info))
         \<and> (\<forall>b \<in> set (classify_errors_async rules llm_bugs failed sections).
            \<not> is_test_path (br_file b))
         \<and> (\<forall>b \<in> set bugs. \<not> is_test_path (br_file b) \<longrightarrow>
              (\<exists>b' \<in> set (trace_test_bugs_to_source bugs failed sections). bug_key b' = bug_key b))
         \<and> (distinct (map bug_key bugs) \<longrightarrow>
              (\<exists>rest. trace_test_bugs_to_source bugs failed sections
                       = filter (\<lambda>b. \<not> is_test_path (br_file b)) bugs @ rest))
         \<and> (\<forall>b \<in> set (merge_llm (fst (regex_classify rules)) llm_bugs).
              \<not> is_test_path (br_file b) \<longrightarrow>
              b \<in> set (classify_errors_async rules llm_bugs failed sections))"
proof -
  let ?t = "traced_bug (last (source_refs sec)) (snd info)"
  have A: "(\<exists>b \<in> set (trace_test_bugs_to_source bs failed sections). bug_key b = bug_key ?t)
        \<and> (\<forall>b \<in> set (trace_test_bugs_to_source bs failed sections). \<not> is_test_path (br_file b))"
    for bs
  proof -
    let ?all = "filter (\<lambda>b. \<not> is_test_path (br_file b)) bs
              @ concat (map (section_bugs (failed_tests failed)) sections)"
    have r: "trace_test_bugs_to_source bs failed sections = unique_by bug_key {} ?all"
      and m: "?t \<in> set (concat (map (section_bugs (failed_tests failed)) sections))"
      using trace_result(1) [OF assms, of bs] trace_result(2) [OF assms] by blast+
    have "bug_key ?t \<in> bug_key ` set ?all" using m by simp
    then have "bug_key ?t \<in> bug_key ` set (unique_by bug_key {} ?all)"
      by (simp only: unique_by_keys Diff_empty)
    then have 1: "\<exists>b \<in> set (trace_test_bugs_to_source bs failed sections). bug_key b = bug_key ?t"
      unfolding r by force
    have "\<forall>b \<in> set ?all. \<not> is_test_path (br_file b)"
      using section_bugs_file by auto
    then have 2: "\<forall>b \<in> set (trace_test_bugs_to_source bs failed sections). \<not> is_test_path (br_file b)"
      unfolding r using unique_by_set [of bug_key "{}" ?all] by blast
    show ?thesis using 1 2 by blast
  qed
  have k: "bug_key b = bug_key ?t \<longleftrightarrow>
      br_file b = strip_workspace (fst (last (source_refs sec)))
      \<and> br_line b = snd (last (source_refs sec))
      \<and> br_bug_type b = infer_bug_type (snd info)" for b
    by (simp add: bug_key_def traced_bug_def)
  have s: "set (classify_errors_async rules llm_bugs failed sections)
      = set (trace_test_bugs_to_source (merge_llm (fst (regex_classify rules)) llm_bugs) failed sections)"
    by (simp add: classify_errors_async_def)
  have first: "(\<exists>b \<in> set (trace_test_bugs_to_source bugs failed sections).
            br_file b = strip_workspace (fst (last (source_refs sec)))
            \<and> br_line b = snd (last (source_refs sec))
            \<and> br_bug_type b = infer_bug_type (snd info))
         \<and> (\<forall>b \<in> set (trace_test_bugs_to_source bugs failed sections). \<not> is_test_path (br_file b))
         \<and> (\<exists>b \<in> set (classify_errors_async rules llm_bugs failed sections).
            br_file b = strip_workspace (fst (last (source_refs sec)))
            \<and> br_line b = snd (last (source_refs sec))
            \<and> br_bug_type b = infer_bug_type (snd info))
         \<and> (\<forall>b \<in> set (classify_errors_async rules llm_bugs failed sections).
            \<not> is_test_path (br_file b))"
    using A [of bugs] A [of "merge_llm (fst (regex_classify rules)) llm_bugs"]
    unfolding s k by blast
  have kept: "\<forall>b \<in> set bugs. \<not> is_test_path (br_file b) \<longrightarrow>
              (\<exists>b' \<in> set (trace_test_bugs_to_source bugs failed sections). bug_key b' = bug_key b)"
  proof (intro ballI impI)
    fix b assume b: "b \<in> set bugs" "\<not> is_test_path (br_file b)"
    let ?all = "filter (\<lambda>b. \<not> is_test_path (br_file b)) bugs
              @ concat (map (section_bugs (failed_tests failed)) sections)"
    have r: "trace_test_bugs_to_source bugs failed sections = unique_by bug_key {} ?all"
      using assms by (rule trace_result(1))
    have "bug_key b \<in> bug_key ` set ?all" using b by simp
    then have "bug_key b \<in> bug_key ` set (unique_by bug_key {} ?all)"
      by (simp only: unique_by_keys Diff_empty)
    then show "\<exists>b' \<in> set (trace_test_bugs_to_source bugs failed sections). bug_key b' = bug_key b"
      unfolding r by force
  qed
  have itself: "distinct (map bug_key bugs) \<longrightarrow>
              (\<exists>rest. trace_test_bugs_to_source bugs failed sections
                       = filter (\<lambda>b. \<not> is_test_path (br_file b)) bugs @ rest)"
    using trace_keeps_source_bugs [OF assms] by blast
  have dm: "distinct (map bug_key (merge_llm (fst (regex_classify rules)) llm_bugs))"
    using regex_classify_distinct by (rule merge_llm_distinct)
  have cl: "\<forall>b \<in> set (merge_llm (fst (regex_classify rules)) llm_bugs).
              \<not> is_test_path (br_file b) \<longrightarrow>
              b \<in> set (classify_errors_async rules llm_bugs failed sections)"
    using trace_keeps_source_bugs [OF assms dm] unfolding s by auto
  from first kept itself cl show ?thesis by (intro conjI) blast+
qed

theorem reattribution_last_source_ref_witness:
  "failed_tests
       [(''tests/test_parser.py'', ''test_parse'', ''TypeError: bad operand''),
        (''tests/test_math_ops.py'', ''test_divide_by_zero'', ''ZeroDivisionError: division by zero'')]
       ''test_divide_by_zero''
     = Some (''tests/test_math_ops.py'', ''ZeroDivisionError: division by zero'')
   \<and> source_refs (''test_divide_by_zero'', [(''/workspace/src/app.py'', 10)],
                   [(''src/util.py'', 7), (''src/math_ops.py'', 21), (''tests/test_math_ops.py'', 24)])
     = [(''/workspace/src/app.py'', 10), (''src/util.py'', 7), (''src/math_ops.py'', 21)]
   \<and> list_ex (\<lambda>b. br_file b = ''src/math_ops.py'' \<and> br_line b = 21 \<and> br_bug_type b = ''LOGIC'')
        (trace_test_bugs_to_source
           [\<lparr>br_file = ''tests/test_math_ops.py'', br_line = 24, br_bug_type = ''LOGIC'',
             br_message = ''AssertionError''\<rparr>,
            \<lparr>br_file = ''checks.py'', br_line = 3, br_bug_type = ''IMPORT'',
             br_message = ''ImportError: no module named yaml''\<rparr>]
           [(''tests/test_parser.py'', ''test_parse'', ''TypeError: bad operand''),
            (''tests/test_math_ops.py'', ''test_divide_by_zero'', ''ZeroDivisionError: division by zero'')]
           [(''test_parse'',
             [(''/workspace/src/parser.py'', 40), (''/usr/lib/python3.11/json/decoder.py'', 337),
              (''/workspace/src/loader.py'', 12),
              (''/opt/venv/lib/python3.11/site-packages/yaml/reader.py'', 5)], []),
            (''test_divide_by_zero'', [(''/workspace/src/app.py'', 10)],
             [(''src/util.py'', 7), (''src/math_ops.py'', 21), (''tests/test_math_ops.py'', 24)])])
   \<and> list_all (\<lambda>b. \<not> is_test_path (br_file b))
        (trace_test_bugs_to_source
           [\<lparr>br_file = ''tests/test_math_ops.py'', br_line = 24, br_bug_type = ''LOGIC'',
             br_message = ''AssertionError''\<rparr>,
            \<lparr>br_file = ''checks.py'', br_line = 3, br_bug_type = ''IMPORT'',
             br_message = ''ImportError: no module named yaml''\<rparr>]
           [(''tests/test_parser.py'', ''test_parse'', ''TypeError: bad operand''),
            (''tests/test_math_ops.py'', ''test_divide_by_zero'', ''ZeroDivisionError: division by zero'')]
           [(''test_parse'',
             [(''/workspace/src/parser.py'', 40), (''/usr/lib/python3.11/json/decoder.py'', 337),
              (''/workspace/src/loader.py'', 12),
              (''/opt/venv/lib/python3.11/site-packages/yaml/reader.py'', 5)], []),
            (''test_divide_by_zero'', [(''/workspace/src/app.py'', 10)],
             [(''src/util.py'', 7), (''src/math_ops.py'', 21), (''tests/test_math_ops.py'', 24)])])
   \<and> trace_test_bugs_to_source
           [\<lparr>br_file = ''tests/test_math_ops.py'', br_line = 24, br_bug_type = ''LOGIC'',
             br_message = ''AssertionError''\<rparr>,
            \<lparr>br_file = ''checks.py'', br_line = 3, br_bug_type = ''IMPORT'',
             br_message = ''ImportError: no module named yaml''\<rparr>]
           [(''tests/test_parser.py'', ''test_parse'', ''TypeError: bad operand''),
            (''tests/test_math_ops.py'', ''test_divide_by_zero'', ''ZeroDivisionError: division by zero'')]
           [(''test_parse'',
             [(''/workspace/src/parser.py'', 40), (''/usr/lib/python3.11/json/decoder.py'', 337),
              (''/workspace/src/loader.py'', 12),
              (''/opt/venv/lib/python3.11/site-packages/yaml/reader.py'', 5)], []),
            (''test_divide_by_zero'', [(''/workspace/src/app.py'', 10)],
             [(''src/util.py'', 7), (''src/math_ops.py'', 21), (''tests/test_math_ops.py'', 24)])]
     = [\<lparr>br_file = ''checks.py'', br_line = 3, br_bug_type = ''IMPORT'',
          br_message = ''ImportError: no module named yaml''\<rparr>,
        \<lparr>br_file = ''src/loader.py'', br_line = 12, br_bug_type = ''TYPE_ERROR'',
          br_message = ''TypeError: bad operand''\<rparr>,
        \<lparr>br_file = ''src/math_ops.py'', br_line = 21, br_bug_type = ''LOGIC'',
          br_message = ''ZeroDivisionError: division by zero''\<rparr>]"
proof -
  let ?sec1 = "(''test_parse'',
             [(''/workspace/src/parser.py'', 40::int), (''/usr/lib/python3.11/json/decoder.py'', 337),
              (''/workspace/src/loader.py'', 12),
              (''/opt/venv/lib/python3.11/site-packages/yaml/reader.py'', 5)], [] :: (string \<times> int) list)"
  let ?sec = "(''test_divide_by_zero'', [(''/workspace/src/app.py'', 10::int)],
             [(''src/util.py'', 7::int), (''src/math_ops.py'', 21), (''tests/test_math_ops.py'', 24)])"
  let ?failed = "[(''tests/test_parser.py'', ''test_parse'', ''TypeError: bad operand''),
        (''tests/test_math_ops.py'', ''test_divide_by_zero'', ''ZeroDivisionError: division by zero'')]"
  let ?info = "(''tests/test_math_ops.py'', ''ZeroDivisionError: division by zero'')"
  let ?bugs = "[\<lparr>br_file = ''tests/test_math_ops.py'', br_line = 24, br_bug_type = ''LOGIC'',
             br_message = ''AssertionError''\<rparr>,
            \<lparr>br_file = ''checks.py'', br_line = 3, br_bug_type = ''IMPORT'',
             br_message = ''ImportError: no module named yaml''\<rparr>]"
  have h1: "?sec \<in> set [?sec1, ?sec]" by simp
  have h2: "failed_tests ?failed (fst ?sec) = Some ?info" by code_simp
  have h3: "source_refs ?sec
            = [(''/workspace/src/app.py'', 10), (''src/util.py'', 7), (''src/math_ops.py'', 21)]"
    by code_simp
  then have h3': "source_refs ?sec \<noteq> []" by simp
  have e1: "strip_workspace (fst (last (source_refs ?sec))) = ''src/math_ops.py''"
    unfolding h3 by code_simp
  have e2: "snd (last (source_refs ?sec)) = 21" unfolding h3 by simp
  have e3: "infer_bug_type (snd ?info) = ''LOGIC''" by code_simp
  have d: "distinct (map bug_key ?bugs)" by (simp add: bug_key_def)
  have nt: "filter (\<lambda>b. \<not> is_test_path (br_file b)) ?bugs = [?bugs ! 1]" by code_simp
  note t = reattribution_last_source_ref [OF h1 h2 h3', of ?bugs "[]" "[]"]
  from t have c1: "\<exists>b \<in> set (trace_test_bugs_to_source ?bugs ?failed [?sec1, ?sec]).
            br_file b = ''src/math_ops.py'' \<and> br_line b = 21 \<and> br_bug_type b = ''LOGIC''"
    unfolding e1 e2 e3 by (elim conjE)
  from t have c2: "\<forall>b \<in> set (trace_test_bugs_to_source ?bugs ?failed [?sec1, ?sec]).
            \<not> is_test_path (br_file b)"
    by (elim conjE)
  from t d have "\<exists>rest. trace_test_bugs_to_source ?bugs ?failed [?sec1, ?sec]
                       = filter (\<lambda>b. \<not> is_test_path (br_file b)) ?bugs @ rest"
    by (elim conjE) (erule mp)
  then obtain rest where r: "trace_test_bugs_to_source ?bugs ?failed [?sec1, ?sec]
                       = [?bugs ! 1] @ rest"
    unfolding nt by blast
  have full: "trace_test_bugs_to_source ?bugs ?failed [?sec1, ?sec]
     = [\<lparr>br_file = ''checks.py'', br_line = 3, br_bug_type = ''IMPORT'',
          br_message = ''ImportError: no module named yaml''\<rparr>,
        \<lparr>br_file = ''src/loader.py'', br_line = 12, br_bug_type = ''TYPE_ERROR'',
          br_message = ''TypeError: bad operand''\<rparr>,
        \<lparr>br_file = ''src/math_ops.py'', br_line = 21, br_bug_type = ''LOGIC'',
          br_message = ''ZeroDivisionError: division by zero''\<rparr>]"
    by code_simp
  from h2 h3 c1 c2 full show ?thesis
    unfolding list_ex_iff list_all_iff by (intro conjI) simp_all
qed

theorem reattribution_keeps_unconventional_test_file:
  "failed_tests [(''checks.py'', ''test_div'', ''ZeroDivisionError: division by zero'')] ''test_div''
       = Some (''checks.py'', ''ZeroDivisionError: division by zero'')
   \<and> source_refs (''test_div'', [], [(''checks.py'', 24), (''src/math_ops.py'', 21)])
       = [(''checks.py'', 24), (''src/math_ops.py'', 21)]
   \<and> trace_test_bugs_to_source
         [\<lparr>br_file = ''checks.py'', br_line = 24, br_bug_type = ''LOGIC'',
           br_message = ''AssertionError''\<rparr>]
         [(''checks.py'', ''test_div'', ''ZeroDivisionError: division by zero'')]
         [(''test_div'', [], [(''checks.py'', 24), (''src/math_ops.py'', 21)])]
       = [\<lparr>br_file = ''checks.py'', br_line = 24, br_bug_type = ''LOGIC'',
            br_message = ''AssertionError''\<rparr>,
          \<lparr>br_file = ''src/math_ops.py'', br_line = 21, br_bug_type = ''LOGIC'',
            br_message = ''ZeroDivisionError: division by zero''\<rparr>]"
  by code_simp

section \<open>Fix entries of the result document\<close>

lemma build_fixes_description:
  "e \<in> set (build_fixes m) \<Longrightarrow>
   fe_description e = fix_description (fe_bug_type e) (fe_file e) (fe_line e) (fe_commit_message e)"
  by (auto simp: build_fixes_def build_fix_def Let_def)

lemma commit_msg_of_tag: "startswith (commit_msg_of iteration applied_patches) ''[AI-AGENT]''"
  by (simp add: commit_msg_of_def startswith_def Let_def)

text \<open>
  Claim C9 at the run memory of one healed iteration: a missing colon at app/main.py:10,
  fixed by the deterministic colon rule (whose description is
  \<open>Added missing colon at line 10\<close>), committed as abc1234, CI success. The fix entry has
  the canonical description with the arrow, but its commit-message field is the patch
  description and does not begin with \<open>[AI-AGENT]\<close>; the message that
  \<open>CommitPushTool\<close> commits with does.
\<close>

theorem fix_entry_commit_message_untagged:
  "build_fixes
     (append_ci_run 1 ''success'' [] [] ''2026-01-01T00:00:00+00:00'' ''2026-01-01T00:00:01+00:00''
       (append_fixes 1
          [\<lparr>p_bug = Some \<lparr>b_file = Some ''app/main.py'', b_line = Some 10,
                  b_bug_type = Some ''SYNTAX'', b_message = Some (''SyntaxError: expected ':'' @ [CHR 0x27]),
                  b_severity = Some ''high'', b_fix_hint = None, b_escalate_to_llm = None\<rparr>,
            p_status = ''applied'', p_reason = None, p_method = Some ''deterministic'',
            p_description = Some ''Added missing colon at line 10'',
            p_file = Some ''app/main.py'', p_patch = Some []\<rparr>]
          ''abc1234''
          (append_failures 1
             [\<lparr>b_file = Some ''app/main.py'', b_line = Some 10,
                  b_bug_type = Some ''SYNTAX'', b_message = Some (''SyntaxError: expected ':'' @ [CHR 0x27]),
                  b_severity = Some ''high'', b_fix_hint = None, b_escalate_to_llm = None\<rparr>]
             RunMemory_init)))
   = [\<lparr>fe_file = ''app/main.py'', fe_bug_type = ''SYNTAX'', fe_line = 10,
       fe_commit_message = ''Added missing colon at line 10'', fe_status = ''verified'',
       fe_description = ''SYNTAX error in app/main.py line 10 '' @ arrow
                        @ '' Fix: Added missing colon at line 10'',
       fe_failure_message = ''SyntaxError: expected ':'' @ [CHR 0x27]\<rparr>]
   \<and> \<not> startswith ''Added missing colon at line 10'' ''[AI-AGENT]''
   \<and> startswith
        (commit_msg_of 1
          [\<lparr>p_bug = Some \<lparr>b_file = Some ''app/main.py'', b_line = Some 10,
                  b_bug_type = Some ''SYNTAX'', b_message = Some (''SyntaxError: expected ':'' @ [CHR 0x27]),
                  b_severity = Some ''high'', b_fix_hint = None, b_escalate_to_llm = None\<rparr>,
            p_status = ''applied'', p_reason = None, p_method = Some ''deterministic'',
            p_description = Some ''Added missing colon at line 10'',
            p_file = Some ''app/main.py'', p_patch = Some []\<rparr>])
        ''[AI-AGENT]''"
  by code_simp

section \<open>Budgets of the reasoning loop\<close>

lemma commits_of_snoc:
  "commits_of (its @ [rep]) = commits_of its + (if ir_commit_sha rep \<noteq> [] then 1 else 0)"
  by (simp add: commits_of_def)

lemma commits_of_nonneg: "0 \<le> commits_of its"
  by (simp add: commits_of_def)

lemma run_iteration_history:
  "\<exists>rep. ls_iterations (run_iteration tool lim mx now k ls) = ls_iterations ls @ [rep]
         \<and> ls_total_commits (run_iteration tool lim mx now k ls)
             = ls_total_commits ls + (if ir_commit_sha rep \<noteq> [] then 1 else 0)"
  by (simp add: run_iteration_def Let_def)

lemma outer_loop_budgets:
  assumes "0 \<le> cur"
    and "length (ls_iterations ls) = nat cur"
    and "ls_total_commits ls = commits_of (ls_iterations ls)"
    and "commits_of (ls_iterations ls) < MAX_TOTAL_COMMITS"
  shows "length (ls_iterations (snd (outer_loop tool lim mx now cur ls))) \<le> nat (max cur mx)
    \<and> ls_total_commits (snd (outer_loop tool lim mx now cur ls))
        = commits_of (ls_iterations (snd (outer_loop tool lim mx now cur ls)))
    \<and> commits_of (ls_iterations (snd (outer_loop tool lim mx now cur ls))) \<le> MAX_TOTAL_COMMITS
    \<and> commits_of (butlast (ls_iterations (snd (outer_loop tool lim mx now cur ls)))) < MAX_TOTAL_COMMITS"
  using assms
proof (induction tool lim mx now cur ls rule: outer_loop.induct)
  case (1 tool lim mx now cur ls)
  show ?case
  proof (cases "cur < mx")
    case False
    then have e: "outer_loop tool lim mx now cur ls = (cur, ls)"
      by (subst outer_loop.simps) simp
    have "commits_of (butlast (ls_iterations ls)) \<le> commits_of (ls_iterations ls)"
      by (cases "ls_iterations ls" rule: rev_cases) (simp_all add: commits_of_snoc commits_of_def)
    then show ?thesis using 1(2-5) False unfolding e by simp
  next
    case True
    let ?ls1 = "run_iteration tool lim mx now (cur + 1) ls"
    obtain rep where rep: "ls_iterations ?ls1 = ls_iterations ls @ [rep]"
      "ls_total_commits ?ls1 = ls_total_commits ls + (if ir_commit_sha rep \<noteq> [] then 1 else 0)"
      using run_iteration_history by blast
    have len1: "length (ls_iterations ?ls1) = nat (cur + 1)"
      using rep(1) 1(2,3) by (simp add: nat_add_distrib)
    have tc1: "ls_total_commits ?ls1 = commits_of (ls_iterations ?ls1)"
      using rep 1(4) by (simp add: commits_of_snoc)
    have le1: "commits_of (ls_iterations ?ls1) \<le> MAX_TOTAL_COMMITS"
      using rep(1) 1(5) by (simp add: commits_of_snoc)
    have bl1: "commits_of (butlast (ls_iterations ?ls1)) < MAX_TOTAL_COMMITS"
      using rep(1) 1(5) by simp
    have stop: "length (ls_iterations ?ls1) \<le> nat (max cur mx)
      \<and> ls_total_commits ?ls1 = commits_of (ls_iterations ?ls1)
      \<and> commits_of (ls_iterations ?ls1) \<le> MAX_TOTAL_COMMITS
      \<and> commits_of (butlast (ls_iterations ?ls1)) < MAX_TOTAL_COMMITS"
      using len1 tc1 le1 bl1 True 1(2) by simp
    show ?thesis
    proof (cases "ir_all_passed (last (ls_iterations ?ls1))
        \<or> ls_total_commits ?ls1 \<ge> MAX_TOTAL_COMMITS
        \<or> \<not> get_or (k_should_continue (ls_shared ?ls1)) False")
      case stopped: True
      then have e: "outer_loop tool lim mx now cur ls = (cur + 1, ?ls1)"
        using True by (subst outer_loop.simps) (auto simp: Let_def)
      show ?thesis unfolding e using stop by simp
    next
      case cont: False
      then have e: "outer_loop tool lim mx now cur ls = outer_loop tool lim mx now (cur + 1) ?ls1"
        using True by (subst outer_loop.simps) (auto simp: Let_def)
      have lt: "commits_of (ls_iterations ?ls1) < MAX_TOTAL_COMMITS"
        using cont tc1 by simp
      have ih: "length (ls_iterations (snd (outer_loop tool lim mx now (cur + 1) ?ls1))) \<le> nat (max (cur + 1) mx)
        \<and> ls_total_commits (snd (outer_loop tool lim mx now (cur + 1) ?ls1))
            = commits_of (ls_iterations (snd (outer_loop tool lim mx now (cur + 1) ?ls1)))
        \<and> commits_of (ls_iterations (snd (outer_loop tool lim mx now (cur + 1) ?ls1))) \<le> MAX_TOTAL_COMMITS
        \<and> commits_of (butlast (ls_iterations (snd (outer_loop tool lim mx now (cur + 1) ?ls1)))) < MAX_TOTAL_COMMITS"
      proof (rule 1(1) [OF True refl])
        show "\<not> ir_all_passed (last (ls_iterations ?ls1))" using cont by simp
        show "\<not> MAX_TOTAL_COMMITS \<le> ls_total_commits ?ls1" using cont by simp
        show "\<not> \<not> get_or (k_should_continue (ls_shared ?ls1)) False" using cont by simp
        show "0 \<le> cur + 1" using 1(2) by simp
        show "length (ls_iterations ?ls1) = nat (cur + 1)" by (rule len1)
        show "ls_total_commits ?ls1 = commits_of (ls_iterations ?ls1)" by (rule tc1)
        show "commits_of (ls_iterations ?ls1) < MAX_TOTAL_COMMITS" by (rule lt)
      qed
      have "nat (max (cur + 1) mx) = nat (max cur mx)" using True by simp
      then show ?thesis unfolding e using ih by simp
    qed
  qed
qed

text \<open>
  What the outer loop keeps: a run executes at most \<open>max_iterations\<close> iterations (none
  when \<open>max_iterations\<close> is not positive). Its counter \<open>total_commits\<close> is the number of
  iterations whose report carries a commit; it never exceeds \<open>MAX_TOTAL_COMMITS = 10\<close>,
  and the iterations before the last hold fewer than 10 such reports.
\<close>

lemma loop_counters:
  "rl_iterations_used (run_reasoning_loop tool lim w sh max_iterations now) \<le> nat max_iterations
   \<and> rl_total_commits (run_reasoning_loop tool lim w sh max_iterations now)
       = commits_of (rl_iterations (run_reasoning_loop tool lim w sh max_iterations now))
   \<and> rl_total_commits (run_reasoning_loop tool lim w sh max_iterations now) \<le> MAX_TOTAL_COMMITS
   \<and> MAX_TOTAL_COMMITS = 10
   \<and> commits_of (butlast (rl_iterations (run_reasoning_loop tool lim w sh max_iterations now)))
       < MAX_TOTAL_COMMITS"
proof -
  let ?ls0 = "initial_loop_state w sh"
  have "0 \<le> (0::int)" by simp
  moreover have "length (ls_iterations ?ls0) = nat 0" by (simp add: initial_loop_state_def)
  moreover have "ls_total_commits ?ls0 = commits_of (ls_iterations ?ls0)"
    by (simp add: initial_loop_state_def commits_of_def)
  moreover have "commits_of (ls_iterations ?ls0) < MAX_TOTAL_COMMITS"
    by (simp add: initial_loop_state_def commits_of_def MAX_TOTAL_COMMITS_def)
  ultimately have "length (ls_iterations (snd (outer_loop tool lim max_iterations now 0 ?ls0)))
        \<le> nat (max 0 max_iterations)
    \<and> ls_total_commits (snd (outer_loop tool lim max_iterations now 0 ?ls0))
        = commits_of (ls_iterations (snd (outer_loop tool lim max_iterations now 0 ?ls0)))
    \<and> commits_of (ls_iterations (snd (outer_loop tool lim max_iterations now 0 ?ls0))) \<le> MAX_TOTAL_COMMITS
    \<and> commits_of (butlast (ls_iterations (snd (outer_loop tool lim max_iterations now 0 ?ls0))))
        < MAX_TOTAL_COMMITS"
    by (rule outer_loop_budgets)
  moreover have "nat (max 0 max_iterations) = nat max_iterations" by simp
  ultimately show ?thesis
    by (simp add: run_reasoning_loop_def Let_def MAX_TOTAL_COMMITS_def)
qed

text \<open>
  Claim C6. The counter is raised once per iteration, but inside one invocation of the
  graph VERIFY leads back to CLASSIFY, and every round of that ring runs the commit tool
  again. With the scripted tools and the default of 5 iterations, each of the first four
  iterations commits three times before the recursion limit of 25 nodes ends it, and the
  fifth commits once: the run makes 13 commits while its counter stands at 5, below the
  budget of 10.
\<close>

theorem commit_budget_exceeded:
  "MAX_TOTAL_COMMITS = 10
   \<and> rl_iterations_used (run_reasoning_loop pushing_tool ''limit'' (0, 0) empty_shared 5 ''t'') = 5
   \<and> rl_total_commits (run_reasoning_loop pushing_tool ''limit'' (0, 0) empty_shared 5 ''t'') = 5
   \<and> snd (rl_world (run_reasoning_loop pushing_tool ''limit'' (0, 0) empty_shared 5 ''t'')) = 13
   \<and> map (\<lambda>rep. length (filter (\<lambda>phase. phase = COMMIT_PUSH) (ir_tool_invocations rep)))
        (rl_iterations (run_reasoning_loop pushing_tool ''limit'' (0, 0) empty_shared 5 ''t''))
     = [3, 3, 3, 3, 1]
   \<and> map ir_verdict
        (rl_iterations (run_reasoning_loop pushing_tool ''limit'' (0, 0) empty_shared 5 ''t''))
     = [''graph_error: limit'', ''graph_error: limit'', ''graph_error: limit'',
        ''graph_error: limit'', ''fail'']"
  by code_simp

section \<open>Early stop on stagnation\<close>

lemma update_shared_private:
  "k_prev_failure_keys (update_shared out s) = k_prev_failure_keys s"
  "k_ci_unavailable (update_shared out s) = k_ci_unavailable s"
  "k_tool_skipped (update_shared out s) = k_tool_skipped s"
  by (simp_all add: update_shared_def)

lemma after_classify_stores:
  assumes "get_or (k_classified_bugs (cx_state c)) [] \<noteq> []"
  shows "k_prev_failure_keys (cx_state (snd (after_classify cur c)))
         = Some (failure_keys (get_or (k_classified_bugs (cx_state c)) []))"
proof (cases "k_prev_failure_keys (cx_state c)")
  case None
  then show ?thesis using assms by (simp add: after_classify_def Let_def get_or_def)
next
  case (Some ks)
  then show ?thesis using assms by (auto simp: after_classify_def Let_def get_or_def)
qed

lemma other_transitions_keep_prev:
  assumes "phase \<noteq> CLASSIFY"
  shows "k_prev_failure_keys (cx_state (snd (reason_transition phase cur mx now c)))
         = k_prev_failure_keys (cx_state c)"
  using assms
  by (cases phase)
     (simp_all add: after_run_tests_def after_plan_fix_def after_apply_patch_def
        after_commit_push_def after_wait_for_ci_def after_fetch_ci_results_def
        after_verify_def Let_def)

lemma after_classify_same:
  assumes "get_or (k_classified_bugs (cx_state c)) [] \<noteq> []"
    and "k_prev_failure_keys (cx_state c)
         = Some (failure_keys (get_or (k_classified_bugs (cx_state c)) []))"
  shows "after_classify cur c
         = (DONE, c\<lparr>cx_report := (cx_report c)\<lparr>
                       ir_bugs_found := int (length (get_or (k_classified_bugs (cx_state c)) [])),
                       ir_verdict := ''no_new_failures''\<rparr>,
                     cx_memory := append_failures cur (get_or (k_classified_bugs (cx_state c)) [])
                                    (cx_memory c)\<rparr>)"
proof -
  let ?bugs = "get_or (k_classified_bugs (cx_state c)) []"
  obtain b bs where b: "?bugs = b # bs" using assms(1) by (cases ?bugs) auto
  have ne: "failure_keys ?bugs \<noteq> {}" unfolding b by (simp add: failure_keys_def)
  have g: "get_or (Some (failure_keys ?bugs)) {} = failure_keys ?bugs" by (simp add: get_or_def)
  show ?thesis
    using assms(1) ne by (simp add: after_classify_def Let_def assms(2) g next_stop_def)
qed

text \<open>
  What the CLASSIFY transition does on a repeated set. When the classifier runs and
  returns a non-empty list of bugs whose set of (file, bug type) pairs equals the set
  stored in the shared state, the graph invocation of the iteration ends right after
  CLASSIFY: the verdict is \<open>no_new_failures\<close> and no further tool is invoked in this
  invocation. The stored set is the one of the last CLASSIFY pass that found bugs: such a
  pass leaves its own set in the state, and neither a tool output nor the transition of
  another phase changes it.
\<close>

lemma classify_stop_ends_invocation:
  assumes "tool CLASSIFY w (cx_state c) (cx_memory c) = (Ran out, w1, m1)"
    and "bugs = get_or (k_classified_bugs (update_shared out (cx_state c))) []"
    and "bugs \<noteq> []"
    and "k_prev_failure_keys (cx_state c) = Some (failure_keys bugs)"
  shows "run_graph (Suc fuel) tool lim cur mx now CLASSIFY (w, c)
         = (w1, \<lparr>cx_state = update_shared out ((cx_state c)\<lparr>k_tool_skipped := False\<rparr>),
                 cx_report = (cx_report c)\<lparr>
                    ir_tool_invocations := ir_tool_invocations (cx_report c) @ [CLASSIFY],
                    ir_bugs_found := int (length bugs),
                    ir_verdict := ''no_new_failures''\<rparr>,
                 cx_memory = append_failures cur bugs m1\<rparr>)
     \<and> (get_or (k_classified_bugs (cx_state c0)) [] \<noteq> [] \<longrightarrow>
          k_prev_failure_keys (cx_state (snd (after_classify cur0 c0)))
          = Some (failure_keys (get_or (k_classified_bugs (cx_state c0)) [])))
     \<and> (phase \<noteq> CLASSIFY \<longrightarrow>
          k_prev_failure_keys (cx_state (snd (reason_transition phase cur0 mx0 now0 c0)))
          = k_prev_failure_keys (cx_state c0))
     \<and> k_prev_failure_keys (update_shared out0 s0) = k_prev_failure_keys s0"
proof -
  let ?s1 = "update_shared out ((cx_state c)\<lparr>k_tool_skipped := False\<rparr>)"
  let ?c1 = "c\<lparr>cx_state := ?s1, cx_memory := m1,
               cx_report := (cx_report c)\<lparr>ir_tool_invocations :=
                                         ir_tool_invocations (cx_report c) @ [CLASSIFY]\<rparr>\<rparr>"
  have b1: "get_or (k_classified_bugs (cx_state ?c1)) [] = bugs"
    using assms(2) by (simp add: update_shared_def)
  have p1: "k_prev_failure_keys (cx_state ?c1)
            = Some (failure_keys (get_or (k_classified_bugs (cx_state ?c1)) []))"
    unfolding b1 using assms(4) by (simp add: update_shared_def)
  have ne1: "get_or (k_classified_bugs (cx_state ?c1)) [] \<noteq> []"
    unfolding b1 by (rule assms(3))
  have sk: "\<not> k_tool_skipped (cx_state ?c1)" by (simp add: update_shared_def)
  have e: "edge CLASSIFY cur mx now ?c1
           = (DONE, ?c1\<lparr>cx_report := (cx_report ?c1)\<lparr>
                       ir_bugs_found := int (length bugs),
                       ir_verdict := ''no_new_failures''\<rparr>,
                     cx_memory := append_failures cur bugs (cx_memory ?c1)\<rparr>)"
    using after_classify_same [OF ne1 p1, of cur] sk unfolding b1 by (simp add: edge_def)
  have "run_graph (Suc fuel) tool lim cur mx now CLASSIFY (w, c)
         = (w1, snd (edge CLASSIFY cur mx now ?c1))"
    using e by (simp add: assms(1) Let_def)
  then have main: "run_graph (Suc fuel) tool lim cur mx now CLASSIFY (w, c)
         = (w1, \<lparr>cx_state = ?s1,
                 cx_report = (cx_report c)\<lparr>
                    ir_tool_invocations := ir_tool_invocations (cx_report c) @ [CLASSIFY],
                    ir_bugs_found := int (length bugs),
                    ir_verdict := ''no_new_failures''\<rparr>,
                 cx_memory = append_failures cur bugs m1\<rparr>)"
    unfolding e by simp
  show ?thesis
    using main after_classify_stores [of c0 cur0]
      other_transitions_keep_prev [of phase cur0 mx0 now0 c0]
      update_shared_private(1) [of out0 s0]
    by blast
qed

text \<open>
  Claim C5. In the scripted run with three iterations the classifier reports in
  iteration 2 the very set of iteration 1's last CLASSIFY pass (a logic bug in a.py), and
  iteration 2 ends after two tools with the verdict \<open>no_new_failures\<close>. The transition
  that stops it leaves the flag \<open>should_continue\<close> as the verifier of iteration 1 set it,
  and the outer loop reads that flag: it starts iteration 3, which applies a patch and
  commits it.
\<close>

theorem stagnation_does_not_stop_run:
  "map ir_verdict (rl_iterations (run_reasoning_loop scripted_tool ''limit'' 0 empty_shared 3 ''t''))
     = [''no_patches_applied'', ''no_new_failures'', ''fail'']
   \<and> map (\<lambda>f. (fr_file f, fr_bug_type f, fr_iteration f))
        (mem_failures (rl_memory (run_reasoning_loop scripted_tool ''limit'' 0 empty_shared 3 ''t'')))
     = [(''a.py'', ''LOGIC'', 1), (''a.py'', ''LOGIC'', 2), (''b.py'', ''LOGIC'', 3)]
   \<and> map ir_tool_invocations
        (rl_iterations (run_reasoning_loop scripted_tool ''limit'' 0 empty_shared 3 ''t''))
     = [[RUN_TESTS, CLASSIFY, PLAN_FIX, APPLY_PATCH, COMMIT_PUSH, WAIT_FOR_CI, FETCH_CI_RESULTS,
         VERIFY, CLASSIFY, PLAN_FIX, APPLY_PATCH],
        [RUN_TESTS, CLASSIFY],
        [RUN_TESTS, CLASSIFY, PLAN_FIX, APPLY_PATCH, COMMIT_PUSH, WAIT_FOR_CI, FETCH_CI_RESULTS,
         VERIFY]]
   \<and> map ir_patches_applied
        (rl_iterations (run_reasoning_loop scripted_tool ''limit'' 0 empty_shared 3 ''t''))
     = [0, 0, 1]
   \<and> map ir_commit_sha
        (rl_iterations (run_reasoning_loop scripted_tool ''limit'' 0 empty_shared 3 ''t''))
     = [''abc1234'', [], ''abc1234'']"
  by code_simp

section \<open>Test-file protection\<close>

lemma write_patch_frame:
  "snd (write_patch e abs_path old new bug d m files) p = files p \<or> p = abs_path"
  by (simp add: write_patch_def split: option.splits)

lemma apply_one_test_target:
  assumes "is_test_file (entry_target entry)"
  shows "apply_one e entry files
         = (not_applied (entry_bug entry) ''skipped_test_file''
              ''Test file protection (double check).'', files)"
  using assms by (simp add: apply_one_def Let_def entry_target_def entry_bug_def)

lemma apply_one_frame:
  assumes "is_test_file (entry_target entry) \<or> abs_path_of e (entry_target entry) \<noteq> p"
  shows "snd (apply_one e entry files) p = files p"
proof (cases "is_test_file (entry_target entry)")
  case True
  then show ?thesis by (simp add: apply_one_test_target)
next
  case False
  with assms have ne: "p \<noteq> abs_path_of e (entry_target entry)" by blast
  have w: "snd (write_patch e (abs_path_of e (entry_target entry)) old new bug d m files) p = files p"
    for old new bug d m
    using write_patch_frame [of e "abs_path_of e (entry_target entry)" old new bug d m files p] ne
    by blast
  show ?thesis
    using False
    by (simp add: apply_one_def Let_def entry_target_def [symmetric] w
        split: option.splits prod.splits)
qed

lemma apply_entries_frame:
  assumes "\<forall>entry \<in> set entries.
             is_test_file (entry_target entry) \<or> abs_path_of e (entry_target entry) \<noteq> p"
  shows "snd (apply_entries e entries files) p = files p"
  using assms
proof (induction entries arbitrary: files)
  case Nil
  then show ?case by simp
next
  case (Cons entry entries)
  have 1: "snd (apply_one e entry files) p = files p"
    using Cons.prems by (simp add: apply_one_frame)
  have 2: "snd (apply_entries e entries (snd (apply_one e entry files))) p
           = snd (apply_one e entry files) p"
    using Cons.prems by (intro Cons.IH) simp
  show ?case by (simp add: Let_def 1 2)
qed

lemma set_ordered_entries:
  "set (ordered_entries plan) = {entry \<in> set plan. \<not> non_actionable entry}"
  by (auto simp: ordered_entries_def Let_def)

lemma execute_frame:
  assumes "\<forall>entry \<in> set plan. non_actionable entry \<or> is_test_file (entry_target entry)
                              \<or> abs_path_of e (entry_target entry) \<noteq> p"
  shows "snd (PatchApplierTool_execute e plan files) p = files p"
proof -
  have "\<forall>entry \<in> set (ordered_entries plan).
          is_test_file (entry_target entry) \<or> abs_path_of e (entry_target entry) \<noteq> p"
    using assms unfolding set_ordered_entries by blast
  then show ?thesis
    by (simp add: PatchApplierTool_execute_def Let_def apply_entries_frame)
qed

lemma is_test_file_suffix:
  assumes "is_test_file s"
  shows "is_test_file (r @ ''/'' @ s)"
proof -
  have form: "\<forall>q \<in> set TEST_FILE_PATTERNS. \<exists>x. q = Seq comp_start x \<and> bol_free x"
    by (simp add: TEST_FILE_PATTERNS_def)
  from assms obtain q where q: "q \<in> set TEST_FILE_PATTERNS" "re_search q s"
    by (auto simp: is_test_file_def list_ex_iff)
  from form q(1) obtain x where x: "q = Seq comp_start x" "bol_free x" by blast
  have "re_search q (r @ ''/'' @ s)"
    using search_comp_start_suffix [OF x(2)] q(2) x(1) by simp
  with q(1) show ?thesis by (auto simp: is_test_file_def list_ex_iff)
qed

lemma plan_one_test_file:
  assumes "is_test_file (bug_file bug)"
  shows "plan_one pe bug
         = \<lparr>pe_bug = Some bug, pe_strategy = Some ''skip_test_file'',
            pe_reason = Some ''Will not modify test files.'', pe_description = None,
            pe_target_file = Some (bug_file bug), pe_source_context = Some []\<rparr>"
  using assms by (simp add: plan_one_def bug_file_def Let_def)

lemma plan_bug_test_file:
  assumes "is_test_file (bug_file bug)"
  shows "pe_strategy (plan_bug pe prev bug) = Some ''skip_test_file''
         \<and> pe_target_file (plan_bug pe prev bug) = Some (bug_file bug)"
proof -
  have m: "is_test_file (bug_file (bug\<lparr>b_escalate_to_llm := Some True\<rparr>))"
    using assms by (simp add: bug_file_def)
  show ?thesis
    by (simp add: plan_bug_def Let_def plan_one_test_file [OF assms] plan_one_test_file [OF m]
        get_or_def startswith_def bug_file_def)
qed

lemma plan_one_bug: "pe_bug (plan_one pe bug) = Some bug"
  by (simp add: plan_one_def Let_def split: option.splits sum.splits)

lemma plan_bug_bug:
  "bug_location (entry_bug (plan_bug pe prev bug)) = bug_location bug"
proof -
  let ?b = "if (get_or (b_file bug) ''unknown'', get_or (b_bug_type bug) []) \<in> prev
               \<or> (get_or (b_file bug) ''unknown'', []) \<in> prev
            then bug\<lparr>b_escalate_to_llm := Some True\<rparr> else bug"
  have "pe_bug (plan_bug pe prev bug) = pe_bug (plan_one pe ?b)"
    by (simp add: plan_bug_def Let_def)
  then have "entry_bug (plan_bug pe prev bug) = ?b"
    by (simp only: entry_bug_def plan_one_bug) (simp add: get_or_def)
  moreover have "bug_location ?b = bug_location bug"
    by (simp add: bug_location_def)
  ultimately show ?thesis by (simp only:)
qed

lemma plan_bug_actionable_target:
  assumes "\<not> non_actionable (plan_bug pe prev bug)"
  shows "\<exists>f t. locate pe f = Some t \<and> entry_target (plan_bug pe prev bug) = t"
proof -
  let ?b = "if (get_or (b_file bug) ''unknown'', get_or (b_bug_type bug) []) \<in> prev
               \<or> (get_or (b_file bug) ''unknown'', []) \<in> prev
            then bug\<lparr>b_escalate_to_llm := Some True\<rparr> else bug"
  have s: "pe_strategy (plan_bug pe prev bug) \<noteq> Some ''skip_test_file''"
    "pe_strategy (plan_bug pe prev bug) \<noteq> Some ''unresolvable''"
    using assms by (auto simp: non_actionable_def get_or_def)
  have t: "pe_target_file (plan_bug pe prev bug) = pe_target_file (plan_one pe ?b)"
    by (simp add: plan_bug_def Let_def)
  have o: "pe_strategy (plan_one pe ?b) \<noteq> Some ''skip_test_file''"
    "pe_strategy (plan_one pe ?b) \<noteq> Some ''unresolvable''"
    using s by (auto simp: plan_bug_def Let_def get_or_def startswith_def split: if_splits)
  then obtain t' where "locate pe (bug_file ?b) = Some t'" "pe_target_file (plan_one pe ?b) = Some t'"
    unfolding plan_one_def Let_def bug_file_def
    by (auto split: if_splits option.splits sum.splits)
  then show ?thesis using t by (auto simp: entry_target_def get_or_def)
qed

text \<open>
  Claim C2. For a bug whose file path matches the test-file patterns the planner emits
  an entry with strategy \<open>skip_test_file\<close> for its location, targeting that file, and
  every planned entry for a bug in a test file has that strategy. The applier never
  applies an entry whose target matches the patterns, whatever its strategy. When the
  applier opens the paths that the planner resolved (targets \<open>t\<close> with
  \<open>abs_path_of e t = t\<close>, as for an absolute repository path), running it on the plan
  leaves every file whose path matches the patterns byte for byte as it was; the path
  of the bug's file under any directory still matches them. On any plan, a path
  keeps its bytes unless an entry with an applicable strategy and a target that does not
  match the patterns denotes it.
\<close>

theorem test_file_protection:
  assumes "bug \<in> set bugs"
    and "is_test_file (bug_file bug)"
    and "\<forall>f t. locate pe f = Some t \<longrightarrow> abs_path_of e t = t"
    and "\<forall>entry \<in> set plan'. non_actionable entry \<or> is_test_file (entry_target entry)
                              \<or> abs_path_of e (entry_target entry) \<noteq> p'"
  shows "(\<exists>entry \<in> set (FixPlannerTool_execute pe mem patches bugs).
            pe_strategy entry = Some ''skip_test_file''
            \<and> pe_target_file entry = Some (bug_file bug)
            \<and> bug_location (entry_bug entry) = bug_location bug)
     \<and> (\<forall>entry \<in> set (FixPlannerTool_execute pe mem patches bugs).
            is_test_file (bug_file (entry_bug entry)) \<longrightarrow> pe_strategy entry = Some ''skip_test_file'')
     \<and> (\<forall>entry. is_test_file (entry_target entry) \<longrightarrow>
            apply_one e entry files
            = (not_applied (entry_bug entry) ''skipped_test_file''
                 ''Test file protection (double check).'', files))
     \<and> (\<forall>p. is_test_file p \<longrightarrow>
            snd (PatchApplierTool_execute e (FixPlannerTool_execute pe mem patches bugs) files) p
            = files p)
     \<and> is_test_file (repo_path @ ''/'' @ bug_file bug)
     \<and> snd (PatchApplierTool_execute e plan' files) p' = files p'"
proof (intro conjI)
  let ?plan = "FixPlannerTool_execute pe mem patches bugs"
  let ?prev = "prev_fix_keys mem patches"
  have "bug_location bug \<in> bug_location ` set (unique_by bug_location {} bugs)"
    using assms(1) by (simp only: unique_by_keys Diff_empty) simp
  then obtain b' where b': "b' \<in> set (unique_by bug_location {} bugs)"
    "bug_location b' = bug_location bug" by force
  have f: "bug_file b' = bug_file bug"
    using b'(2) by (simp add: bug_location_def bug_file_def)
  have t': "is_test_file (bug_file b')" using assms(2) f by simp
  have "plan_bug pe ?prev b' \<in> set ?plan"
    using b'(1) by (simp add: FixPlannerTool_execute_def)
  moreover have "pe_strategy (plan_bug pe ?prev b') = Some ''skip_test_file''
      \<and> pe_target_file (plan_bug pe ?prev b') = Some (bug_file bug)
      \<and> bug_location (entry_bug (plan_bug pe ?prev b')) = bug_location bug"
    using plan_bug_test_file [OF t', of pe ?prev] plan_bug_bug [of pe ?prev b'] f b'(2) by simp
  ultimately show "\<exists>entry \<in> set ?plan.
            pe_strategy entry = Some ''skip_test_file''
            \<and> pe_target_file entry = Some (bug_file bug)
            \<and> bug_location (entry_bug entry) = bug_location bug"
    by blast
  show "\<forall>entry \<in> set ?plan.
            is_test_file (bug_file (entry_bug entry)) \<longrightarrow> pe_strategy entry = Some ''skip_test_file''"
  proof (intro ballI impI)
    fix entry assume en: "entry \<in> set ?plan" and tf: "is_test_file (bug_file (entry_bug entry))"
    from en obtain b where b: "entry = plan_bug pe ?prev b"
      by (auto simp: FixPlannerTool_execute_def)
    have "bug_location (entry_bug entry) = bug_location b" unfolding b by (rule plan_bug_bug)
    then have "bug_file (entry_bug entry) = bug_file b"
      by (simp add: bug_location_def bug_file_def)
    with tf have "is_test_file (bug_file b)" by simp
    then show "pe_strategy entry = Some ''skip_test_file''"
      unfolding b by (simp add: plan_bug_test_file)
  qed
  show "\<forall>entry. is_test_file (entry_target entry) \<longrightarrow>
            apply_one e entry files
            = (not_applied (entry_bug entry) ''skipped_test_file''
                 ''Test file protection (double check).'', files)"
    by (simp add: apply_one_test_target)
  show "\<forall>p. is_test_file p \<longrightarrow> snd (PatchApplierTool_execute e ?plan files) p = files p"
  proof (intro allI impI)
    fix p assume tp: "is_test_file p"
    have "\<forall>entry \<in> set ?plan. non_actionable entry \<or> is_test_file (entry_target entry)
                              \<or> abs_path_of e (entry_target entry) \<noteq> p"
    proof
      fix entry assume en: "entry \<in> set ?plan"
      from en obtain b where b: "entry = plan_bug pe ?prev b"
        by (auto simp: FixPlannerTool_execute_def)
      show "non_actionable entry \<or> is_test_file (entry_target entry)
            \<or> abs_path_of e (entry_target entry) \<noteq> p"
      proof (cases "non_actionable entry \<or> is_test_file (entry_target entry)")
        case True
        then show ?thesis by blast
      next
        case False
        then obtain f t where ft: "locate pe f = Some t" "entry_target entry = t"
          using plan_bug_actionable_target [of pe ?prev b] b by blast
        have "abs_path_of e (entry_target entry) = entry_target entry"
          using assms(3) ft by simp
        moreover have "entry_target entry \<noteq> p" using False tp by blast
        ultimately show ?thesis by simp
      qed
    qed
    then show "snd (PatchApplierTool_execute e ?plan files) p = files p"
      by (rule execute_frame)
  qed
  show "is_test_file (repo_path @ ''/'' @ bug_file bug)"
    using assms(2) by (rule is_test_file_suffix)
  show "snd (PatchApplierTool_execute e plan' files) p' = files p'"
    using assms(4) by (rule execute_frame)
qed

theorem test_file_protection_witness:
  "is_test_file (bug_file (hd demo_bugs))
   \<and> list_ex (\<lambda>entry. pe_strategy entry = Some ''skip_test_file''
                     \<and> pe_target_file entry = Some ''tests/test_app.py'')
       (FixPlannerTool_execute demo_planner_env None [] demo_bugs)
   \<and> snd (PatchApplierTool_execute demo_env
            (FixPlannerTool_execute demo_planner_env None [] demo_bugs) demo_fs)
         ''/repo/tests/test_app.py'' = Some test_app_py
   \<and> snd (PatchApplierTool_execute demo_env
            [\<lparr>pe_bug = Some (hd demo_bugs), pe_strategy = Some ''deterministic_colon'',
              pe_reason = None, pe_description = None,
              pe_target_file = Some ''tests/test_app.py'', pe_source_context = None\<rparr>] demo_fs)
         ''/repo/tests/test_app.py'' = Some test_app_py
   \<and> snd (PatchApplierTool_execute demo_env
            (FixPlannerTool_execute demo_planner_env None [] demo_bugs) demo_fs) ''/repo/app.py''
       = Some (''def greet(name):'' @ [CHR 0x0A] @ ''    return name'' @ [CHR 0x0A])"
proof -
  let ?bug = "hd demo_bugs"
  let ?plan = "FixPlannerTool_execute demo_planner_env None [] demo_bugs"
  let ?plan' = "[\<lparr>pe_bug = Some (hd demo_bugs), pe_strategy = Some ''deterministic_colon'',
                  pe_reason = None, pe_description = None,
                  pe_target_file = Some ''tests/test_app.py'', pe_source_context = None\<rparr>]"
  let ?p = "''/repo/tests/test_app.py''"
  have h1: "?bug \<in> set demo_bugs" by (simp add: demo_bugs_def)
  have h2: "is_test_file (bug_file ?bug)" by code_simp
  have h3: "\<forall>f t. locate demo_planner_env f = Some t \<longrightarrow> abs_path_of demo_env t = t"
    by (simp add: demo_planner_env_def demo_env_def startswith_def)
  have h4: "\<forall>entry \<in> set ?plan'. non_actionable entry \<or> is_test_file (entry_target entry)
                                 \<or> abs_path_of demo_env (entry_target entry) \<noteq> ?p"
    by code_simp
  have tp: "is_test_file ?p" by code_simp
  have bf: "bug_file ?bug = ''tests/test_app.py''" by code_simp
  have fs: "demo_fs ?p = Some test_app_py" by (simp add: demo_fs_def)
  note t = test_file_protection [where bug = ?bug and bugs = demo_bugs and pe = demo_planner_env
      and e = demo_env and plan' = ?plan' and p' = ?p and mem = None and patches = "[]"
      and files = demo_fs and repo_path = "''/repo''", OF h1 h2 h3 h4]
  from t have "\<exists>entry \<in> set ?plan. pe_strategy entry = Some ''skip_test_file''
            \<and> pe_target_file entry = Some (bug_file ?bug)
            \<and> bug_location (entry_bug entry) = bug_location ?bug" by (rule conjunct1)
  then have c1: "list_ex (\<lambda>entry. pe_strategy entry = Some ''skip_test_file''
                     \<and> pe_target_file entry = Some ''tests/test_app.py'') ?plan"
    unfolding list_ex_iff bf by blast
  from t have "\<forall>p. is_test_file p \<longrightarrow> snd (PatchApplierTool_execute demo_env ?plan demo_fs) p = demo_fs p"
    by blast
  with tp fs have c2: "snd (PatchApplierTool_execute demo_env ?plan demo_fs) ?p = Some test_app_py"
    by simp
  from t have "snd (PatchApplierTool_execute demo_env ?plan' demo_fs) ?p = demo_fs ?p"
    by blast
  with fs have c3: "snd (PatchApplierTool_execute demo_env ?plan' demo_fs) ?p = Some test_app_py"
    by simp
  have c4: "snd (PatchApplierTool_execute demo_env ?plan demo_fs) ''/repo/app.py''
       = Some (''def greet(name):'' @ [CHR 0x0A] @ ''    return name'' @ [CHR 0x0A])"
    by code_simp
  from h2 c1 c2 c3 c4 show ?thesis by (intro conjI)
qed
section \<open>Bottom-up application\<close>

text \<open>The edits of the deterministic rules other than the recursion rule leave the lines
  before the bug line as they are.\<close>

lemma take_insert_at: "k \<le> i \<Longrightarrow> i \<le> length xs \<Longrightarrow> take k (insert_at i x xs) = take k xs"
  by (simp add: insert_at_def min_def)

lemma fix_indentation_keeps:
  "fix_indentation lines idx = Some new \<Longrightarrow> idx \<le> length lines
   \<Longrightarrow> take idx new = take idx lines"
  by (auto simp: fix_indentation_def Let_def take_insert_at split: option.splits if_splits)

lemma fix_index_error_keeps:
  "fix_index_error lines idx = Some (new, d) \<Longrightarrow> idx \<le> length lines
   \<Longrightarrow> take idx new = take idx lines"
  by (auto simp: fix_index_error_def Let_def take_insert_at split: option.splits prod.splits)

lemma deterministic_patch_keeps:
  assumes "deterministic_patch rs strategy lines bug = Some (new, d)"
    and "strategy \<noteq> ''deterministic_recursion_error''"
    and "\<forall>rule \<in> set [remove_unused_import rs, fix_type_error rs, fix_logic_error rs,
                        fix_zero_division rs].
           \<forall>ls idx b new' d'. rule ls idx b = Some (new', d') \<longrightarrow> take idx new' = take idx ls"
  shows "take (nat (get_or (b_line bug) 0) - 1) new = take (nat (get_or (b_line bug) 0) - 1) lines"
proof -
  let ?L = "get_or (b_line bug) 0"
  have r: "\<not> (?L < 1 \<or> ?L > int (length lines))"
    using assms(1) by (auto simp: deterministic_patch_def Let_def)
  have i: "nat (?L - 1) = nat ?L - 1" by simp
  have le: "nat ?L - 1 \<le> length lines" using r by linarith
  have u: "\<And>ls idx b new' d'. remove_unused_import rs ls idx b = Some (new', d')
             \<Longrightarrow> take idx new' = take idx ls"
    and t: "\<And>ls idx b new' d'. fix_type_error rs ls idx b = Some (new', d')
             \<Longrightarrow> take idx new' = take idx ls"
    and l: "\<And>ls idx b new' d'. fix_logic_error rs ls idx b = Some (new', d')
             \<Longrightarrow> take idx new' = take idx ls"
    and z: "\<And>ls idx b new' d'. fix_zero_division rs ls idx b = Some (new', d')
             \<Longrightarrow> take idx new' = take idx ls"
    using assms(3) by (simp, blast)+
  show ?thesis
    using assms(1,2) r le
    by (auto simp: deterministic_patch_def Let_def i fix_indentation_keeps fix_index_error_keeps
        split: if_splits option.splits intro: u t l z)
qed

text \<open>The order of application: every actionable entry once, grouped by target in
  ascending order, inside a group by line in descending order.\<close>

lemma count_list_insort_key: "count_list (insort_key f a xs) x = count_list (a # xs) x"
  by (induction xs) auto

lemma count_list_sort_key: "count_list (sort_key f xs) x = count_list xs x"
  by (induction xs) (simp_all add: count_list_insort_key)

lemma count_list_filter: "count_list (filter P xs) x = (if P x then count_list xs x else 0)"
  by (induction xs) auto

lemma count_list_groups:
  "distinct ks \<Longrightarrow>
   count_list (concat (map (\<lambda>k. sort_key f (filter (\<lambda>entry. g entry = k) xs)) ks)) x
   = (if g x \<in> set ks then count_list xs x else 0)"
  by (induction ks) (auto simp: count_list_sort_key count_list_filter)

lemma ordered_entries_count:
  "count_list (ordered_entries plan) x
   = count_list (filter (\<lambda>entry. \<not> non_actionable entry) plan) x"
proof -
  let ?acts = "filter (\<lambda>entry. \<not> non_actionable entry) plan"
  let ?ks = "sort (remdups (map group_target ?acts))"
  have d: "distinct ?ks" by simp
  have "count_list (ordered_entries plan) x
        = (if group_target x \<in> set ?ks then count_list ?acts x else 0)"
    unfolding ordered_entries_def Let_def using d by (rule count_list_groups)
  moreover have "count_list ?acts x = 0" if "group_target x \<notin> set ?ks"
  proof -
    have "x \<notin> set ?acts" using that by auto
    then show ?thesis by (rule count_notin)
  qed
  ultimately show ?thesis by auto
qed

lemma sorted_groups:
  assumes "sorted ks" and "distinct ks"
  shows "sorted_wrt (\<lambda>a b. g a < g b \<or> (g a = g b \<and> f a \<le> f b))
           (concat (map (\<lambda>k. sort_key f (filter (\<lambda>entry. g entry = k) xs)) ks))"
  using assms
proof (induction ks)
  case Nil
  then show ?case by simp
next
  case (Cons k ks)
  let ?R = "\<lambda>a b. g a < g b \<or> (g a = g b \<and> f a \<le> f b)"
  let ?h = "\<lambda>k. sort_key f (filter (\<lambda>entry. g entry = k) xs)"
  have "sorted (map f (?h k))" by (rule sorted_sort_key)
  then have s: "sorted_wrt (\<lambda>a b. f a \<le> f b) (?h k)" by (simp only: sorted_map)
  have gk: "\<And>a. a \<in> set (?h k) \<Longrightarrow> g a = k" by simp
  have 1: "sorted_wrt ?R (?h k)"
  proof (rule sorted_wrt_mono_rel [OF _ s])
    fix a b assume "a \<in> set (?h k)" "b \<in> set (?h k)" "f a \<le> f b"
    then show "?R a b" using gk [of a] gk [of b] by simp
  qed
  have 2: "sorted_wrt ?R (concat (map ?h ks))" using Cons by simp
  have 3: "\<forall>a \<in> set (?h k). \<forall>b \<in> set (concat (map ?h ks)). ?R a b"
  proof (intro ballI)
    fix a b assume a: "a \<in> set (?h k)" and b: "b \<in> set (concat (map ?h ks))"
    have ga: "g a = k" using a by simp
    have "g b \<in> set ks" using b by auto
    then have "k < g b" using Cons.prems by (auto simp: order.strict_iff_order)
    then show "?R a b" using ga by simp
  qed
  show ?case using 1 2 3 by (simp add: sorted_wrt_append)
qed

lemma ordered_entries_bottom_up:
  "sorted_wrt (\<lambda>a1 a2. group_target a1 < group_target a2
                     \<or> (group_target a1 = group_target a2 \<and> entry_line a2 \<le> entry_line a1))
     (ordered_entries plan)"
proof -
  have "sorted_wrt (\<lambda>a1 a2. group_target a1 < group_target a2
                        \<or> (group_target a1 = group_target a2
                            \<and> - entry_line a1 \<le> - entry_line a2))
         (ordered_entries plan)"
    unfolding ordered_entries_def Let_def by (rule sorted_groups) simp_all
  then show ?thesis by simp
qed

text \<open>
  Claim C4. The file fact.py has a missing bracket at line 4 and a recursion error at
  line 5; the planner plans a deterministic rule for each. The applier takes the entry
  for line 5 first, as the claim says. Its rule,
  \<open>_fix_recursion_error\<close>, inserts the guard after the \<open>if n == 0\<close> / \<open>return\<close> pair
  above the bug line, so that line 4 of the file is now the guard's \<open>if n < 0:\<close>. The
  pending entry for line 4 meets that line, finds no open bracket and is reported
  \<open>no_fix_generated\<close>; the bracket stays open in the file. Applied alone, the same entry
  closes the bracket.
\<close>

theorem bottom_up_drift:
  "map (\<lambda>entry. (pe_strategy entry, pe_target_file entry, entry_line entry))
     (FixPlannerTool_execute (planner_of src_fs) None [] fact_bugs)
   = [(Some ''deterministic_bracket'', Some ''/repo/fact.py'', 4),
      (Some ''deterministic_recursion_error'', Some ''/repo/fact.py'', 5)]
   \<and> map entry_line (ordered_entries (FixPlannerTool_execute (planner_of src_fs) None [] fact_bugs))
     = [5, 4]
   \<and> splitlines (read_text_of (the (src_fs ''/repo/fact.py''))) ! 3 = ''    m = (n - 1'' @ [CHR 0x0A]
   \<and> splitlines (read_text_of (the (snd (apply_one demo_env
        (hd (ordered_entries (FixPlannerTool_execute (planner_of src_fs) None [] fact_bugs)))
        src_fs) ''/repo/fact.py''))) ! 3 = ''    if n < 0:'' @ [CHR 0x0A]
   \<and> map p_status (ao_applied_patches (fst (PatchApplierTool_execute demo_env
        (FixPlannerTool_execute (planner_of src_fs) None [] fact_bugs) src_fs))) = [''applied'']
   \<and> map (\<lambda>res. (p_status res, b_line (get_or (p_bug res) empty_bug)))
        (ao_skipped_patches (fst (PatchApplierTool_execute demo_env
           (FixPlannerTool_execute (planner_of src_fs) None [] fact_bugs) src_fs)))
     = [(''no_fix_generated'', Some 4)]
   \<and> snd (PatchApplierTool_execute demo_env
        (FixPlannerTool_execute (planner_of src_fs) None [] fact_bugs) src_fs) ''/repo/fact.py''
     = Some (''def fact(n):'' @ [CHR 0x0A]
             @ ''    if n == 0:'' @ [CHR 0x0A]
             @ ''        return 1'' @ [CHR 0x0A]
             @ ''    if n < 0:'' @ [CHR 0x0A]
             @ ''        return 1'' @ [CHR 0x0A]
             @ ''    m = (n - 1'' @ [CHR 0x0A]
             @ ''    return n * fact(m)'' @ [CHR 0x0A])
   \<and> snd (PatchApplierTool_execute demo_env
        (FixPlannerTool_execute (planner_of src_fs) None [] (take 1 fact_bugs)) src_fs) ''/repo/fact.py''
     = Some (''def fact(n):'' @ [CHR 0x0A]
             @ ''    if n == 0:'' @ [CHR 0x0A]
             @ ''        return 1'' @ [CHR 0x0A]
             @ ''    m = (n - 1)'' @ [CHR 0x0A]
             @ ''    return n * fact(m)'' @ [CHR 0x0A])"
  by code_simp
section \<open>Change-size cap\<close>

text \<open>The only size check of the applier: a model-assisted patch is dropped when the
  number of lines of the file moves by more than the cap. Then nothing is written.\<close>

lemma llm_patch_cap:
  assumes "new_text lines bug abs_path source_context = Some content"
  shows "llm_patch new_text lines bug abs_path source_context = None
         \<longleftrightarrow> length (splitlines content) > length lines + MAX_CHANGED_LINES
             \<or> length lines > length (splitlines content) + MAX_CHANGED_LINES"
  using assms by (auto simp: llm_patch_def Let_def)

lemma apply_one_no_patch:
  assumes "det_patch e (get_or (pe_strategy entry) []) = (\<lambda>lines bug. None)"
    and "model_patch e = (\<lambda>lines bug abs_path source_context. None)"
  shows "snd (apply_one e entry files) = files
         \<and> p_status (fst (apply_one e entry files)) \<noteq> ''applied''"
  using assms
  by (simp add: apply_one_def Let_def not_applied_def split: option.splits)

text \<open>
  Claim C1. The planner sends the bug at line 1 of the 22-line script to the rule
  \<open>deterministic_index_error\<close>; the line has no indexed access, so the rule wraps the
  block that starts there, all 22 lines, in \<open>try\<close>/\<open>except\<close>. The applier reports the
  entry as applied and writes the file: 22 of its lines differ from before and 3 are
  new, against a cap of 20; only the recorded diff is cut to 20 entries. A
  model-assisted patch that rewrites all 22 lines and keeps their number passes the
  size check as well.
\<close>

theorem cap_not_enforced:
  "MAX_CHANGED_LINES = 20
   \<and> map pe_strategy (FixPlannerTool_execute (planner_of src_fs) None [] [drain_bug])
     = [Some ''deterministic_index_error'']
   \<and> map p_status (ao_applied_patches (fst (PatchApplierTool_execute demo_env
         (FixPlannerTool_execute (planner_of src_fs) None [] [drain_bug]) src_fs)))
     = [''applied'']
   \<and> snd (PatchApplierTool_execute demo_env
         (FixPlannerTool_execute (planner_of src_fs) None [] [drain_bug]) src_fs) ''/repo/drain.py''
     = Some (''try:'' @ [CHR 0x0A]
             @ concat (replicate 22 (''    items.pop()'' @ [CHR 0x0A]))
             @ ''except (IndexError, KeyError):'' @ [CHR 0x0A]
             @ ''    continue'' @ [CHR 0x0A])
   \<and> length (diff_lines (splitlines drain_py)
         (splitlines (the (snd (PatchApplierTool_execute demo_env
            (FixPlannerTool_execute (planner_of src_fs) None [] [drain_bug]) src_fs)
            ''/repo/drain.py'')))) = 22
   \<and> map (map_option length \<circ> p_patch) (ao_applied_patches (fst (PatchApplierTool_execute demo_env
         (FixPlannerTool_execute (planner_of src_fs) None [] [drain_bug]) src_fs)))
     = [Some 20]
   \<and> llm_patch (scripted_answer (concat (replicate 22 (''pass'' @ [CHR 0x0A]))))
         (splitlines drain_py) drain_bug ''/repo/drain.py'' []
     = Some (replicate 22 (''pass'' @ [CHR 0x0A]), ''LLM fix around line 1 via SEARCH/REPLACE'')"
  by code_simp
end
